theory Spec2Isabelle
  imports Main
begin

section \<open>Python values, errors and the trace of collaborator calls\<close>

text \<open>
  The controller of \<^verbatim>\<open>cinder/api/v2/volumes.py\<close> works on deserialised JSON: request
  bodies, request mappings and the entities its collaborators hand back are Python values
  read with \<^verbatim>\<open>in\<close>, \<^verbatim>\<open>[...]\<close>, \<^verbatim>\<open>.get\<close>, \<^verbatim>\<open>.pop\<close> and \<^verbatim>\<open>del\<close>. A dictionary is a
  map from keys to values (the code never depends on the order of the keys).
  Floating point numbers are left out of the value type.
\<close>

datatype pyval =
    VNone
  | VBool bool
  | VInt int
  | VStr string
  | VList "pyval list"
  | VDict "string \<Rightarrow> pyval option"

type_synonym dict = "string \<Rightarrow> pyval option"

text \<open>Python's truth test (\<^verbatim>\<open>if x\<close>, \<^verbatim>\<open>not x\<close>).\<close>

fun truthy :: "pyval \<Rightarrow> bool" where
  "truthy VNone = False"
| "truthy (VBool b) = b"
| "truthy (VInt i) = (i \<noteq> 0)"
| "truthy (VStr s) = (s \<noteq> [])"
| "truthy (VList xs) = (xs \<noteq> [])"
| "truthy (VDict d) = (d \<noteq> Map.empty)"

text \<open>
  The explanation of an error: a literal text, or a template with the value substituted
  for its \<^verbatim>\<open>%s\<close>.
\<close>

datatype message = Msg string | MsgArg string pyval

text \<open>
  The exceptions of the file: the three HTTP errors it raises itself, the exceptions of
  the collaborators it names, and what Python raises on a bad subscript or membership
  test. All of them are instances of \<^verbatim>\<open>Exception\<close>.
\<close>

datatype error =
    HTTPBadRequest message
  | HTTPConflict message
  | HTTPRequestEntityTooLarge message
  | NotFound message
  | InvalidInput message
  | InvalidVolumeMetadataSize message
  | KeyError string
  | TypeError
  | OtherError string

text \<open>\<^verbatim>\<open>d.get(k)\<close>: the value under the key, \<^verbatim>\<open>None\<close> when the key is absent.\<close>

definition dict_get :: "dict \<Rightarrow> string \<Rightarrow> pyval" where
  "dict_get d k = (case d k of None \<Rightarrow> VNone | Some v \<Rightarrow> v)"

text \<open>\<^verbatim>\<open>d.get(k, default)\<close>.\<close>

definition dict_get_default :: "dict \<Rightarrow> string \<Rightarrow> pyval \<Rightarrow> pyval" where
  "dict_get_default d k dflt = (case d k of None \<Rightarrow> dflt | Some v \<Rightarrow> v)"

text \<open>\<^verbatim>\<open>d[k]\<close> on a dictionary: \<^verbatim>\<open>KeyError\<close> when the key is absent.\<close>

definition dict_getitem :: "dict \<Rightarrow> string \<Rightarrow> error + pyval" where
  "dict_getitem d k = (case d k of None \<Rightarrow> Inl (KeyError k) | Some v \<Rightarrow> Inr v)"

text \<open>
  \<^verbatim>\<open>x[k]\<close> with a string key on any value: only a dictionary can be subscripted by a
  string; strings and lists want integer indices and the other values are not
  subscriptable, both a \<^verbatim>\<open>TypeError\<close>.
\<close>

fun py_getitem :: "pyval \<Rightarrow> string \<Rightarrow> error + pyval" where
  "py_getitem (VDict d) k = dict_getitem d k"
| "py_getitem v k = Inl TypeError"

text \<open>Substring test, for \<^verbatim>\<open>k in s\<close> on a string.\<close>

fun starts_with :: "string \<Rightarrow> string \<Rightarrow> bool" where
  "starts_with s [] = True"
| "starts_with [] (p # ps) = False"
| "starts_with (c # cs) (p # ps) = (c = p \<and> starts_with cs ps)"

fun str_contains :: "string \<Rightarrow> string \<Rightarrow> bool" where
  "str_contains [] p = (p = [])"
| "str_contains (c # cs) p = (starts_with (c # cs) p \<or> str_contains cs p)"

text \<open>
  \<^verbatim>\<open>k in x\<close> with a string \<^verbatim>\<open>k\<close>: key membership on a dictionary, element membership on
  a list, substring on a string, \<^verbatim>\<open>TypeError\<close> on a value that is no container.
\<close>

fun py_contains :: "string \<Rightarrow> pyval \<Rightarrow> error + bool" where
  "py_contains k (VDict d) = Inr (d k \<noteq> None)"
| "py_contains k (VList xs) = Inr (VStr k \<in> set xs)"
| "py_contains k (VStr s) = Inr (str_contains s k)"
| "py_contains k v = Inl TypeError"

text \<open>
  \<^verbatim>\<open>s.split(sep)\<close> for a one-character separator: never empty, one more part than
  there are separators. \<^verbatim>\<open>.pop()\<close> on the result takes its last part.
\<close>

fun py_split :: "char \<Rightarrow> string \<Rightarrow> string list" where
  "py_split sep [] = [[]]"
| "py_split sep (c # cs) =
     (if c = sep then [] # py_split sep cs
      else (case py_split sep cs of p # ps \<Rightarrow> (c # p) # ps | [] \<Rightarrow> [[c]]))"

text \<open>
  \<^verbatim>\<open>xs.index(x)\<close>: the position of the first occurrence. The code calls it only under
  the guard \<^verbatim>\<open>x in xs\<close>, where Python does not raise \<^verbatim>\<open>ValueError\<close>.
\<close>

fun py_index :: "'a list \<Rightarrow> 'a \<Rightarrow> nat" where
  "py_index [] x = 0"
| "py_index (y # ys) x = (if y = x then 0 else Suc (py_index ys x))"

subsection \<open>Query parameters\<close>

text \<open>
  The query parameters of a request (\<^verbatim>\<open>req.params\<close>, line 91) are a webob \<^verbatim>\<open>MultiDict\<close>: the
  (key, value) pairs of the query string in their order, where a key may occur more than
  once. The operations that lines 98 and 107 to 109 use: \<^verbatim>\<open>d.pop(key, default)\<close> deletes the
  first pair under the key and no other; \<^verbatim>\<open>key in d\<close> holds when some pair has the key;
  \<^verbatim>\<open>d[key]\<close> is the value of the last pair under the key and raises \<^verbatim>\<open>KeyError\<close> when there is
  none; \<^verbatim>\<open>del d[key]\<close> deletes every pair under the key and raises \<^verbatim>\<open>KeyError\<close> when there
  is none; \<^verbatim>\<open>d[key] = value\<close> deletes every pair under the key and appends the new pair.
\<close>

type_synonym multidict = "(string \<times> pyval) list"

fun multidict_pop :: "string \<Rightarrow> multidict \<Rightarrow> multidict" where
  "multidict_pop key [] = []"
| "multidict_pop key (item # items) =
     (if fst item = key then items else item # multidict_pop key items)"

definition multidict_contains :: "string \<Rightarrow> multidict \<Rightarrow> bool" where
  "multidict_contains key d = (key \<in> set (map fst d))"

definition multidict_getitem :: "multidict \<Rightarrow> string \<Rightarrow> error + pyval" where
  "multidict_getitem d key =
     (case map_of (rev d) key of None \<Rightarrow> Inl (KeyError key) | Some v \<Rightarrow> Inr v)"

definition multidict_delitem :: "multidict \<Rightarrow> string \<Rightarrow> error + multidict" where
  "multidict_delitem d key =
     (if multidict_contains key d then Inr (filter (\<lambda>item. fst item \<noteq> key) d)
      else Inl (KeyError key))"

definition multidict_setitem :: "multidict \<Rightarrow> string \<Rightarrow> pyval \<Rightarrow> multidict" where
  "multidict_setitem d key v = filter (\<lambda>item. fst item \<noteq> key) d @ [(key, v)]"

subsection \<open>Calls handed to the provisioning collaborator\<close>

text \<open>
  The arguments of \<^verbatim>\<open>volume_api.create(context, size, name, description, **kwargs)\<close>.
  A keyword the code sets in every run holds a value (\<^verbatim>\<open>None\<close> of Python is \<open>None\<close>
  for an entity, \<open>VNone\<close> for a plain value); \<^verbatim>\<open>volume_type\<close> and \<^verbatim>\<open>image_id\<close> are
  set only on some paths, \<open>None\<close> is the keyword left out.
\<close>

record create_call =
  arg_size :: pyval
  arg_name :: pyval
  arg_description :: pyval
  kw_volume_type :: "dict option"
  kw_metadata :: pyval
  kw_snapshot :: "dict option"
  kw_source_volume :: "dict option"
  kw_source_replica :: "dict option"
  kw_consistencygroup :: "dict option"
  kw_image_id :: "pyval option"
  kw_availability_zone :: pyval
  kw_scheduler_hints :: pyval
  kw_multiattach :: pyval

text \<open>The arguments of \<^verbatim>\<open>volume_api.get_all\<close>.\<close>

record get_all_call =
  ga_marker :: pyval
  ga_limit :: pyval
  ga_sort_keys :: "string list"
  ga_sort_dirs :: "string list"
  ga_filters :: multidict
  ga_viewable_admin_meta :: bool
  ga_offset :: pyval

text \<open>One entry per call into a collaborator, in the order the calls are made.\<close>

datatype event =
    Call_get_volume_type_by_name pyval
  | Call_get_volume_type pyval
  | Call_get_snapshot pyval
  | Call_get_volume pyval
  | Call_consistencygroup_get pyval
  | Call_image_show string
  | Call_image_detail dict
  | Call_volume_create create_call
  | Call_remove_invalid_filter_options multidict "string list"
  | Call_check_volume_filters multidict
  | Call_get_all get_all_call
  | Call_volume_get pyval
  | Call_notify_about_volume_usage dict string
  | Call_volume_update dict dict

text \<open>
  A computation returns a value or raises, and leaves the trace of the collaborator calls
  it made.
\<close>

type_synonym 'a res = "(error + 'a) \<times> event list"

definition ok :: "'a \<Rightarrow> 'a res" where
  "ok x = (Inr x, [])"

definition fail :: "error \<Rightarrow> 'a res" where
  "fail e = (Inl e, [])"

definition lift :: "error + 'a \<Rightarrow> 'a res" where
  "lift r = (r, [])"

definition call :: "event \<Rightarrow> error + 'a \<Rightarrow> 'a res" where
  "call ev r = (r, [ev])"

definition and_then :: "'a res \<Rightarrow> ('a \<Rightarrow> 'b res) \<Rightarrow> 'b res" where
  "and_then m f =
     (case m of
        (Inl e, t) \<Rightarrow> (Inl e, t)
      | (Inr x, t) \<Rightarrow> (case f x of (r, t') \<Rightarrow> (r, t @ t')))"

definition outcome :: "'a res \<Rightarrow> error + 'a" where
  "outcome m = fst m"

definition trace :: "'a res \<Rightarrow> event list" where
  "trace m = snd m"

fun lift_unit :: "error option \<Rightarrow> error + unit" where
  "lift_unit None = Inr ()"
| "lift_unit (Some e) = Inl e"

section \<open>The collaborators\<close>

text \<open>
  The request context (\<^verbatim>\<open>req.environ['cinder.context']\<close>); the file itself never looks
  into it, the helpers it is passed to do.
\<close>

record request_context =
  is_admin :: bool

text \<open>
  Everything the controller calls and this file does not define is a parameter: the
  methods inherited from \<^verbatim>\<open>wsgi.Controller\<close>, the helpers of \<^verbatim>\<open>common\<close>, \<^verbatim>\<open>utils\<close> and
  \<^verbatim>\<open>volume_utils\<close>, \<^verbatim>\<open>uuidutils.is_uuid_like\<close>, the extension manager, the
  configuration, the volume-type and consistency-group lookups, the image service and the
  volume API. A call returns its value or the exception it raises; a helper that mutates
  its argument returns the argument as it leaves it.
\<close>

record collaborators =
  assert_valid_body :: "pyval \<Rightarrow> string \<Rightarrow> error option"
  validate_name_and_description :: "pyval \<Rightarrow> error + dict"
  is_uuid_like :: "pyval \<Rightarrow> bool"
  is_loaded :: "string \<Rightarrow> bool"
  get_volume_type_by_name :: "request_context \<Rightarrow> pyval \<Rightarrow> error + dict"
  get_volume_type :: "request_context \<Rightarrow> pyval \<Rightarrow> error + dict"
  get_snapshot :: "request_context \<Rightarrow> pyval \<Rightarrow> error + dict"
  get_volume :: "request_context \<Rightarrow> pyval \<Rightarrow> error + dict"
  consistencygroup_get :: "request_context \<Rightarrow> pyval \<Rightarrow> error + dict"
  image_show :: "request_context \<Rightarrow> string \<Rightarrow> error + dict"
  image_detail :: "request_context \<Rightarrow> dict \<Rightarrow> error + dict list"
  volume_create :: "request_context \<Rightarrow> create_call \<Rightarrow> error + dict"
  get_pagination_params :: "multidict \<Rightarrow> error + (pyval \<times> pyval \<times> pyval) \<times> multidict"
  get_sort_params :: "multidict \<Rightarrow> error + (string list \<times> string list) \<times> multidict"
  query_volume_filters :: "string list"
  remove_invalid_filter_options ::
    "request_context \<Rightarrow> multidict \<Rightarrow> string list \<Rightarrow> error + multidict"
  check_volume_filters :: "multidict \<Rightarrow> error + multidict"
  get_all :: "request_context \<Rightarrow> get_all_call \<Rightarrow> error + dict list"
  add_visible_admin_metadata :: "dict \<Rightarrow> error + dict"
  volume_get :: "request_context \<Rightarrow> pyval \<Rightarrow> error + dict"
  notify_about_volume_usage :: "request_context \<Rightarrow> dict \<Rightarrow> string \<Rightarrow> error option"
  volume_update :: "request_context \<Rightarrow> dict \<Rightarrow> dict \<Rightarrow> error option"

section \<open>The controller\<close>

subsection \<open>\<^verbatim>\<open>_image_uuid_from_ref\<close> (lines 130 to 171)\<close>

text \<open>
  Lines 143 to 150: the direct lookup. It answers the identifier it returns early with,
  or nothing when the code goes on to the name search: the reference does not look like
  an identifier, the lookup raises (any exception is passed over), or the image it
  returns has no \<^verbatim>\<open>id\<close> key.
\<close>

definition image_lookup_by_id ::
  "collaborators \<Rightarrow> request_context \<Rightarrow> string \<Rightarrow> pyval option \<times> event list" where
  "image_lookup_by_id env ctx image_uuid =
     (if is_uuid_like env (VStr image_uuid) then
        (case image_show env ctx image_uuid of
           Inr img \<Rightarrow> (img ''id'', [Call_image_show image_uuid])
         | Inl e \<Rightarrow> (None, [Call_image_show image_uuid]))
      else (None, []))"

definition invalid_image_identifier :: error where
  "invalid_image_identifier =
     HTTPBadRequest (Msg ''Invalid image identifier or unable to access requested image.'')"

text \<open>
  Lines 153 to 171: the search by name. \<^verbatim>\<open>HTTPConflict\<close> is raised again, whether the
  code or the image service raised it; every other exception inside the \<^verbatim>\<open>try\<close>, the
  \<^verbatim>\<open>KeyError\<close> of \<^verbatim>\<open>img['id']\<close> included, is passed over and ends in the final
  \<^verbatim>\<open>HTTPBadRequest\<close>.
\<close>

definition image_lookup_by_name ::
  "collaborators \<Rightarrow> request_context \<Rightarrow> pyval \<Rightarrow> pyval res" where
  "image_lookup_by_name env ctx image_ref =
     (let filters = [''name'' \<mapsto> image_ref] in
      call (Call_image_detail filters)
        (case image_detail env ctx filters of
           Inl (HTTPConflict m) \<Rightarrow> Inl (HTTPConflict m)
         | Inl e \<Rightarrow> Inl invalid_image_identifier
         | Inr images \<Rightarrow>
             if length images > 1 then
               Inl (HTTPConflict
                 (MsgArg ''Multiple matches found for '%s', use an ID to be more specific.''
                    image_ref))
             else
               (case images of
                  [] \<Rightarrow> Inl invalid_image_identifier
                | img # rest \<Rightarrow>
                    (case img ''id'' of
                       Some i \<Rightarrow> Inr i
                     | None \<Rightarrow> Inl invalid_image_identifier))))"

text \<open>
  The whole function. Only a string has \<^verbatim>\<open>split\<close>; on any other value the
  \<^verbatim>\<open>AttributeError\<close> is turned into \<^verbatim>\<open>HTTPBadRequest\<close> at line 138.
\<close>

fun image_uuid_from_ref ::
  "collaborators \<Rightarrow> request_context \<Rightarrow> pyval \<Rightarrow> pyval res" where
  "image_uuid_from_ref env ctx (VStr image_ref) =
     (let image_uuid = last (py_split CHR ''/'' image_ref) in
      (case image_lookup_by_id env ctx image_uuid of
         (Some i, t) \<Rightarrow> (Inr i, t)
       | (None, t) \<Rightarrow>
           (case image_lookup_by_name env ctx (VStr image_ref) of
              (r, t') \<Rightarrow> (r, t @ t'))))"
| "image_uuid_from_ref env ctx image_ref =
     fail (HTTPBadRequest (Msg ''Invalid imageRef provided.''))"

subsection \<open>\<^verbatim>\<open>create\<close> (lines 174 to 279)\<close>

text \<open>Lines 186 to 196: the client-facing aliases.\<close>

definition normalize_fields :: "dict \<Rightarrow> dict" where
  "normalize_fields volume0 =
     (let volume1 =
            (case volume0 ''name'' of
               Some v \<Rightarrow> (volume0(''name'' := None))(''display_name'' \<mapsto> v)
             | None \<Rightarrow> volume0);
          volume2 =
            (case volume1 ''description'' of
               Some v \<Rightarrow> (volume1(''description'' := None))(''display_description'' \<mapsto> v)
             | None \<Rightarrow> volume1);
          volume3 =
            (case volume2 ''image_id'' of
               Some v \<Rightarrow> (volume2(''imageRef'' \<mapsto> dict_get volume2 ''image_id''))
                           (''image_id'' := None)
             | None \<Rightarrow> volume2)
      in volume3)"

text \<open>
  Lines 176 to 196: the body check, \<^verbatim>\<open>body['volume']\<close>, the validation of name and
  description, and the aliases. The result is the request mapping every later line reads.
\<close>

definition request_mapping :: "collaborators \<Rightarrow> pyval \<Rightarrow> error + dict" where
  "request_mapping env body =
     (case assert_valid_body env body ''volume'' of
        Some e \<Rightarrow> Inl e
      | None \<Rightarrow>
          (case py_getitem body ''volume'' of
             Inl e \<Rightarrow> Inl e
           | Inr volume \<Rightarrow>
               (case validate_name_and_description env volume of
                  Inl e \<Rightarrow> Inl e
                | Inr volume' \<Rightarrow> Inr (normalize_fields volume'))))"

text \<open>Lines 198 to 207. The result \<open>None\<close> is the keyword left out of \<^verbatim>\<open>kwargs\<close>.\<close>

definition resolve_volume_type ::
  "collaborators \<Rightarrow> request_context \<Rightarrow> dict \<Rightarrow> dict option res" where
  "resolve_volume_type env ctx volume =
     (let req_volume_type = dict_get_default volume ''volume_type'' VNone in
      if truthy req_volume_type then
        (if \<not> is_uuid_like env req_volume_type then
           and_then
             (call (Call_get_volume_type_by_name req_volume_type)
                (get_volume_type_by_name env ctx req_volume_type))
             (\<lambda>vt. ok (Some vt))
         else
           and_then
             (call (Call_get_volume_type req_volume_type)
                (get_volume_type env ctx req_volume_type))
             (\<lambda>vt. ok (Some vt)))
      else ok None)"

text \<open>Lines 211 to 217.\<close>

definition resolve_snapshot ::
  "collaborators \<Rightarrow> request_context \<Rightarrow> dict \<Rightarrow> dict option res" where
  "resolve_snapshot env ctx volume =
     (let snapshot_id = dict_get volume ''snapshot_id'' in
      if snapshot_id \<noteq> VNone then
        and_then (call (Call_get_snapshot snapshot_id) (get_snapshot env ctx snapshot_id))
          (\<lambda>s. ok (Some s))
      else ok None)"

text \<open>Lines 219 to 226.\<close>

definition resolve_source_volume ::
  "collaborators \<Rightarrow> request_context \<Rightarrow> dict \<Rightarrow> dict option res" where
  "resolve_source_volume env ctx volume =
     (let source_volid = dict_get volume ''source_volid'' in
      if source_volid \<noteq> VNone then
        and_then (call (Call_get_volume source_volid) (get_volume env ctx source_volid))
          (\<lambda>v. ok (Some v))
      else ok None)"

text \<open>Lines 228 to 239.\<close>

definition not_replicated :: "pyval \<Rightarrow> error" where
  "not_replicated source_replica =
     HTTPBadRequest (MsgArg ''source volume id:%s is not replicated'' source_replica)"

definition resolve_source_replica ::
  "collaborators \<Rightarrow> request_context \<Rightarrow> dict \<Rightarrow> dict option res" where
  "resolve_source_replica env ctx volume =
     (let source_replica = dict_get volume ''source_replica'' in
      if source_replica \<noteq> VNone then
        and_then (call (Call_get_volume source_replica) (get_volume env ctx source_replica))
          (\<lambda>src_vol.
             and_then (lift (dict_getitem src_vol ''replication_status''))
               (\<lambda>status.
                  if status = VStr ''disabled'' then fail (not_replicated source_replica)
                  else ok (Some src_vol)))
      else ok None)"

text \<open>Lines 241 to 248.\<close>

definition resolve_consistencygroup ::
  "collaborators \<Rightarrow> request_context \<Rightarrow> dict \<Rightarrow> dict option res" where
  "resolve_consistencygroup env ctx volume =
     (let consistencygroup_id = dict_get volume ''consistencygroup_id'' in
      if consistencygroup_id \<noteq> VNone then
        and_then
          (call (Call_consistencygroup_get consistencygroup_id)
             (consistencygroup_get env ctx consistencygroup_id))
          (\<lambda>g. ok (Some g))
      else ok None)"

text \<open>Lines 250 to 256.\<close>

definition derive_size ::
  "dict \<Rightarrow> dict option \<Rightarrow> dict option \<Rightarrow> dict option \<Rightarrow> error + pyval" where
  "derive_size volume snapshot source_volume source_replica =
     (let size0 = dict_get_default volume ''size'' VNone in
      if size0 = VNone \<and> snapshot \<noteq> None then
        dict_getitem (the snapshot) ''volume_size''
      else if size0 = VNone \<and> source_volume \<noteq> None then
        dict_getitem (the source_volume) ''size''
      else if size0 = VNone \<and> source_replica \<noteq> None then
        dict_getitem (the source_replica) ''size''
      else Inr size0)"

text \<open>Lines 260 to 264. The result \<open>None\<close> is the keyword left out of \<^verbatim>\<open>kwargs\<close>.\<close>

definition resolve_image ::
  "collaborators \<Rightarrow> request_context \<Rightarrow> dict \<Rightarrow> pyval option res" where
  "resolve_image env ctx volume =
     (if is_loaded env ''os-image-create'' then
        (let image_ref = dict_get volume ''imageRef'' in
         if image_ref \<noteq> VNone then
           and_then (image_uuid_from_ref env ctx image_ref) (\<lambda>image_uuid. ok (Some image_uuid))
         else ok None)
      else ok None)"

text \<open>
  Lines 176 to 269: everything \<^verbatim>\<open>create\<close> does before it calls the volume API, in the
  order of the source; the result is the argument list of that call.
\<close>

definition assemble ::
  "collaborators \<Rightarrow> request_context \<Rightarrow> pyval \<Rightarrow> create_call res" where
  "assemble env ctx body =
     and_then (lift (request_mapping env body)) (\<lambda>volume.
     and_then (resolve_volume_type env ctx volume) (\<lambda>volume_type.
     and_then (resolve_snapshot env ctx volume) (\<lambda>snapshot.
     and_then (resolve_source_volume env ctx volume) (\<lambda>source_volume.
     and_then (resolve_source_replica env ctx volume) (\<lambda>source_replica.
     and_then (resolve_consistencygroup env ctx volume) (\<lambda>consistencygroup.
     and_then (lift (derive_size volume snapshot source_volume source_replica)) (\<lambda>size1.
     and_then (resolve_image env ctx volume) (\<lambda>image_id.
       ok \<lparr> arg_size = size1,
            arg_name = dict_get volume ''display_name'',
            arg_description = dict_get volume ''display_description'',
            kw_volume_type = volume_type,
            kw_metadata = dict_get_default volume ''metadata'' VNone,
            kw_snapshot = snapshot,
            kw_source_volume = source_volume,
            kw_source_replica = source_replica,
            kw_consistencygroup = consistencygroup,
            kw_image_id = image_id,
            kw_availability_zone = dict_get_default volume ''availability_zone'' VNone,
            kw_scheduler_hints = dict_get_default volume ''scheduler_hints'' VNone,
            kw_multiattach = dict_get_default volume ''multiattach'' (VBool False) \<rparr>))))))))"

text \<open>
  Lines 271 to 279: the one call of \<^verbatim>\<open>volume_api.create\<close>. The view builder only
  serialises the new volume, so the model returns the volume itself.
\<close>

definition create :: "collaborators \<Rightarrow> request_context \<Rightarrow> pyval \<Rightarrow> dict res" where
  "create env ctx body =
     and_then (assemble env ctx body) (\<lambda>kwargs.
       call (Call_volume_create kwargs) (volume_create env ctx kwargs))"

subsection \<open>\<^verbatim>\<open>_get_volumes\<close> (lines 86 to 128)\<close>

text \<open>
  Lines 104 and 105: \<^verbatim>\<open>sort_keys\<close> is a list, and \<^verbatim>\<open>index\<close> is the position of the first
  \<^verbatim>\<open>name\<close> in it.
\<close>

definition alias_sort_keys :: "string list \<Rightarrow> string list" where
  "alias_sort_keys sort_keys =
     (if ''name'' \<in> set sort_keys
      then sort_keys[py_index sort_keys ''name'' := ''display_name'']
      else sort_keys)"

text \<open>Lines 107 to 109.\<close>

definition alias_name_filter :: "multidict \<Rightarrow> error + multidict" where
  "alias_name_filter filters =
     (if multidict_contains ''name'' filters
      then (case multidict_getitem filters ''name'' of
              Inl e \<Rightarrow> Inl e
            | Inr v \<Rightarrow> multidict_delitem (multidict_setitem filters ''display_name'' v) ''name'')
      else Inr filters)"

text \<open>Lines 119 and 120: the loop over the volumes found.\<close>

fun add_visible_admin_metadata_all ::
  "collaborators \<Rightarrow> dict list \<Rightarrow> error + dict list" where
  "add_visible_admin_metadata_all env [] = Inr []"
| "add_visible_admin_metadata_all env (v # vs) =
     (case add_visible_admin_metadata env v of
        Inl e \<Rightarrow> Inl e
      | Inr v' \<Rightarrow>
          (case add_visible_admin_metadata_all env vs of
             Inl e \<Rightarrow> Inl e
           | Inr vs' \<Rightarrow> Inr (v' # vs')))"

text \<open>The two views of the result (lines 124 to 127); serialising them is the view builder's.\<close>

datatype listing = Detail_list "dict list" | Summary_list "dict list"

definition get_volumes ::
  "collaborators \<Rightarrow> request_context \<Rightarrow> multidict \<Rightarrow> bool \<Rightarrow> listing res" where
  "get_volumes env ctx req_params is_detail =
     and_then (lift (get_pagination_params env req_params)) (\<lambda>(pagination, params1).
     and_then (lift (get_sort_params env params1)) (\<lambda>(sorting, params2).
       (let marker = fst pagination;
            limit = fst (snd pagination);
            offset = snd (snd pagination);
            sort_keys = fst sorting;
            sort_dirs = snd sorting;
            filters0 = multidict_pop ''glance_metadata'' params2
        in
        and_then
          (call (Call_remove_invalid_filter_options filters0 (query_volume_filters env))
             (remove_invalid_filter_options env ctx filters0 (query_volume_filters env)))
          (\<lambda>filters1.
             (let sort_keys' = alias_sort_keys sort_keys in
              and_then (lift (alias_name_filter filters1)) (\<lambda>filters2.
              and_then (call (Call_check_volume_filters filters2) (check_volume_filters env filters2))
                (\<lambda>filters3.
                   (let query = \<lparr> ga_marker = marker, ga_limit = limit,
                                    ga_sort_keys = sort_keys', ga_sort_dirs = sort_dirs,
                                    ga_filters = filters3, ga_viewable_admin_meta = True,
                                    ga_offset = offset \<rparr>
                    in
                    and_then (call (Call_get_all query) (get_all env ctx query)) (\<lambda>volumes.
                    and_then (lift (add_visible_admin_metadata_all env volumes)) (\<lambda>volumes'.
                      ok (if is_detail then Detail_list volumes'
                          else Summary_list volumes')))))))))))"

definition index :: "collaborators \<Rightarrow> request_context \<Rightarrow> multidict \<Rightarrow> listing res" where
  "index env ctx req_params = get_volumes env ctx req_params False"

definition detail :: "collaborators \<Rightarrow> request_context \<Rightarrow> multidict \<Rightarrow> listing res" where
  "detail env ctx req_params = get_volumes env ctx req_params True"

subsection \<open>\<^verbatim>\<open>update\<close> (lines 285 to 339)\<close>

definition valid_update_keys :: "string list" where
  "valid_update_keys =
     [''name'', ''description'', ''display_name'', ''display_description'', ''metadata'']"

text \<open>
  Lines 308 to 310: the loop over the keys. No line checks that \<^verbatim>\<open>body['volume']\<close> is a
  mapping, so the membership test and the subscript are those of any Python value.
\<close>

fun extract_update_keys :: "pyval \<Rightarrow> string list \<Rightarrow> dict \<Rightarrow> error + dict" where
  "extract_update_keys volume [] update_dict = Inr update_dict"
| "extract_update_keys volume (key # keys) update_dict =
     (case py_contains key volume of
        Inl e \<Rightarrow> Inl e
      | Inr False \<Rightarrow> extract_update_keys volume keys update_dict
      | Inr True \<Rightarrow>
          (case py_getitem volume key of
             Inl e \<Rightarrow> Inl e
           | Inr v \<Rightarrow> extract_update_keys volume keys (update_dict(key \<mapsto> v))))"

text \<open>Lines 315 to 321.\<close>

definition alias_update_fields :: "dict \<Rightarrow> dict" where
  "alias_update_fields update_dict0 =
     (let update_dict1 =
            (case update_dict0 ''name'' of
               Some v \<Rightarrow> (update_dict0(''name'' := None))(''display_name'' \<mapsto> v)
             | None \<Rightarrow> update_dict0);
          update_dict2 =
            (case update_dict1 ''description'' of
               Some v \<Rightarrow> (update_dict1(''description'' := None))(''display_description'' \<mapsto> v)
             | None \<Rightarrow> update_dict1)
      in update_dict2)"

text \<open>Lines 329 and 330: the one exception the \<^verbatim>\<open>try\<close> block translates.\<close>

definition translate_metadata_size :: "'a res \<Rightarrow> 'a res" where
  "translate_metadata_size m =
     (case m of
        (Inl (InvalidVolumeMetadataSize msg), t) \<Rightarrow> (Inl (HTTPRequestEntityTooLarge msg), t)
      | (r, t) \<Rightarrow> (r, t))"

definition missing_request_body :: error where
  "missing_request_body = HTTPBadRequest (Msg ''Missing request body'')"

definition missing_volume_element :: error where
  "missing_volume_element =
     HTTPBadRequest (MsgArg ''Missing required element '%s' in request body'' (VStr ''volume''))"

text \<open>Lines 325 to 328: the body of the \<^verbatim>\<open>try\<close> block.\<close>

definition update_volume_record ::
  "collaborators \<Rightarrow> request_context \<Rightarrow> pyval \<Rightarrow> dict \<Rightarrow> dict res" where
  "update_volume_record env ctx vol_id update_dict =
     and_then (call (Call_volume_get vol_id) (volume_get env ctx vol_id)) (\<lambda>vol.
     and_then
       (call (Call_notify_about_volume_usage vol ''update.start'')
          (lift_unit (notify_about_volume_usage env ctx vol ''update.start''))) (\<lambda>u.
     and_then
       (call (Call_volume_update vol update_dict)
          (lift_unit (volume_update env ctx vol update_dict))) (\<lambda>u'.
       ok vol)))"

text \<open>
  The whole operation. The view builder only serialises the volume, so the model returns
  the volume itself, with the update fields merged in (line 332).
\<close>

definition update ::
  "collaborators \<Rightarrow> request_context \<Rightarrow> pyval \<Rightarrow> pyval \<Rightarrow> dict res" where
  "update env ctx vol_id body =
     (if \<not> truthy body then fail missing_request_body
      else
        and_then (lift (py_contains ''volume'' body)) (\<lambda>has_volume.
          if \<not> has_volume then fail missing_volume_element
          else
            and_then (lift (py_getitem body ''volume'')) (\<lambda>volume.
            and_then (lift (extract_update_keys volume valid_update_keys Map.empty)) (\<lambda>extracted.
            and_then (lift (validate_name_and_description env (VDict extracted))) (\<lambda>validated.
              (let update_dict = alias_update_fields validated in
               and_then
                 (translate_metadata_size (update_volume_record env ctx vol_id update_dict))
                 (\<lambda>vol.
                    and_then (lift (add_visible_admin_metadata env (vol ++ update_dict)))
                      (\<lambda>vol'.
                         and_then
                           (call (Call_notify_about_volume_usage vol' ''update.end'')
                              (lift_unit (notify_about_volume_usage env ctx vol' ''update.end'')))
                           (\<lambda>u. ok vol')))))))))"

subsection \<open>Reading traces\<close>

text \<open>The events that are calls of \<^verbatim>\<open>volume_api.create\<close>.\<close>

fun is_volume_create :: "event \<Rightarrow> bool" where
  "is_volume_create (Call_volume_create k) = True"
| "is_volume_create ev = False"

text \<open>The events that are volume-type lookups.\<close>

fun is_volume_type_lookup :: "event \<Rightarrow> bool" where
  "is_volume_type_lookup (Call_get_volume_type v) = True"
| "is_volume_type_lookup (Call_get_volume_type_by_name v) = True"
| "is_volume_type_lookup ev = False"

text \<open>The events that are calls of the image service.\<close>

fun is_image_call :: "event \<Rightarrow> bool" where
  "is_image_call (Call_image_show i) = True"
| "is_image_call (Call_image_detail filters) = True"
| "is_image_call ev = False"

section \<open>A concrete deployment, for evaluating the controller\<close>

text \<open>
  One set of collaborators with a small catalogue: a volume type \<^verbatim>\<open>gold\<close>, a snapshot
  \<^verbatim>\<open>S1\<close> of size 10, volumes \<^verbatim>\<open>V1\<close> (size 20), \<^verbatim>\<open>R1\<close> (replication disabled) and \<^verbatim>\<open>R2\<close>
  (replication enabled, size 30), a consistency group \<^verbatim>\<open>G1\<close>, and three images, two of
  which share the name \<^verbatim>\<open>dup\<close>.
\<close>

definition example_uuid :: string where
  "example_uuid = ''6b1f7d4e-0000-4000-8000-00000000c1d0''"

definition example_not_found :: "pyval \<Rightarrow> error" where
  "example_not_found v = NotFound (MsgArg ''%s could not be found.'' v)"

definition example_env :: collaborators where
  "example_env =
     \<lparr> assert_valid_body =
         (\<lambda>body entity.
            case py_getitem body entity of
              Inr (VDict d) \<Rightarrow> None
            | _ \<Rightarrow> Some (HTTPBadRequest
                        (MsgArg ''Missing required element '%s' in request body.'' (VStr entity)))),
       validate_name_and_description =
         (\<lambda>v. case v of VDict d \<Rightarrow> Inr d | _ \<Rightarrow> Inl (OtherError ''AttributeError'')),
       is_uuid_like = (\<lambda>v. case v of VStr s \<Rightarrow> length s = 36 | _ \<Rightarrow> False),
       is_loaded = (\<lambda>ext. ext = ''os-image-create''),
       get_volume_type_by_name =
         (\<lambda>ctx v. if v = VStr ''gold''
                   then Inr [''id'' \<mapsto> VStr example_uuid, ''name'' \<mapsto> VStr ''gold'']
                   else Inl (example_not_found v)),
       get_volume_type =
         (\<lambda>ctx v. if v = VStr example_uuid
                   then Inr [''id'' \<mapsto> VStr example_uuid, ''name'' \<mapsto> VStr ''gold'']
                   else Inl (example_not_found v)),
       get_snapshot =
         (\<lambda>ctx v. if v = VStr ''S1''
                   then Inr [''id'' \<mapsto> VStr ''S1'', ''volume_size'' \<mapsto> VInt 10]
                   else Inl (example_not_found v)),
       get_volume =
         (\<lambda>ctx v. if v = VStr ''V1''
                   then Inr [''id'' \<mapsto> VStr ''V1'', ''size'' \<mapsto> VInt 20,
                             ''replication_status'' \<mapsto> VStr ''disabled'']
                   else if v = VStr ''R1''
                   then Inr [''id'' \<mapsto> VStr ''R1'', ''size'' \<mapsto> VInt 30,
                             ''replication_status'' \<mapsto> VStr ''disabled'']
                   else if v = VStr ''R2''
                   then Inr [''id'' \<mapsto> VStr ''R2'', ''size'' \<mapsto> VInt 30,
                             ''replication_status'' \<mapsto> VStr ''enabled'']
                   else Inl (example_not_found v)),
       consistencygroup_get =
         (\<lambda>ctx v. if v = VStr ''G1'' then Inr [''id'' \<mapsto> VStr ''G1'']
                   else Inl (example_not_found v)),
       image_show =
         (\<lambda>ctx i. if i = example_uuid then Inr [''id'' \<mapsto> VStr example_uuid, ''name'' \<mapsto> VStr ''cirros'']
                   else Inl (example_not_found (VStr i))),
       image_detail =
         (\<lambda>ctx filters.
            if filters ''name'' = Some (VStr ''cirros'')
            then Inr [[''id'' \<mapsto> VStr example_uuid, ''name'' \<mapsto> VStr ''cirros'']]
            else if filters ''name'' = Some (VStr ''dup'')
            then Inr [[''id'' \<mapsto> VStr ''I2'', ''name'' \<mapsto> VStr ''dup''],
                      [''id'' \<mapsto> VStr ''I3'', ''name'' \<mapsto> VStr ''dup'']]
            else if filters ''name'' = Some (VStr ''down'')
            then Inl (OtherError ''ServiceUnavailable'')
            else Inr []),
       volume_create =
         (\<lambda>ctx kwargs. Inr [''status'' \<mapsto> VStr ''creating'', ''size'' \<mapsto> arg_size kwargs]),
       get_pagination_params =
         (\<lambda>params.
            Inr ((case_option VNone id (map_of params ''marker''),
                  case_option VNone id (map_of params ''limit''),
                  case_option (VInt 0) id (map_of params ''offset'')),
                 multidict_pop ''offset'' (multidict_pop ''limit'' (multidict_pop ''marker'' params)))),
       get_sort_params =
         (\<lambda>params.
            Inr ((case map_of params ''sort'' of
                    Some (VStr s) \<Rightarrow>
                      (py_split CHR '','' s, map (\<lambda>k. ''desc'') (py_split CHR '','' s))
                  | _ \<Rightarrow>
                      (case map_of params ''sort_key'' of
                         Some (VStr k) \<Rightarrow> ([k], [''desc''])
                       | _ \<Rightarrow> ([''created_at''], [''desc'']))),
                 multidict_pop ''sort''
                   (multidict_pop ''sort_dir'' (multidict_pop ''sort_key'' params)))),
       query_volume_filters = [''name'', ''status'', ''metadata''],
       remove_invalid_filter_options =
         (\<lambda>ctx filters allowed.
            Inr (if is_admin ctx then filters
                 else filter (\<lambda>item. fst item \<in> set allowed) filters)),
       check_volume_filters = (\<lambda>filters. Inr filters),
       get_all = (\<lambda>ctx query. Inr []),
       add_visible_admin_metadata = (\<lambda>vol. Inr vol),
       volume_get =
         (\<lambda>ctx v. if v = VStr ''V1''
                   then Inr [''id'' \<mapsto> VStr ''V1'', ''size'' \<mapsto> VInt 20,
                             ''display_name'' \<mapsto> VStr ''old'']
                   else Inl (example_not_found v)),
       notify_about_volume_usage = (\<lambda>ctx vol suffix. None),
       volume_update = (\<lambda>ctx vol changes. None) \<rparr>"

definition example_ctx :: request_context where
  "example_ctx = \<lparr> is_admin = False \<rparr>"

text \<open>The body \<^verbatim>\<open>{"volume": {...}}\<close> around a request mapping.\<close>

definition volume_body :: "dict \<Rightarrow> pyval" where
  "volume_body request = VDict [''volume'' \<mapsto> VDict request]"

text \<open>Request bodies.\<close>

definition body_missing_snapshot :: pyval where
  "body_missing_snapshot = volume_body [''snapshot_id'' \<mapsto> VStr ''missing'']"

definition body_size_only :: pyval where
  "body_size_only = volume_body [''size'' \<mapsto> VInt 5]"

definition plain_kwargs :: "pyval \<Rightarrow> create_call" where
  "plain_kwargs sz =
     \<lparr> arg_size = sz, arg_name = VNone, arg_description = VNone,
       kw_volume_type = None, kw_metadata = VNone, kw_snapshot = None,
       kw_source_volume = None, kw_source_replica = None, kw_consistencygroup = None,
       kw_image_id = None, kw_availability_zone = VNone, kw_scheduler_hints = VNone,
       kw_multiattach = VBool False \<rparr>"

definition snapshot_S1 :: dict where
  "snapshot_S1 = [''id'' \<mapsto> VStr ''S1'', ''volume_size'' \<mapsto> VInt 10]"

definition body_from_snapshot :: pyval where
  "body_from_snapshot = volume_body [''snapshot_id'' \<mapsto> VStr ''S1'']"

definition body_empty_request :: pyval where
  "body_empty_request = volume_body Map.empty"

definition volume_R1 :: dict where
  "volume_R1 = [''id'' \<mapsto> VStr ''R1'', ''size'' \<mapsto> VInt 30,
                ''replication_status'' \<mapsto> VStr ''disabled'']"

definition volume_R2 :: dict where
  "volume_R2 = [''id'' \<mapsto> VStr ''R2'', ''size'' \<mapsto> VInt 30,
                ''replication_status'' \<mapsto> VStr ''enabled'']"

definition body_disabled_replica :: pyval where
  "body_disabled_replica = volume_body [''source_replica'' \<mapsto> VStr ''R1'']"

definition body_enabled_replica :: pyval where
  "body_enabled_replica = volume_body [''source_replica'' \<mapsto> VStr ''R2'']"

definition volume_type_gold :: dict where
  "volume_type_gold = [''id'' \<mapsto> VStr example_uuid, ''name'' \<mapsto> VStr ''gold'']"

definition body_type_by_name :: pyval where
  "body_type_by_name = volume_body [''volume_type'' \<mapsto> VStr ''gold'', ''size'' \<mapsto> VInt 1]"

definition body_type_by_id :: pyval where
  "body_type_by_id = volume_body [''volume_type'' \<mapsto> VStr example_uuid, ''size'' \<mapsto> VInt 1]"

definition body_type_missing :: pyval where
  "body_type_missing = volume_body [''volume_type'' \<mapsto> VStr ''silver'', ''size'' \<mapsto> VInt 1]"

definition body_empty_type_and_snapshot :: pyval where
  "body_empty_type_and_snapshot =
     volume_body [''volume_type'' \<mapsto> VStr [], ''snapshot_id'' \<mapsto> VStr [], ''size'' \<mapsto> VInt 1]"

definition body_empty_source_volid :: pyval where
  "body_empty_source_volid = volume_body [''source_volid'' \<mapsto> VStr []]"

definition body_empty_source_replica :: pyval where
  "body_empty_source_replica = volume_body [''source_replica'' \<mapsto> VStr []]"

definition body_empty_consistencygroup :: pyval where
  "body_empty_consistencygroup = volume_body [''consistencygroup_id'' \<mapsto> VStr []]"

definition body_bad_image_ref :: pyval where
  "body_bad_image_ref = volume_body [''imageRef'' \<mapsto> VInt 5, ''size'' \<mapsto> VInt 1]"

definition image_url :: string where
  "image_url = ''http://glance.example/v2/images/'' @ example_uuid"

definition body_url_image_ref :: pyval where
  "body_url_image_ref = volume_body [''imageRef'' \<mapsto> VStr image_url, ''size'' \<mapsto> VInt 1]"

definition image_cirros :: dict where
  "image_cirros = [''id'' \<mapsto> VStr example_uuid, ''name'' \<mapsto> VStr ''cirros'']"

definition unknown_uuid :: string where
  "unknown_uuid = ''00000000-0000-4000-8000-000000000000''"

text \<open>\<^verbatim>\<open>GET /volumes?name=vol1&glance_metadata=x&sort_key=name&limit=10\<close>\<close>

definition listing_params :: multidict where
  "listing_params =
     [(''name'', VStr ''vol1''), (''glance_metadata'', VStr ''x''),
      (''sort_key'', VStr ''name''), (''limit'', VStr ''10'')]"

text \<open>\<^verbatim>\<open>GET /volumes?glance_metadata=a&glance_metadata=b&sort=name,name\<close>\<close>

definition listing_params_repeated :: multidict where
  "listing_params_repeated =
     [(''glance_metadata'', VStr ''a''), (''glance_metadata'', VStr ''b''),
      (''sort'', VStr ''name,name'')]"

definition admin_ctx :: request_context where
  "admin_ctx = \<lparr> is_admin = True \<rparr>"

definition body_rename :: "string \<Rightarrow> pyval" where
  "body_rename x = VDict [''volume'' \<mapsto> VDict [''name'' \<mapsto> VStr x]]"

definition body_other_key :: pyval where
  "body_other_key = VDict [''other'' \<mapsto> VDict Map.empty]"

definition volume_V1 :: dict where
  "volume_V1 = [''id'' \<mapsto> VStr ''V1'', ''size'' \<mapsto> VInt 20, ''display_name'' \<mapsto> VStr ''old'']"

definition source_volume_V1 :: dict where
  "source_volume_V1 = [''id'' \<mapsto> VStr ''V1'', ''size'' \<mapsto> VInt 20,
                       ''replication_status'' \<mapsto> VStr ''disabled'']"

definition body_from_source_volume :: pyval where
  "body_from_source_volume = volume_body [''source_volid'' \<mapsto> VStr ''V1'']"

definition body_all_sources :: pyval where
  "body_all_sources =
     volume_body [''snapshot_id'' \<mapsto> VStr ''S1'', ''source_volid'' \<mapsto> VStr ''V1'',
                  ''source_replica'' \<mapsto> VStr ''R2'']"

definition body_volume_and_replica :: pyval where
  "body_volume_and_replica =
     volume_body [''source_volid'' \<mapsto> VStr ''V1'', ''source_replica'' \<mapsto> VStr ''R2'']"

definition body_size_and_snapshot :: pyval where
  "body_size_and_snapshot =
     volume_body [''size'' \<mapsto> VInt 5, ''snapshot_id'' \<mapsto> VStr ''S1'']"

definition image_url_unknown :: string where
  "image_url_unknown = ''http://glance.example/v2/images/'' @ unknown_uuid"

definition body_url_unknown_image :: pyval where
  "body_url_unknown_image =
     volume_body [''imageRef'' \<mapsto> VStr image_url_unknown, ''size'' \<mapsto> VInt 1]"

definition body_path_image_ref :: pyval where
  "body_path_image_ref =
     volume_body [''imageRef'' \<mapsto> VStr ''images/cirros'', ''size'' \<mapsto> VInt 1]"

definition body_name_image_ref :: pyval where
  "body_name_image_ref = volume_body [''imageRef'' \<mapsto> VStr ''cirros'', ''size'' \<mapsto> VInt 1]"

definition update_payload_full :: dict where
  "update_payload_full =
     [''name'' \<mapsto> VStr ''n'', ''description'' \<mapsto> VStr ''d'',
      ''display_name'' \<mapsto> VStr ''old n'', ''display_description'' \<mapsto> VStr ''old d'',
      ''metadata'' \<mapsto> VDict [''k'' \<mapsto> VStr ''v''], ''size'' \<mapsto> VInt 99]"

definition update_payload_display :: dict where
  "update_payload_display =
     [''display_name'' \<mapsto> VStr ''n2'', ''display_description'' \<mapsto> VStr ''d2'',
      ''status'' \<mapsto> VStr ''error'']"

definition body_update_full :: pyval where
  "body_update_full = VDict [''volume'' \<mapsto> VDict update_payload_full]"

definition body_update_display :: pyval where
  "body_update_display = VDict [''volume'' \<mapsto> VDict update_payload_display]"


section \<open>Outcomes and traces of composed computations\<close>

lemma outcome_simps [simp]:
  "outcome (ok x) = Inr x"
  "outcome (fail e) = Inl e"
  "outcome (lift r) = r"
  "outcome (call ev r) = r"
  by (simp_all add: outcome_def ok_def fail_def lift_def call_def)

lemma trace_simps [simp]:
  "trace (ok x) = []"
  "trace (fail e) = []"
  "trace (lift r) = []"
  "trace (call ev r) = [ev]"
  by (simp_all add: trace_def ok_def fail_def lift_def call_def)

lemma outcome_and_then:
  "outcome (and_then m f) = (case outcome m of Inl e \<Rightarrow> Inl e | Inr x \<Rightarrow> outcome (f x))"
  by (cases m) (simp add: outcome_def and_then_def split: sum.splits prod.splits)

lemma trace_and_then:
  "trace (and_then m f) = trace m @ (case outcome m of Inl e \<Rightarrow> [] | Inr x \<Rightarrow> trace (f x))"
  by (cases m) (simp add: outcome_def trace_def and_then_def split: sum.splits prod.splits)

lemma and_then_Inl:
  "outcome m = Inl e \<Longrightarrow> outcome (and_then m f) = Inl e \<and> trace (and_then m f) = trace m"
  by (simp add: outcome_and_then trace_and_then)

lemma and_then_Inr:
  "outcome m = Inr x \<Longrightarrow>
   outcome (and_then m f) = outcome (f x) \<and> trace (and_then m f) = trace m @ trace (f x)"
  by (simp add: outcome_and_then trace_and_then)

lemma outcome_and_then_Inr_iff:
  "outcome (and_then m f) = Inr y \<longleftrightarrow> (\<exists>x. outcome m = Inr x \<and> outcome (f x) = Inr y)"
  by (simp add: outcome_and_then split: sum.splits)

lemma res_eqI: "outcome m = r \<Longrightarrow> trace m = t \<Longrightarrow> m = (r, t)"
  by (cases m) (simp add: outcome_def trace_def)

lemma outcome_pair [simp]: "outcome (r, t) = r"
  by (simp add: outcome_def)

lemma trace_pair [simp]: "trace (r, t) = t"
  by (simp add: trace_def)

section \<open>The field normalizer\<close>

lemma normalize_fields_no_alias:
  "normalize_fields v ''name'' = None \<and> normalize_fields v ''description'' = None
   \<and> normalize_fields v ''image_id'' = None"
  by (simp add: normalize_fields_def Let_def split: option.splits)

lemma normalize_fields_fixed:
  "v ''name'' = None \<Longrightarrow> v ''description'' = None \<Longrightarrow> v ''image_id'' = None
   \<Longrightarrow> normalize_fields v = v"
  by (simp add: normalize_fields_def Let_def)

text \<open>
  Claim C7. Applying the field normalization of \<^verbatim>\<open>create\<close> (lines 186 to 196) twice gives
  the same mapping as applying it once, for every request mapping: after one application
  none of the alias keys \<^verbatim>\<open>name\<close>, \<^verbatim>\<open>description\<close> and \<^verbatim>\<open>image_id\<close> is left, so the
  second application changes nothing.
\<close>

theorem normalize_fields_idempotent:
  "normalize_fields (normalize_fields volume) = normalize_fields volume
   \<and> normalize_fields volume ''name'' = None
   \<and> normalize_fields volume ''description'' = None
   \<and> normalize_fields volume ''image_id'' = None"
  using normalize_fields_no_alias [of volume]
    normalize_fields_fixed [of "normalize_fields volume"]
  by simp

section \<open>The create operation: what reaches the volume API\<close>

text \<open>No step before line 271 calls \<^verbatim>\<open>volume_api.create\<close>.\<close>

lemma image_uuid_from_ref_quiet:
  "filter is_volume_create (trace (image_uuid_from_ref env ctx image_ref)) = []"
  by (cases image_ref)
     (simp_all add: image_lookup_by_id_def image_lookup_by_name_def Let_def call_def
        split: sum.splits option.splits prod.splits)

lemma resolve_volume_type_quiet:
  "filter is_volume_create (trace (resolve_volume_type env ctx volume)) = []"
  by (simp add: resolve_volume_type_def Let_def trace_and_then split: sum.splits)

lemma resolve_snapshot_quiet:
  "filter is_volume_create (trace (resolve_snapshot env ctx volume)) = []"
  by (simp add: resolve_snapshot_def Let_def trace_and_then split: sum.splits)

lemma resolve_source_volume_quiet:
  "filter is_volume_create (trace (resolve_source_volume env ctx volume)) = []"
  by (simp add: resolve_source_volume_def Let_def trace_and_then split: sum.splits)

lemma resolve_source_replica_quiet:
  "filter is_volume_create (trace (resolve_source_replica env ctx volume)) = []"
  by (simp add: resolve_source_replica_def Let_def trace_and_then split: sum.splits)

lemma resolve_consistencygroup_quiet:
  "filter is_volume_create (trace (resolve_consistencygroup env ctx volume)) = []"
  by (simp add: resolve_consistencygroup_def Let_def trace_and_then split: sum.splits)

lemma resolve_image_quiet:
  "filter is_volume_create (trace (resolve_image env ctx volume)) = []"
  by (simp add: resolve_image_def Let_def trace_and_then image_uuid_from_ref_quiet
        split: sum.splits)

lemmas stage_quiet =
  resolve_volume_type_quiet resolve_snapshot_quiet resolve_source_volume_quiet
  resolve_source_replica_quiet resolve_consistencygroup_quiet resolve_image_quiet

lemma assemble_quiet:
  "filter is_volume_create (trace (assemble env ctx body)) = []"
  by (simp add: assemble_def trace_and_then stage_quiet split: sum.splits)

lemma create_trace:
  "trace (create env ctx body) =
     trace (assemble env ctx body)
     @ (case outcome (assemble env ctx body) of Inl e \<Rightarrow> [] | Inr k \<Rightarrow> [Call_volume_create k])"
  by (simp add: create_def trace_and_then split: sum.splits)

lemma create_outcome:
  "outcome (create env ctx body) =
     (case outcome (assemble env ctx body) of
        Inl e \<Rightarrow> Inl e
      | Inr k \<Rightarrow> volume_create env ctx k)"
  by (simp add: create_def outcome_and_then split: sum.splits)

lemma not_in_quiet:
  "filter is_volume_create t = [] \<Longrightarrow> Call_volume_create k \<notin> set t"
  by (auto simp: filter_empty_conv)

lemma create_call_iff:
  "Call_volume_create k \<in> set (trace (create env ctx body))
   \<longleftrightarrow> outcome (assemble env ctx body) = Inr k"
  using not_in_quiet [OF assemble_quiet, of k env ctx body]
  by (auto simp: create_trace split: sum.splits)

lemma assemble_Inr_iff:
  "outcome (assemble env ctx body) = Inr k \<longleftrightarrow>
   (\<exists>volume vt snap sv sr cg sz img.
      request_mapping env body = Inr volume
      \<and> outcome (resolve_volume_type env ctx volume) = Inr vt
      \<and> outcome (resolve_snapshot env ctx volume) = Inr snap
      \<and> outcome (resolve_source_volume env ctx volume) = Inr sv
      \<and> outcome (resolve_source_replica env ctx volume) = Inr sr
      \<and> outcome (resolve_consistencygroup env ctx volume) = Inr cg
      \<and> derive_size volume snap sv sr = Inr sz
      \<and> outcome (resolve_image env ctx volume) = Inr img
      \<and> k = \<lparr> arg_size = sz,
            arg_name = dict_get volume ''display_name'',
            arg_description = dict_get volume ''display_description'',
            kw_volume_type = vt,
            kw_metadata = dict_get_default volume ''metadata'' VNone,
            kw_snapshot = snap,
            kw_source_volume = sv,
            kw_source_replica = sr,
            kw_consistencygroup = cg,
            kw_image_id = img,
            kw_availability_zone = dict_get_default volume ''availability_zone'' VNone,
            kw_scheduler_hints = dict_get_default volume ''scheduler_hints'' VNone,
            kw_multiattach = dict_get_default volume ''multiattach'' (VBool False) \<rparr>)"
  by (simp add: assemble_def outcome_and_then_Inr_iff eq_commute [of k])


lemmas example_defs =
  example_env_def example_ctx_def volume_body_def example_uuid_def example_not_found_def

lemmas model_defs =
  create_def assemble_def request_mapping_def normalize_fields_def
  resolve_volume_type_def resolve_snapshot_def resolve_source_volume_def
  resolve_source_replica_def resolve_consistencygroup_def resolve_image_def
  derive_size_def dict_get_def dict_get_default_def dict_getitem_def
  image_lookup_by_id_def image_lookup_by_name_def invalid_image_identifier_def
  not_replicated_def
  and_then_def ok_def fail_def lift_def call_def Let_def outcome_def trace_def

text \<open>
  Claim C4. If the body check, the validation or any reference resolution of \<^verbatim>\<open>create\<close>
  (volume type, snapshot, source volume, source replica, consistency group, image) raises,
  \<^verbatim>\<open>volume_api.create\<close> is never called and \<^verbatim>\<open>create\<close> itself raises: its trace is the
  trace of the steps before line 271. When the call is made it is the last event, after
  every resolution and validation, and no run makes it twice.
\<close>

theorem create_no_partial_application:
  "((outcome (assemble env ctx body) = Inl e
     \<or> request_mapping env body = Inl e
     \<or> (\<exists>volume. request_mapping env body = Inr volume \<and>
          (outcome (resolve_volume_type env ctx volume) = Inl e
           \<or> outcome (resolve_snapshot env ctx volume) = Inl e
           \<or> outcome (resolve_source_volume env ctx volume) = Inl e
           \<or> outcome (resolve_source_replica env ctx volume) = Inl e
           \<or> outcome (resolve_consistencygroup env ctx volume) = Inl e
           \<or> outcome (resolve_image env ctx volume) = Inl e)))
    \<longrightarrow> (\<forall>k. Call_volume_create k \<notin> set (trace (create env ctx body)))
        \<and> (\<exists>e'. outcome (create env ctx body) = Inl e')
        \<and> trace (create env ctx body) = trace (assemble env ctx body))
   \<and> (Call_volume_create k \<in> set (trace (create env ctx body))
        \<longrightarrow> trace (create env ctx body) = trace (assemble env ctx body) @ [Call_volume_create k])
   \<and> filter is_volume_create (trace (assemble env ctx body)) = []
   \<and> length (filter is_volume_create (trace (create env ctx body))) \<le> 1"
proof -
  let ?fails =
    "outcome (assemble env ctx body) = Inl e
     \<or> request_mapping env body = Inl e
     \<or> (\<exists>volume. request_mapping env body = Inr volume \<and>
          (outcome (resolve_volume_type env ctx volume) = Inl e
           \<or> outcome (resolve_snapshot env ctx volume) = Inl e
           \<or> outcome (resolve_source_volume env ctx volume) = Inl e
           \<or> outcome (resolve_source_replica env ctx volume) = Inl e
           \<or> outcome (resolve_consistencygroup env ctx volume) = Inl e
           \<or> outcome (resolve_image env ctx volume) = Inl e))"
  have no_success: "outcome (assemble env ctx body) \<noteq> Inr k'" if f: "?fails" for k'
  proof
    assume a: "outcome (assemble env ctx body) = Inr k'"
    then have "outcome (assemble env ctx body) \<noteq> Inl e"
      by simp
    moreover from a obtain volume vt snap sv sr cg img where
      "request_mapping env body = Inr volume"
      "outcome (resolve_volume_type env ctx volume) = Inr vt"
      "outcome (resolve_snapshot env ctx volume) = Inr snap"
      "outcome (resolve_source_volume env ctx volume) = Inr sv"
      "outcome (resolve_source_replica env ctx volume) = Inr sr"
      "outcome (resolve_consistencygroup env ctx volume) = Inr cg"
      "outcome (resolve_image env ctx volume) = Inr img"
      unfolding assemble_Inr_iff by blast
    ultimately show False
      using f by auto
  qed
  have first: "(\<forall>k. Call_volume_create k \<notin> set (trace (create env ctx body)))
        \<and> (\<exists>e'. outcome (create env ctx body) = Inl e')
        \<and> trace (create env ctx body) = trace (assemble env ctx body)" if f: "?fails"
  proof -
    obtain e' where e': "outcome (assemble env ctx body) = Inl e'"
      using no_success [OF f] by (cases "outcome (assemble env ctx body)") auto
    have t: "trace (create env ctx body) = trace (assemble env ctx body)"
      by (simp add: create_trace e')
    have c: "\<forall>k. Call_volume_create k \<notin> set (trace (create env ctx body))"
      by (simp add: create_call_iff e')
    have o: "\<exists>e'. outcome (create env ctx body) = Inl e'"
      by (simp add: create_outcome e')
    from t c o show ?thesis
      by blast
  qed
  have second: "trace (create env ctx body) = trace (assemble env ctx body) @ [Call_volume_create k]"
    if "Call_volume_create k \<in> set (trace (create env ctx body))"
  proof -
    from that have "outcome (assemble env ctx body) = Inr k"
      by (simp add: create_call_iff)
    then show ?thesis
      by (simp add: create_trace)
  qed
  have third: "length (filter is_volume_create (trace (create env ctx body))) \<le> 1"
    by (simp add: create_trace assemble_quiet split: sum.splits)
  from first second third assemble_quiet show ?thesis
    by blast
qed

lemma create_missing_snapshot:
  "create example_env example_ctx body_missing_snapshot =
     (Inl (example_not_found (VStr ''missing'')), [Call_get_snapshot (VStr ''missing'')])"
  by (simp add: body_missing_snapshot_def example_defs model_defs)

lemma request_mapping_missing_snapshot:
  "request_mapping example_env body_missing_snapshot = Inr [''snapshot_id'' \<mapsto> VStr ''missing'']"
  by (simp add: body_missing_snapshot_def example_defs model_defs)

lemma resolve_missing_snapshot:
  "outcome (resolve_snapshot example_env example_ctx [''snapshot_id'' \<mapsto> VStr ''missing''])
   = Inl (example_not_found (VStr ''missing''))"
  by (simp add: example_defs model_defs)

theorem create_no_partial_application_witness:
  "(\<exists>volume. request_mapping example_env body_missing_snapshot = Inr volume
      \<and> outcome (resolve_snapshot example_env example_ctx volume)
          = Inl (example_not_found (VStr ''missing'')))
   \<and> (\<forall>k. Call_volume_create k \<notin> set (trace (create example_env example_ctx body_missing_snapshot)))
   \<and> trace (create example_env example_ctx body_missing_snapshot)
       = [Call_get_snapshot (VStr ''missing'')]"
proof -
  have h: "\<exists>volume. request_mapping example_env body_missing_snapshot = Inr volume
      \<and> outcome (resolve_snapshot example_env example_ctx volume)
          = Inl (example_not_found (VStr ''missing''))"
    using request_mapping_missing_snapshot resolve_missing_snapshot by blast
  from h create_no_partial_application
         [of example_env example_ctx body_missing_snapshot
             "example_not_found (VStr ''missing'')" undefined]
  have "\<forall>k. Call_volume_create k \<notin> set (trace (create example_env example_ctx body_missing_snapshot))"
    by blast
  with h show ?thesis
    by (simp add: create_missing_snapshot)
qed

section \<open>Size derivation\<close>

lemma resolve_snapshot_absent:
  "dict_get volume ''snapshot_id'' = VNone \<Longrightarrow> resolve_snapshot env ctx volume = ok None"
  by (simp add: resolve_snapshot_def)

lemma resolve_source_volume_absent:
  "dict_get volume ''source_volid'' = VNone \<Longrightarrow> resolve_source_volume env ctx volume = ok None"
  by (simp add: resolve_source_volume_def)

lemma resolve_source_replica_absent:
  "dict_get volume ''source_replica'' = VNone \<Longrightarrow> resolve_source_replica env ctx volume = ok None"
  by (simp add: resolve_source_replica_def)

lemma resolve_consistencygroup_absent:
  "dict_get volume ''consistencygroup_id'' = VNone \<Longrightarrow>
   resolve_consistencygroup env ctx volume = ok None"
  by (simp add: resolve_consistencygroup_def)

lemma derive_size_cases:
  "derive_size volume snap sv sr = Inr sz \<Longrightarrow>
   (dict_get volume ''size'' \<noteq> VNone \<longrightarrow> sz = dict_get volume ''size'')
   \<and> (dict_get volume ''size'' = VNone \<longrightarrow>
        (case snap of
           Some s \<Rightarrow> s ''volume_size'' = Some sz
         | None \<Rightarrow>
             (case sv of
                Some v \<Rightarrow> v ''size'' = Some sz
              | None \<Rightarrow>
                  (case sr of
                     Some r \<Rightarrow> r ''size'' = Some sz
                   | None \<Rightarrow> sz = VNone))))"
  by (auto simp: derive_size_def dict_get_def dict_get_default_def dict_getitem_def Let_def
           split: option.splits if_splits)

lemma derive_size_undetermined:
  "dict_get volume ''size'' = VNone \<Longrightarrow> derive_size volume None None None = Inr VNone"
  by (simp add: derive_size_def dict_get_def dict_get_default_def Let_def split: option.splits)

text \<open>
  Lines 250 to 256, read forwards: a size the request gives is kept; without one the
  snapshot's \<^verbatim>\<open>volume_size\<close> is taken when there is a snapshot, else the source volume's
  \<^verbatim>\<open>size\<close>, else the source replica's \<^verbatim>\<open>size\<close>, else the size stays \<^verbatim>\<open>None\<close>.
\<close>

lemma derive_size_priority:
  "dict_get volume ''size'' \<noteq> VNone \<and> sz = dict_get volume ''size''
   \<or> dict_get volume ''size'' = VNone
      \<and> (case snap of
            Some s \<Rightarrow> s ''volume_size'' = Some sz
          | None \<Rightarrow>
              (case sv of
                 Some v \<Rightarrow> v ''size'' = Some sz
               | None \<Rightarrow>
                   (case sr of
                      Some r \<Rightarrow> r ''size'' = Some sz
                    | None \<Rightarrow> sz = VNone)))
   \<Longrightarrow> derive_size volume snap sv sr = Inr sz"
  by (auto simp: derive_size_def dict_get_def dict_get_default_def dict_getitem_def Let_def
           split: option.splits)

text \<open>
  The order is strict: with no size in the request, a snapshot settles the size, or the
  \<^verbatim>\<open>KeyError\<close>, whatever the source volume and the source replica are; and a source volume
  settles it whatever the source replica is.
\<close>

lemma derive_size_strict:
  "dict_get volume ''size'' = VNone \<Longrightarrow>
   derive_size volume (Some s) sv sr = dict_getitem s ''volume_size''"
  "dict_get volume ''size'' = VNone \<Longrightarrow>
   derive_size volume None (Some v) sr = dict_getitem v ''size''"
  "dict_get volume ''size'' = VNone \<Longrightarrow>
   derive_size volume None None (Some r) = dict_getitem r ''size''"
  by (simp_all add: derive_size_def dict_get_def dict_get_default_def Let_def
        split: option.splits)

text \<open>
  Claim C1. The size that \<^verbatim>\<open>create\<close> passes to \<^verbatim>\<open>volume_api.create\<close> is settled by lines
  250 to 256, in both directions.

  Whenever \<^verbatim>\<open>volume_api.create\<close> is called, a size the client supplied (any value but
  \<^verbatim>\<open>None\<close>) is passed as it is; when the request gives no size, the size passed is the
  resolved snapshot's \<^verbatim>\<open>volume_size\<close>, else the resolved source volume's \<^verbatim>\<open>size\<close>, else the
  resolved source replica's \<^verbatim>\<open>size\<close>, else \<^verbatim>\<open>None\<close>.

  Conversely, whenever the request mapping is accepted and every reference resolves,
  \<^verbatim>\<open>volume_api.create\<close> is called, with the size the priority order gives: the client's
  size; without one the size recorded in the snapshot, if a snapshot was resolved; else
  the size of the source volume, if one was resolved; else the size of the source replica,
  if one was resolved; else \<^verbatim>\<open>None\<close>. The call carries the resolved snapshot, source
  volume and source replica, and its answer is the answer of \<^verbatim>\<open>create\<close>.

  In particular the undetermined size is not rejected here: a request with no size and no
  source, whose other references resolve, reaches \<^verbatim>\<open>volume_api.create\<close> with size \<^verbatim>\<open>None\<close>.
\<close>

theorem create_size_derivation:
  "(Call_volume_create kwargs \<in> set (trace (create env ctx body)) \<longrightarrow>
      (\<exists>volume. request_mapping env body = Inr volume
         \<and> outcome (resolve_snapshot env ctx volume) = Inr (kw_snapshot kwargs)
         \<and> outcome (resolve_source_volume env ctx volume) = Inr (kw_source_volume kwargs)
         \<and> outcome (resolve_source_replica env ctx volume) = Inr (kw_source_replica kwargs)
         \<and> (dict_get volume ''size'' \<noteq> VNone \<longrightarrow> arg_size kwargs = dict_get volume ''size'')
         \<and> (dict_get volume ''size'' = VNone \<longrightarrow>
              (case kw_snapshot kwargs of
                 Some s \<Rightarrow> s ''volume_size'' = Some (arg_size kwargs)
               | None \<Rightarrow>
                   (case kw_source_volume kwargs of
                      Some v \<Rightarrow> v ''size'' = Some (arg_size kwargs)
                    | None \<Rightarrow>
                        (case kw_source_replica kwargs of
                           Some r \<Rightarrow> r ''size'' = Some (arg_size kwargs)
                         | None \<Rightarrow> arg_size kwargs = VNone))))))
   \<and> (request_mapping env body = Inr accepted
        \<and> outcome (resolve_volume_type env ctx accepted) = Inr vt'
        \<and> outcome (resolve_snapshot env ctx accepted) = Inr snap
        \<and> outcome (resolve_source_volume env ctx accepted) = Inr sv
        \<and> outcome (resolve_source_replica env ctx accepted) = Inr sr
        \<and> outcome (resolve_consistencygroup env ctx accepted) = Inr cg'
        \<and> outcome (resolve_image env ctx accepted) = Inr img'
        \<and> (dict_get accepted ''size'' \<noteq> VNone \<and> sz = dict_get accepted ''size''
           \<or> dict_get accepted ''size'' = VNone
              \<and> (case snap of
                    Some s \<Rightarrow> s ''volume_size'' = Some sz
                  | None \<Rightarrow>
                      (case sv of
                         Some v \<Rightarrow> v ''size'' = Some sz
                       | None \<Rightarrow>
                           (case sr of
                              Some r \<Rightarrow> r ''size'' = Some sz
                            | None \<Rightarrow> sz = VNone))))
      \<longrightarrow> (\<exists>k. Call_volume_create k \<in> set (trace (create env ctx body))
               \<and> arg_size k = sz
               \<and> kw_snapshot k = snap \<and> kw_source_volume k = sv \<and> kw_source_replica k = sr
               \<and> outcome (create env ctx body) = volume_create env ctx k))
   \<and> (request_mapping env body = Inr request
        \<and> dict_get request ''size'' = VNone
        \<and> dict_get request ''snapshot_id'' = VNone
        \<and> dict_get request ''source_volid'' = VNone
        \<and> dict_get request ''source_replica'' = VNone
        \<and> outcome (resolve_volume_type env ctx request) = Inr vt
        \<and> outcome (resolve_consistencygroup env ctx request) = Inr cg
        \<and> outcome (resolve_image env ctx request) = Inr img
      \<longrightarrow> (\<exists>k. Call_volume_create k \<in> set (trace (create env ctx body))
               \<and> arg_size k = VNone
               \<and> kw_snapshot k = None \<and> kw_source_volume k = None \<and> kw_source_replica k = None
               \<and> outcome (create env ctx body) = volume_create env ctx k))"
proof (intro conjI impI)
  assume "Call_volume_create kwargs \<in> set (trace (create env ctx body))"
  then have "outcome (assemble env ctx body) = Inr kwargs"
    by (simp add: create_call_iff)
  then obtain volume where
    v: "request_mapping env body = Inr volume"
    and st: "outcome (resolve_snapshot env ctx volume) = Inr (kw_snapshot kwargs)"
      "outcome (resolve_source_volume env ctx volume) = Inr (kw_source_volume kwargs)"
      "outcome (resolve_source_replica env ctx volume) = Inr (kw_source_replica kwargs)"
    and d: "derive_size volume (kw_snapshot kwargs) (kw_source_volume kwargs)
              (kw_source_replica kwargs) = Inr (arg_size kwargs)"
    unfolding assemble_Inr_iff by auto
  from derive_size_cases [OF d] v st
  show "\<exists>volume. request_mapping env body = Inr volume
         \<and> outcome (resolve_snapshot env ctx volume) = Inr (kw_snapshot kwargs)
         \<and> outcome (resolve_source_volume env ctx volume) = Inr (kw_source_volume kwargs)
         \<and> outcome (resolve_source_replica env ctx volume) = Inr (kw_source_replica kwargs)
         \<and> (dict_get volume ''size'' \<noteq> VNone \<longrightarrow> arg_size kwargs = dict_get volume ''size'')
         \<and> (dict_get volume ''size'' = VNone \<longrightarrow>
              (case kw_snapshot kwargs of
                 Some s \<Rightarrow> s ''volume_size'' = Some (arg_size kwargs)
               | None \<Rightarrow>
                   (case kw_source_volume kwargs of
                      Some v \<Rightarrow> v ''size'' = Some (arg_size kwargs)
                    | None \<Rightarrow>
                        (case kw_source_replica kwargs of
                           Some r \<Rightarrow> r ''size'' = Some (arg_size kwargs)
                         | None \<Rightarrow> arg_size kwargs = VNone))))"
    by blast
next
  assume a: "request_mapping env body = Inr accepted
        \<and> outcome (resolve_volume_type env ctx accepted) = Inr vt'
        \<and> outcome (resolve_snapshot env ctx accepted) = Inr snap
        \<and> outcome (resolve_source_volume env ctx accepted) = Inr sv
        \<and> outcome (resolve_source_replica env ctx accepted) = Inr sr
        \<and> outcome (resolve_consistencygroup env ctx accepted) = Inr cg'
        \<and> outcome (resolve_image env ctx accepted) = Inr img'
        \<and> (dict_get accepted ''size'' \<noteq> VNone \<and> sz = dict_get accepted ''size''
           \<or> dict_get accepted ''size'' = VNone
              \<and> (case snap of
                    Some s \<Rightarrow> s ''volume_size'' = Some sz
                  | None \<Rightarrow>
                      (case sv of
                         Some v \<Rightarrow> v ''size'' = Some sz
                       | None \<Rightarrow>
                           (case sr of
                              Some r \<Rightarrow> r ''size'' = Some sz
                            | None \<Rightarrow> sz = VNone))))"
  then have d: "derive_size accepted snap sv sr = Inr sz"
    by (intro derive_size_priority) blast
  define k where "k =
     \<lparr> arg_size = sz,
       arg_name = dict_get accepted ''display_name'',
       arg_description = dict_get accepted ''display_description'',
       kw_volume_type = vt',
       kw_metadata = dict_get_default accepted ''metadata'' VNone,
       kw_snapshot = snap,
       kw_source_volume = sv,
       kw_source_replica = sr,
       kw_consistencygroup = cg',
       kw_image_id = img',
       kw_availability_zone = dict_get_default accepted ''availability_zone'' VNone,
       kw_scheduler_hints = dict_get_default accepted ''scheduler_hints'' VNone,
       kw_multiattach = dict_get_default accepted ''multiattach'' (VBool False) \<rparr>"
  from a d have "outcome (assemble env ctx body) = Inr k"
    unfolding assemble_Inr_iff k_def by simp
  then have "Call_volume_create k \<in> set (trace (create env ctx body))"
    "outcome (create env ctx body) = volume_create env ctx k"
    by (simp_all add: create_call_iff create_outcome)
  then show "\<exists>k. Call_volume_create k \<in> set (trace (create env ctx body))
               \<and> arg_size k = sz
               \<and> kw_snapshot k = snap \<and> kw_source_volume k = sv \<and> kw_source_replica k = sr
               \<and> outcome (create env ctx body) = volume_create env ctx k"
    by (intro exI [of _ k]) (simp add: k_def)
next
  assume a: "request_mapping env body = Inr request
        \<and> dict_get request ''size'' = VNone
        \<and> dict_get request ''snapshot_id'' = VNone
        \<and> dict_get request ''source_volid'' = VNone
        \<and> dict_get request ''source_replica'' = VNone
        \<and> outcome (resolve_volume_type env ctx request) = Inr vt
        \<and> outcome (resolve_consistencygroup env ctx request) = Inr cg
        \<and> outcome (resolve_image env ctx request) = Inr img"
  define k where "k =
     \<lparr> arg_size = VNone,
       arg_name = dict_get request ''display_name'',
       arg_description = dict_get request ''display_description'',
       kw_volume_type = vt,
       kw_metadata = dict_get_default request ''metadata'' VNone,
       kw_snapshot = None,
       kw_source_volume = None,
       kw_source_replica = None,
       kw_consistencygroup = cg,
       kw_image_id = img,
       kw_availability_zone = dict_get_default request ''availability_zone'' VNone,
       kw_scheduler_hints = dict_get_default request ''scheduler_hints'' VNone,
       kw_multiattach = dict_get_default request ''multiattach'' (VBool False) \<rparr>"
  from a have "outcome (assemble env ctx body) = Inr k"
    unfolding assemble_Inr_iff k_def
    by (simp add: resolve_snapshot_absent resolve_source_volume_absent
          resolve_source_replica_absent derive_size_undetermined)
  then have "Call_volume_create k \<in> set (trace (create env ctx body))"
    "outcome (create env ctx body) = volume_create env ctx k"
    by (simp_all add: create_call_iff create_outcome)
  then show "\<exists>k. Call_volume_create k \<in> set (trace (create env ctx body))
               \<and> arg_size k = VNone
               \<and> kw_snapshot k = None \<and> kw_source_volume k = None \<and> kw_source_replica k = None
               \<and> outcome (create env ctx body) = volume_create env ctx k"
    by (intro exI [of _ k]) (simp add: k_def)
qed

lemma create_from_snapshot:
  "trace (create example_env example_ctx body_from_snapshot) =
     [Call_get_snapshot (VStr ''S1''),
      Call_volume_create ((plain_kwargs (VInt 10))\<lparr>kw_snapshot := Some snapshot_S1\<rparr>)]"
  by (simp add: body_from_snapshot_def plain_kwargs_def snapshot_S1_def example_defs model_defs)

lemma create_empty_request:
  "create example_env example_ctx body_empty_request =
     (Inr [''status'' \<mapsto> VStr ''creating'', ''size'' \<mapsto> VNone],
      [Call_volume_create (plain_kwargs VNone)])"
  by (simp add: body_empty_request_def plain_kwargs_def example_defs model_defs)

text \<open>The steps of the example requests, one by one.\<close>

lemma stages_from_snapshot:
  "request_mapping example_env body_from_snapshot = Inr [''snapshot_id'' \<mapsto> VStr ''S1'']
   \<and> outcome (resolve_volume_type example_env example_ctx [''snapshot_id'' \<mapsto> VStr ''S1'']) = Inr None
   \<and> outcome (resolve_snapshot example_env example_ctx [''snapshot_id'' \<mapsto> VStr ''S1'']) = Inr (Some snapshot_S1)
   \<and> outcome (resolve_source_volume example_env example_ctx [''snapshot_id'' \<mapsto> VStr ''S1'']) = Inr None
   \<and> outcome (resolve_source_replica example_env example_ctx [''snapshot_id'' \<mapsto> VStr ''S1'']) = Inr None
   \<and> outcome (resolve_consistencygroup example_env example_ctx [''snapshot_id'' \<mapsto> VStr ''S1'']) = Inr None
   \<and> outcome (resolve_image example_env example_ctx [''snapshot_id'' \<mapsto> VStr ''S1'']) = Inr None"
  by (simp add: body_from_snapshot_def snapshot_S1_def source_volume_V1_def volume_R2_def
      example_defs model_defs)

lemma stages_from_source_volume:
  "request_mapping example_env body_from_source_volume = Inr [''source_volid'' \<mapsto> VStr ''V1'']
   \<and> outcome (resolve_volume_type example_env example_ctx [''source_volid'' \<mapsto> VStr ''V1'']) = Inr None
   \<and> outcome (resolve_snapshot example_env example_ctx [''source_volid'' \<mapsto> VStr ''V1'']) = Inr None
   \<and> outcome (resolve_source_volume example_env example_ctx [''source_volid'' \<mapsto> VStr ''V1'']) = Inr (Some source_volume_V1)
   \<and> outcome (resolve_source_replica example_env example_ctx [''source_volid'' \<mapsto> VStr ''V1'']) = Inr None
   \<and> outcome (resolve_consistencygroup example_env example_ctx [''source_volid'' \<mapsto> VStr ''V1'']) = Inr None
   \<and> outcome (resolve_image example_env example_ctx [''source_volid'' \<mapsto> VStr ''V1'']) = Inr None"
  by (simp add: body_from_source_volume_def snapshot_S1_def source_volume_V1_def volume_R2_def
      example_defs model_defs)

lemma stages_enabled_replica:
  "request_mapping example_env body_enabled_replica = Inr [''source_replica'' \<mapsto> VStr ''R2'']
   \<and> outcome (resolve_volume_type example_env example_ctx [''source_replica'' \<mapsto> VStr ''R2'']) = Inr None
   \<and> outcome (resolve_snapshot example_env example_ctx [''source_replica'' \<mapsto> VStr ''R2'']) = Inr None
   \<and> outcome (resolve_source_volume example_env example_ctx [''source_replica'' \<mapsto> VStr ''R2'']) = Inr None
   \<and> outcome (resolve_source_replica example_env example_ctx [''source_replica'' \<mapsto> VStr ''R2'']) = Inr (Some volume_R2)
   \<and> outcome (resolve_consistencygroup example_env example_ctx [''source_replica'' \<mapsto> VStr ''R2'']) = Inr None
   \<and> outcome (resolve_image example_env example_ctx [''source_replica'' \<mapsto> VStr ''R2'']) = Inr None"
  by (simp add: body_enabled_replica_def snapshot_S1_def source_volume_V1_def volume_R2_def
      example_defs model_defs)

lemma stages_all_sources:
  "request_mapping example_env body_all_sources = Inr [''snapshot_id'' \<mapsto> VStr ''S1'', ''source_volid'' \<mapsto> VStr ''V1'', ''source_replica'' \<mapsto> VStr ''R2'']
   \<and> outcome (resolve_volume_type example_env example_ctx [''snapshot_id'' \<mapsto> VStr ''S1'', ''source_volid'' \<mapsto> VStr ''V1'', ''source_replica'' \<mapsto> VStr ''R2'']) = Inr None
   \<and> outcome (resolve_snapshot example_env example_ctx [''snapshot_id'' \<mapsto> VStr ''S1'', ''source_volid'' \<mapsto> VStr ''V1'', ''source_replica'' \<mapsto> VStr ''R2'']) = Inr (Some snapshot_S1)
   \<and> outcome (resolve_source_volume example_env example_ctx [''snapshot_id'' \<mapsto> VStr ''S1'', ''source_volid'' \<mapsto> VStr ''V1'', ''source_replica'' \<mapsto> VStr ''R2'']) = Inr (Some source_volume_V1)
   \<and> outcome (resolve_source_replica example_env example_ctx [''snapshot_id'' \<mapsto> VStr ''S1'', ''source_volid'' \<mapsto> VStr ''V1'', ''source_replica'' \<mapsto> VStr ''R2'']) = Inr (Some volume_R2)
   \<and> outcome (resolve_consistencygroup example_env example_ctx [''snapshot_id'' \<mapsto> VStr ''S1'', ''source_volid'' \<mapsto> VStr ''V1'', ''source_replica'' \<mapsto> VStr ''R2'']) = Inr None
   \<and> outcome (resolve_image example_env example_ctx [''snapshot_id'' \<mapsto> VStr ''S1'', ''source_volid'' \<mapsto> VStr ''V1'', ''source_replica'' \<mapsto> VStr ''R2'']) = Inr None"
  by (simp add: body_all_sources_def snapshot_S1_def source_volume_V1_def volume_R2_def
      example_defs model_defs)

lemma stages_volume_and_replica:
  "request_mapping example_env body_volume_and_replica = Inr [''source_volid'' \<mapsto> VStr ''V1'', ''source_replica'' \<mapsto> VStr ''R2'']
   \<and> outcome (resolve_volume_type example_env example_ctx [''source_volid'' \<mapsto> VStr ''V1'', ''source_replica'' \<mapsto> VStr ''R2'']) = Inr None
   \<and> outcome (resolve_snapshot example_env example_ctx [''source_volid'' \<mapsto> VStr ''V1'', ''source_replica'' \<mapsto> VStr ''R2'']) = Inr None
   \<and> outcome (resolve_source_volume example_env example_ctx [''source_volid'' \<mapsto> VStr ''V1'', ''source_replica'' \<mapsto> VStr ''R2'']) = Inr (Some source_volume_V1)
   \<and> outcome (resolve_source_replica example_env example_ctx [''source_volid'' \<mapsto> VStr ''V1'', ''source_replica'' \<mapsto> VStr ''R2'']) = Inr (Some volume_R2)
   \<and> outcome (resolve_consistencygroup example_env example_ctx [''source_volid'' \<mapsto> VStr ''V1'', ''source_replica'' \<mapsto> VStr ''R2'']) = Inr None
   \<and> outcome (resolve_image example_env example_ctx [''source_volid'' \<mapsto> VStr ''V1'', ''source_replica'' \<mapsto> VStr ''R2'']) = Inr None"
  by (simp add: body_volume_and_replica_def snapshot_S1_def source_volume_V1_def volume_R2_def
      example_defs model_defs)

lemma stages_size_and_snapshot:
  "request_mapping example_env body_size_and_snapshot = Inr [''size'' \<mapsto> VInt 5, ''snapshot_id'' \<mapsto> VStr ''S1'']
   \<and> outcome (resolve_volume_type example_env example_ctx [''size'' \<mapsto> VInt 5, ''snapshot_id'' \<mapsto> VStr ''S1'']) = Inr None
   \<and> outcome (resolve_snapshot example_env example_ctx [''size'' \<mapsto> VInt 5, ''snapshot_id'' \<mapsto> VStr ''S1'']) = Inr (Some snapshot_S1)
   \<and> outcome (resolve_source_volume example_env example_ctx [''size'' \<mapsto> VInt 5, ''snapshot_id'' \<mapsto> VStr ''S1'']) = Inr None
   \<and> outcome (resolve_source_replica example_env example_ctx [''size'' \<mapsto> VInt 5, ''snapshot_id'' \<mapsto> VStr ''S1'']) = Inr None
   \<and> outcome (resolve_consistencygroup example_env example_ctx [''size'' \<mapsto> VInt 5, ''snapshot_id'' \<mapsto> VStr ''S1'']) = Inr None
   \<and> outcome (resolve_image example_env example_ctx [''size'' \<mapsto> VInt 5, ''snapshot_id'' \<mapsto> VStr ''S1'']) = Inr None"
  by (simp add: body_size_and_snapshot_def snapshot_S1_def source_volume_V1_def volume_R2_def
      example_defs model_defs)

theorem create_size_derivation_witness:
  "snapshot_S1 ''volume_size'' = Some (VInt 10)
   \<and> source_volume_V1 ''size'' = Some (VInt 20)
   \<and> volume_R2 ''size'' = Some (VInt 30)
   \<and> (\<exists>k. Call_volume_create k \<in> set (trace (create example_env example_ctx body_from_snapshot))
          \<and> arg_size k = VInt 10
          \<and> kw_snapshot k = Some snapshot_S1 \<and> kw_source_volume k = None
          \<and> kw_source_replica k = None)
   \<and> (\<exists>k. Call_volume_create k \<in> set (trace (create example_env example_ctx body_from_source_volume))
          \<and> arg_size k = VInt 20
          \<and> kw_snapshot k = None \<and> kw_source_volume k = Some source_volume_V1
          \<and> kw_source_replica k = None)
   \<and> (\<exists>k. Call_volume_create k \<in> set (trace (create example_env example_ctx body_enabled_replica))
          \<and> arg_size k = VInt 30
          \<and> kw_snapshot k = None \<and> kw_source_volume k = None
          \<and> kw_source_replica k = Some volume_R2)
   \<and> (\<exists>k. Call_volume_create k \<in> set (trace (create example_env example_ctx body_all_sources))
          \<and> arg_size k = VInt 10
          \<and> kw_snapshot k = Some snapshot_S1 \<and> kw_source_volume k = Some source_volume_V1
          \<and> kw_source_replica k = Some volume_R2)
   \<and> (\<exists>k. Call_volume_create k \<in> set (trace (create example_env example_ctx body_volume_and_replica))
          \<and> arg_size k = VInt 20
          \<and> kw_snapshot k = None \<and> kw_source_volume k = Some source_volume_V1
          \<and> kw_source_replica k = Some volume_R2)
   \<and> (\<exists>k. Call_volume_create k \<in> set (trace (create example_env example_ctx body_size_and_snapshot))
          \<and> arg_size k = VInt 5
          \<and> kw_snapshot k = Some snapshot_S1 \<and> kw_source_volume k = None
          \<and> kw_source_replica k = None)
   \<and> (\<exists>k. Call_volume_create k \<in> set (trace (create example_env example_ctx body_empty_request))
          \<and> arg_size k = VNone)"
proof -
  note sizes = snapshot_S1_def source_volume_V1_def volume_R2_def dict_get_def
  let ?k = "(plain_kwargs (VInt 10))\<lparr>kw_snapshot := Some snapshot_S1\<rparr>"
  have i1: "Call_volume_create ?k \<in> set (trace (create example_env example_ctx body_from_snapshot))"
    by (simp add: create_from_snapshot)
  have i2: "request_mapping example_env body_from_snapshot = Inr [''snapshot_id'' \<mapsto> VStr ''S1'']"
    by (simp add: body_from_snapshot_def example_defs model_defs)
  have s1: "snapshot_S1 ''volume_size'' = Some (arg_size ?k)"
    using create_size_derivation [where kwargs = ?k and env = example_env and ctx = example_ctx
        and body = body_from_snapshot] i1 i2
    by (auto simp: plain_kwargs_def dict_get_def)
  have s2: "source_volume_V1 ''size'' = Some (VInt 20)" "volume_R2 ''size'' = Some (VInt 30)"
    by (simp_all add: source_volume_V1_def volume_R2_def)
  have p0: "dict_get [''snapshot_id'' \<mapsto> VStr ''S1''] ''size'' \<noteq> VNone
           \<and> VInt 10 = dict_get [''snapshot_id'' \<mapsto> VStr ''S1''] ''size''
         \<or> dict_get [''snapshot_id'' \<mapsto> VStr ''S1''] ''size'' = VNone
           \<and> (case Some snapshot_S1 of
                 Some s \<Rightarrow> s ''volume_size'' = Some (VInt 10)
               | None \<Rightarrow>
                   (case None of
                      Some v \<Rightarrow> v ''size'' = Some (VInt 10)
                    | None \<Rightarrow>
                        (case None of
                           Some r \<Rightarrow> r ''size'' = Some (VInt 10)
                         | None \<Rightarrow> VInt 10 = VNone)))"
    by (simp add: sizes)
  have c0: "\<exists>k. Call_volume_create k \<in> set (trace (create example_env example_ctx body_from_snapshot))
          \<and> arg_size k = VInt 10
          \<and> kw_snapshot k = Some snapshot_S1 \<and> kw_source_volume k = None
          \<and> kw_source_replica k = None"
    using create_size_derivation [where env = example_env and ctx = example_ctx
        and body = body_from_snapshot and accepted = "[''snapshot_id'' \<mapsto> VStr ''S1'']"
        and vt' = None and snap = "Some snapshot_S1" and sv = "None"
        and sr = "None" and cg' = None and img' = None and sz = "VInt 10"]
      stages_from_snapshot p0
    by blast
  have p1: "dict_get [''source_volid'' \<mapsto> VStr ''V1''] ''size'' \<noteq> VNone
           \<and> VInt 20 = dict_get [''source_volid'' \<mapsto> VStr ''V1''] ''size''
         \<or> dict_get [''source_volid'' \<mapsto> VStr ''V1''] ''size'' = VNone
           \<and> (case None of
                 Some s \<Rightarrow> s ''volume_size'' = Some (VInt 20)
               | None \<Rightarrow>
                   (case Some source_volume_V1 of
                      Some v \<Rightarrow> v ''size'' = Some (VInt 20)
                    | None \<Rightarrow>
                        (case None of
                           Some r \<Rightarrow> r ''size'' = Some (VInt 20)
                         | None \<Rightarrow> VInt 20 = VNone)))"
    by (simp add: sizes)
  have c1: "\<exists>k. Call_volume_create k \<in> set (trace (create example_env example_ctx body_from_source_volume))
          \<and> arg_size k = VInt 20
          \<and> kw_snapshot k = None \<and> kw_source_volume k = Some source_volume_V1
          \<and> kw_source_replica k = None"
    using create_size_derivation [where env = example_env and ctx = example_ctx
        and body = body_from_source_volume and accepted = "[''source_volid'' \<mapsto> VStr ''V1'']"
        and vt' = None and snap = "None" and sv = "Some source_volume_V1"
        and sr = "None" and cg' = None and img' = None and sz = "VInt 20"]
      stages_from_source_volume p1
    by blast
  have p2: "dict_get [''source_replica'' \<mapsto> VStr ''R2''] ''size'' \<noteq> VNone
           \<and> VInt 30 = dict_get [''source_replica'' \<mapsto> VStr ''R2''] ''size''
         \<or> dict_get [''source_replica'' \<mapsto> VStr ''R2''] ''size'' = VNone
           \<and> (case None of
                 Some s \<Rightarrow> s ''volume_size'' = Some (VInt 30)
               | None \<Rightarrow>
                   (case None of
                      Some v \<Rightarrow> v ''size'' = Some (VInt 30)
                    | None \<Rightarrow>
                        (case Some volume_R2 of
                           Some r \<Rightarrow> r ''size'' = Some (VInt 30)
                         | None \<Rightarrow> VInt 30 = VNone)))"
    by (simp add: sizes)
  have c2: "\<exists>k. Call_volume_create k \<in> set (trace (create example_env example_ctx body_enabled_replica))
          \<and> arg_size k = VInt 30
          \<and> kw_snapshot k = None \<and> kw_source_volume k = None
          \<and> kw_source_replica k = Some volume_R2"
    using create_size_derivation [where env = example_env and ctx = example_ctx
        and body = body_enabled_replica and accepted = "[''source_replica'' \<mapsto> VStr ''R2'']"
        and vt' = None and snap = "None" and sv = "None"
        and sr = "Some volume_R2" and cg' = None and img' = None and sz = "VInt 30"]
      stages_enabled_replica p2
    by blast
  have p3: "dict_get [''snapshot_id'' \<mapsto> VStr ''S1'', ''source_volid'' \<mapsto> VStr ''V1'', ''source_replica'' \<mapsto> VStr ''R2''] ''size'' \<noteq> VNone
           \<and> VInt 10 = dict_get [''snapshot_id'' \<mapsto> VStr ''S1'', ''source_volid'' \<mapsto> VStr ''V1'', ''source_replica'' \<mapsto> VStr ''R2''] ''size''
         \<or> dict_get [''snapshot_id'' \<mapsto> VStr ''S1'', ''source_volid'' \<mapsto> VStr ''V1'', ''source_replica'' \<mapsto> VStr ''R2''] ''size'' = VNone
           \<and> (case Some snapshot_S1 of
                 Some s \<Rightarrow> s ''volume_size'' = Some (VInt 10)
               | None \<Rightarrow>
                   (case Some source_volume_V1 of
                      Some v \<Rightarrow> v ''size'' = Some (VInt 10)
                    | None \<Rightarrow>
                        (case Some volume_R2 of
                           Some r \<Rightarrow> r ''size'' = Some (VInt 10)
                         | None \<Rightarrow> VInt 10 = VNone)))"
    by (simp add: sizes)
  have c3: "\<exists>k. Call_volume_create k \<in> set (trace (create example_env example_ctx body_all_sources))
          \<and> arg_size k = VInt 10
          \<and> kw_snapshot k = Some snapshot_S1 \<and> kw_source_volume k = Some source_volume_V1
          \<and> kw_source_replica k = Some volume_R2"
    using create_size_derivation [where env = example_env and ctx = example_ctx
        and body = body_all_sources and accepted = "[''snapshot_id'' \<mapsto> VStr ''S1'', ''source_volid'' \<mapsto> VStr ''V1'', ''source_replica'' \<mapsto> VStr ''R2'']"
        and vt' = None and snap = "Some snapshot_S1" and sv = "Some source_volume_V1"
        and sr = "Some volume_R2" and cg' = None and img' = None and sz = "VInt 10"]
      stages_all_sources p3
    by blast
  have p4: "dict_get [''source_volid'' \<mapsto> VStr ''V1'', ''source_replica'' \<mapsto> VStr ''R2''] ''size'' \<noteq> VNone
           \<and> VInt 20 = dict_get [''source_volid'' \<mapsto> VStr ''V1'', ''source_replica'' \<mapsto> VStr ''R2''] ''size''
         \<or> dict_get [''source_volid'' \<mapsto> VStr ''V1'', ''source_replica'' \<mapsto> VStr ''R2''] ''size'' = VNone
           \<and> (case None of
                 Some s \<Rightarrow> s ''volume_size'' = Some (VInt 20)
               | None \<Rightarrow>
                   (case Some source_volume_V1 of
                      Some v \<Rightarrow> v ''size'' = Some (VInt 20)
                    | None \<Rightarrow>
                        (case Some volume_R2 of
                           Some r \<Rightarrow> r ''size'' = Some (VInt 20)
                         | None \<Rightarrow> VInt 20 = VNone)))"
    by (simp add: sizes)
  have c4: "\<exists>k. Call_volume_create k \<in> set (trace (create example_env example_ctx body_volume_and_replica))
          \<and> arg_size k = VInt 20
          \<and> kw_snapshot k = None \<and> kw_source_volume k = Some source_volume_V1
          \<and> kw_source_replica k = Some volume_R2"
    using create_size_derivation [where env = example_env and ctx = example_ctx
        and body = body_volume_and_replica and accepted = "[''source_volid'' \<mapsto> VStr ''V1'', ''source_replica'' \<mapsto> VStr ''R2'']"
        and vt' = None and snap = "None" and sv = "Some source_volume_V1"
        and sr = "Some volume_R2" and cg' = None and img' = None and sz = "VInt 20"]
      stages_volume_and_replica p4
    by blast
  have p5: "dict_get [''size'' \<mapsto> VInt 5, ''snapshot_id'' \<mapsto> VStr ''S1''] ''size'' \<noteq> VNone
           \<and> VInt 5 = dict_get [''size'' \<mapsto> VInt 5, ''snapshot_id'' \<mapsto> VStr ''S1''] ''size''
         \<or> dict_get [''size'' \<mapsto> VInt 5, ''snapshot_id'' \<mapsto> VStr ''S1''] ''size'' = VNone
           \<and> (case Some snapshot_S1 of
                 Some s \<Rightarrow> s ''volume_size'' = Some (VInt 5)
               | None \<Rightarrow>
                   (case None of
                      Some v \<Rightarrow> v ''size'' = Some (VInt 5)
                    | None \<Rightarrow>
                        (case None of
                           Some r \<Rightarrow> r ''size'' = Some (VInt 5)
                         | None \<Rightarrow> VInt 5 = VNone)))"
    by (simp add: sizes)
  have c5: "\<exists>k. Call_volume_create k \<in> set (trace (create example_env example_ctx body_size_and_snapshot))
          \<and> arg_size k = VInt 5
          \<and> kw_snapshot k = Some snapshot_S1 \<and> kw_source_volume k = None
          \<and> kw_source_replica k = None"
    using create_size_derivation [where env = example_env and ctx = example_ctx
        and body = body_size_and_snapshot and accepted = "[''size'' \<mapsto> VInt 5, ''snapshot_id'' \<mapsto> VStr ''S1'']"
        and vt' = None and snap = "Some snapshot_S1" and sv = "None"
        and sr = "None" and cg' = None and img' = None and sz = "VInt 5"]
      stages_size_and_snapshot p5
    by blast
  have h: "request_mapping example_env body_empty_request = Inr Map.empty
        \<and> dict_get Map.empty ''size'' = VNone
        \<and> dict_get Map.empty ''snapshot_id'' = VNone
        \<and> dict_get Map.empty ''source_volid'' = VNone
        \<and> dict_get Map.empty ''source_replica'' = VNone
        \<and> outcome (resolve_volume_type example_env example_ctx Map.empty) = Inr None
        \<and> outcome (resolve_consistencygroup example_env example_ctx Map.empty) = Inr None
        \<and> outcome (resolve_image example_env example_ctx Map.empty) = Inr None"
    by (simp add: body_empty_request_def example_defs model_defs)
  have c: "\<exists>k. Call_volume_create k \<in> set (trace (create example_env example_ctx body_empty_request))
          \<and> arg_size k = VNone"
    using create_size_derivation [where env = example_env and ctx = example_ctx
        and body = body_empty_request and request = Map.empty and vt = None and cg = None
        and img = None] h
    by blast
  from s1 have s1': "snapshot_S1 ''volume_size'' = Some (VInt 10)"
    by (simp add: plain_kwargs_def)
  from s1' s2 c0 c1 c2 c3 c4 c5 c show ?thesis
    by blast
qed

section \<open>The source replica\<close>

lemma resolve_source_replica_found:
  "dict_get volume ''source_replica'' \<noteq> VNone \<Longrightarrow>
   get_volume env ctx (dict_get volume ''source_replica'') = Inr src_vol \<Longrightarrow>
   outcome (resolve_source_replica env ctx volume) =
     (case src_vol ''replication_status'' of
        None \<Rightarrow> Inl (KeyError ''replication_status'')
      | Some status \<Rightarrow>
          if status = VStr ''disabled''
          then Inl (not_replicated (dict_get volume ''source_replica''))
          else Inr (Some src_vol))"
  by (simp add: resolve_source_replica_def Let_def outcome_and_then dict_getitem_def
        split: option.splits)

lemma create_disabled_replica:
  "create example_env example_ctx body_disabled_replica =
     (Inl (HTTPBadRequest (MsgArg ''source volume id:%s is not replicated'' (VStr ''R1''))),
      [Call_get_volume (VStr ''R1'')])"
  by (simp add: body_disabled_replica_def example_defs model_defs)

text \<open>
  Claim C3, as stated, fails: a request whose \<^verbatim>\<open>source_replica\<close> names a volume with
  replication status \<^verbatim>\<open>disabled\<close> is answered with \<^verbatim>\<open>HTTPBadRequest\<close> (line 236), not
  with \<^verbatim>\<open>InvalidInput\<close>.
\<close>

theorem source_replica_error_kind_counterexample:
  "outcome (create example_env example_ctx body_disabled_replica)
     = Inl (HTTPBadRequest (MsgArg ''source volume id:%s is not replicated'' (VStr ''R1'')))
   \<and> outcome (create example_env example_ctx body_disabled_replica)
       \<noteq> Inl (InvalidInput (MsgArg ''source volume id:%s is not replicated'' (VStr ''R1'')))"
  by (simp add: create_disabled_replica)

text \<open>
  Claim C3, amended. For a request whose \<^verbatim>\<open>source_replica\<close> is not \<^verbatim>\<open>None\<close> and whose
  referenced volume is found, the resolution of lines 228 to 239 fails with
  \<^verbatim>\<open>HTTPBadRequest\<close>, carrying the message that the source volume is not replicated, if
  and only if the volume's \<^verbatim>\<open>replication_status\<close> equals \<^verbatim>\<open>disabled\<close>. With that status
  \<^verbatim>\<open>create\<close> fails with this error, once the steps before have passed, and never calls
  \<^verbatim>\<open>volume_api.create\<close>; with any other status the resolved volume is the source replica of
  the resolution and of every call of \<^verbatim>\<open>volume_api.create\<close> the request leads to.
\<close>

theorem source_replica_disabled_iff:
  "request_mapping env body = Inr volume
   \<and> dict_get volume ''source_replica'' = r \<and> r \<noteq> VNone
   \<and> get_volume env ctx r = Inr src_vol
   \<longrightarrow>
     (outcome (resolve_source_replica env ctx volume)
        = Inl (HTTPBadRequest (MsgArg ''source volume id:%s is not replicated'' r))
      \<longleftrightarrow> src_vol ''replication_status'' = Some (VStr ''disabled''))
     \<and> (src_vol ''replication_status'' = Some (VStr ''disabled'')
          \<and> outcome (resolve_volume_type env ctx volume) = Inr vt
          \<and> outcome (resolve_snapshot env ctx volume) = Inr snap
          \<and> outcome (resolve_source_volume env ctx volume) = Inr sv
        \<longrightarrow> outcome (create env ctx body)
              = Inl (HTTPBadRequest (MsgArg ''source volume id:%s is not replicated'' r))
            \<and> (\<forall>k. Call_volume_create k \<notin> set (trace (create env ctx body))))
     \<and> (src_vol ''replication_status'' = Some status \<and> status \<noteq> VStr ''disabled''
        \<longrightarrow> outcome (resolve_source_replica env ctx volume) = Inr (Some src_vol))
     \<and> (Call_volume_create k \<in> set (trace (create env ctx body))
        \<longrightarrow> kw_source_replica k = Some src_vol
            \<and> src_vol ''replication_status'' \<noteq> Some (VStr ''disabled''))"
proof (intro impI)
  assume a: "request_mapping env body = Inr volume
   \<and> dict_get volume ''source_replica'' = r \<and> r \<noteq> VNone
   \<and> get_volume env ctx r = Inr src_vol"
  then have m: "request_mapping env body = Inr volume"
    and r: "dict_get volume ''source_replica'' \<noteq> VNone"
      "get_volume env ctx (dict_get volume ''source_replica'') = Inr src_vol"
      "dict_get volume ''source_replica'' = r"
    by auto
  note found = resolve_source_replica_found [OF r(1) r(2), unfolded r(3) not_replicated_def]
  have iff: "outcome (resolve_source_replica env ctx volume)
        = Inl (HTTPBadRequest (MsgArg ''source volume id:%s is not replicated'' r))
      \<longleftrightarrow> src_vol ''replication_status'' = Some (VStr ''disabled'')"
    by (simp add: found split: option.splits)
  have fails: "outcome (create env ctx body)
              = Inl (HTTPBadRequest (MsgArg ''source volume id:%s is not replicated'' r))
            \<and> (\<forall>k. Call_volume_create k \<notin> set (trace (create env ctx body)))"
    if d: "src_vol ''replication_status'' = Some (VStr ''disabled'')
          \<and> outcome (resolve_volume_type env ctx volume) = Inr vt
          \<and> outcome (resolve_snapshot env ctx volume) = Inr snap
          \<and> outcome (resolve_source_volume env ctx volume) = Inr sv"
  proof -
    from d iff have e: "outcome (resolve_source_replica env ctx volume)
        = Inl (HTTPBadRequest (MsgArg ''source volume id:%s is not replicated'' r))"
      by simp
    with m d have "outcome (assemble env ctx body)
        = Inl (HTTPBadRequest (MsgArg ''source volume id:%s is not replicated'' r))"
      by (simp add: assemble_def outcome_and_then)
    then show ?thesis
      by (simp add: create_outcome create_call_iff)
  qed
  have other: "outcome (resolve_source_replica env ctx volume) = Inr (Some src_vol)"
    if "src_vol ''replication_status'' = Some status \<and> status \<noteq> VStr ''disabled''"
    using that by (simp add: found)
  have reached: "kw_source_replica k = Some src_vol
            \<and> src_vol ''replication_status'' \<noteq> Some (VStr ''disabled'')"
    if c: "Call_volume_create k \<in> set (trace (create env ctx body))"
  proof -
    from c have "outcome (assemble env ctx body) = Inr k"
      by (simp add: create_call_iff)
    with m have "outcome (resolve_source_replica env ctx volume) = Inr (kw_source_replica k)"
      unfolding assemble_Inr_iff by auto
    then show ?thesis
      by (simp add: found split: option.splits if_splits)
  qed
  from iff fails other reached
  show "(outcome (resolve_source_replica env ctx volume)
        = Inl (HTTPBadRequest (MsgArg ''source volume id:%s is not replicated'' r))
      \<longleftrightarrow> src_vol ''replication_status'' = Some (VStr ''disabled''))
     \<and> (src_vol ''replication_status'' = Some (VStr ''disabled'')
          \<and> outcome (resolve_volume_type env ctx volume) = Inr vt
          \<and> outcome (resolve_snapshot env ctx volume) = Inr snap
          \<and> outcome (resolve_source_volume env ctx volume) = Inr sv
        \<longrightarrow> outcome (create env ctx body)
              = Inl (HTTPBadRequest (MsgArg ''source volume id:%s is not replicated'' r))
            \<and> (\<forall>k. Call_volume_create k \<notin> set (trace (create env ctx body))))
     \<and> (src_vol ''replication_status'' = Some status \<and> status \<noteq> VStr ''disabled''
        \<longrightarrow> outcome (resolve_source_replica env ctx volume) = Inr (Some src_vol))
     \<and> (Call_volume_create k \<in> set (trace (create env ctx body))
        \<longrightarrow> kw_source_replica k = Some src_vol
            \<and> src_vol ''replication_status'' \<noteq> Some (VStr ''disabled''))"
    by blast
qed

lemma create_enabled_replica:
  "trace (create example_env example_ctx body_enabled_replica) =
     [Call_get_volume (VStr ''R2''),
      Call_volume_create ((plain_kwargs (VInt 30))\<lparr>kw_source_replica := Some volume_R2\<rparr>)]"
  by (simp add: body_enabled_replica_def plain_kwargs_def volume_R2_def example_defs model_defs)

theorem source_replica_disabled_iff_witness:
  "request_mapping example_env body_enabled_replica = Inr [''source_replica'' \<mapsto> VStr ''R2'']
   \<and> get_volume example_env example_ctx (VStr ''R2'') = Inr volume_R2
   \<and> volume_R2 ''replication_status'' = Some (VStr ''enabled'')
   \<and> outcome (resolve_source_replica example_env example_ctx [''source_replica'' \<mapsto> VStr ''R2''])
       = Inr (Some volume_R2)
   \<and> Call_volume_create ((plain_kwargs (VInt 30))\<lparr>kw_source_replica := Some volume_R2\<rparr>)
       \<in> set (trace (create example_env example_ctx body_enabled_replica))
   \<and> request_mapping example_env body_disabled_replica = Inr [''source_replica'' \<mapsto> VStr ''R1'']
   \<and> get_volume example_env example_ctx (VStr ''R1'') = Inr volume_R1
   \<and> volume_R1 ''replication_status'' = Some (VStr ''disabled'')
   \<and> outcome (resolve_source_replica example_env example_ctx [''source_replica'' \<mapsto> VStr ''R1''])
       = Inl (HTTPBadRequest (MsgArg ''source volume id:%s is not replicated'' (VStr ''R1'')))"
proof -
  have h2: "request_mapping example_env body_enabled_replica = Inr [''source_replica'' \<mapsto> VStr ''R2'']
     \<and> dict_get [''source_replica'' \<mapsto> VStr ''R2''] ''source_replica'' = VStr ''R2''
     \<and> VStr ''R2'' \<noteq> VNone
     \<and> get_volume example_env example_ctx (VStr ''R2'') = Inr volume_R2"
    by (simp add: body_enabled_replica_def volume_R2_def example_defs request_mapping_def
          normalize_fields_def dict_getitem_def dict_get_def)
  have s2: "volume_R2 ''replication_status'' = Some (VStr ''enabled'')
     \<and> VStr ''enabled'' \<noteq> VStr ''disabled''"
    by (simp add: volume_R2_def)
  have c2: "outcome (resolve_source_replica example_env example_ctx [''source_replica'' \<mapsto> VStr ''R2''])
       = Inr (Some volume_R2)"
    using source_replica_disabled_iff
            [of example_env body_enabled_replica "[''source_replica'' \<mapsto> VStr ''R2'']"
                "VStr ''R2''" example_ctx volume_R2 undefined undefined undefined
                "VStr ''enabled''" undefined]
          h2 s2
    by blast
  have h1: "request_mapping example_env body_disabled_replica = Inr [''source_replica'' \<mapsto> VStr ''R1'']
     \<and> dict_get [''source_replica'' \<mapsto> VStr ''R1''] ''source_replica'' = VStr ''R1''
     \<and> VStr ''R1'' \<noteq> VNone
     \<and> get_volume example_env example_ctx (VStr ''R1'') = Inr volume_R1"
    by (simp add: body_disabled_replica_def volume_R1_def example_defs request_mapping_def
          normalize_fields_def dict_getitem_def dict_get_def)
  have s1: "volume_R1 ''replication_status'' = Some (VStr ''disabled'')"
    by (simp add: volume_R1_def)
  have c1: "outcome (resolve_source_replica example_env example_ctx [''source_replica'' \<mapsto> VStr ''R1''])
       = Inl (HTTPBadRequest (MsgArg ''source volume id:%s is not replicated'' (VStr ''R1'')))"
    using source_replica_disabled_iff
            [of example_env body_disabled_replica "[''source_replica'' \<mapsto> VStr ''R1'']"
                "VStr ''R1''" example_ctx volume_R1 undefined undefined undefined
                undefined undefined]
          h1 s1
    by blast
  from h2 s2 c2 h1 s1 c1 show ?thesis
    by (simp add: create_enabled_replica)
qed

section \<open>The steps of assemble, one after the other\<close>

lemma assemble_outcome_steps:
  "request_mapping env body = Inr volume \<Longrightarrow>
   outcome (assemble env ctx body) =
     (case outcome (resolve_volume_type env ctx volume) of Inl e \<Rightarrow> Inl e | Inr vt \<Rightarrow>
      (case outcome (resolve_snapshot env ctx volume) of Inl e \<Rightarrow> Inl e | Inr snap \<Rightarrow>
      (case outcome (resolve_source_volume env ctx volume) of Inl e \<Rightarrow> Inl e | Inr sv \<Rightarrow>
      (case outcome (resolve_source_replica env ctx volume) of Inl e \<Rightarrow> Inl e | Inr sr \<Rightarrow>
      (case outcome (resolve_consistencygroup env ctx volume) of Inl e \<Rightarrow> Inl e | Inr cg \<Rightarrow>
      (case derive_size volume snap sv sr of Inl e \<Rightarrow> Inl e | Inr sz \<Rightarrow>
      (case outcome (resolve_image env ctx volume) of Inl e \<Rightarrow> Inl e | Inr img \<Rightarrow>
        Inr \<lparr> arg_size = sz,
              arg_name = dict_get volume ''display_name'',
              arg_description = dict_get volume ''display_description'',
              kw_volume_type = vt,
              kw_metadata = dict_get_default volume ''metadata'' VNone,
              kw_snapshot = snap,
              kw_source_volume = sv,
              kw_source_replica = sr,
              kw_consistencygroup = cg,
              kw_image_id = img,
              kw_availability_zone = dict_get_default volume ''availability_zone'' VNone,
              kw_scheduler_hints = dict_get_default volume ''scheduler_hints'' VNone,
              kw_multiattach = dict_get_default volume ''multiattach'' (VBool False) \<rparr>)))))))"
  by (simp add: assemble_def outcome_and_then split: sum.splits)

lemma assemble_trace_steps:
  "request_mapping env body = Inr volume \<Longrightarrow>
   trace (assemble env ctx body) =
     trace (resolve_volume_type env ctx volume) @
     (case outcome (resolve_volume_type env ctx volume) of Inl e \<Rightarrow> [] | Inr vt \<Rightarrow>
      trace (resolve_snapshot env ctx volume) @
      (case outcome (resolve_snapshot env ctx volume) of Inl e \<Rightarrow> [] | Inr snap \<Rightarrow>
       trace (resolve_source_volume env ctx volume) @
       (case outcome (resolve_source_volume env ctx volume) of Inl e \<Rightarrow> [] | Inr sv \<Rightarrow>
        trace (resolve_source_replica env ctx volume) @
        (case outcome (resolve_source_replica env ctx volume) of Inl e \<Rightarrow> [] | Inr sr \<Rightarrow>
         trace (resolve_consistencygroup env ctx volume) @
         (case outcome (resolve_consistencygroup env ctx volume) of Inl e \<Rightarrow> [] | Inr cg \<Rightarrow>
          (case derive_size volume snap sv sr of Inl e \<Rightarrow> [] | Inr sz \<Rightarrow>
           trace (resolve_image env ctx volume)))))))"
  by (simp add: assemble_def trace_and_then split: sum.splits)

lemma assemble_request_fails:
  "request_mapping env body = Inl e \<Longrightarrow> assemble env ctx body = (Inl e, [])"
  by (simp add: assemble_def and_then_def lift_def)

lemma create_of_assemble_fails:
  "assemble env ctx body = (Inl e, t) \<Longrightarrow> create env ctx body = (Inl e, t)"
  by (simp add: create_def and_then_def)

section \<open>The volume type\<close>

lemma resolve_volume_type_present:
  "truthy (dict_get volume ''volume_type'') \<Longrightarrow>
   resolve_volume_type env ctx volume =
     (if is_uuid_like env (dict_get volume ''volume_type'')
      then ((case get_volume_type env ctx (dict_get volume ''volume_type'') of
               Inl e \<Rightarrow> Inl e | Inr vt \<Rightarrow> Inr (Some vt)),
            [Call_get_volume_type (dict_get volume ''volume_type'')])
      else ((case get_volume_type_by_name env ctx (dict_get volume ''volume_type'') of
               Inl e \<Rightarrow> Inl e | Inr vt \<Rightarrow> Inr (Some vt)),
            [Call_get_volume_type_by_name (dict_get volume ''volume_type'')]))"
  by (simp add: resolve_volume_type_def dict_get_def dict_get_default_def Let_def
        and_then_def call_def ok_def split: sum.splits)

lemma resolve_volume_type_absent:
  "\<not> truthy (dict_get volume ''volume_type'') \<Longrightarrow> resolve_volume_type env ctx volume = ok None"
  by (simp add: resolve_volume_type_def dict_get_def dict_get_default_def Let_def)

text \<open>
  Claim C8. A \<^verbatim>\<open>volume_type\<close> value that passes the truth test of line 199 is looked
  up by identifier when \<^verbatim>\<open>is_uuid_like\<close> accepts it and by name otherwise, with one call
  and no other. An exception of the lookup, \<^verbatim>\<open>NotFound\<close> on a miss, is the exception of
  \<^verbatim>\<open>create\<close>, which has called nothing else; the volume type found is the
  \<^verbatim>\<open>volume_type\<close> keyword of every call of \<^verbatim>\<open>volume_api.create\<close> the request leads to.
\<close>

theorem volume_type_resolution:
  "request_mapping env body = Inr volume \<and> dict_get volume ''volume_type'' = t \<and> truthy t
   \<longrightarrow>
     (is_uuid_like env t \<longrightarrow>
        trace (resolve_volume_type env ctx volume) = [Call_get_volume_type t]
        \<and> outcome (resolve_volume_type env ctx volume)
            = (case get_volume_type env ctx t of Inl e \<Rightarrow> Inl e | Inr vt \<Rightarrow> Inr (Some vt)))
     \<and> (\<not> is_uuid_like env t \<longrightarrow>
        trace (resolve_volume_type env ctx volume) = [Call_get_volume_type_by_name t]
        \<and> outcome (resolve_volume_type env ctx volume)
            = (case get_volume_type_by_name env ctx t of
                 Inl e \<Rightarrow> Inl e | Inr vt \<Rightarrow> Inr (Some vt)))
     \<and> (is_uuid_like env t \<and> get_volume_type env ctx t = Inl e \<longrightarrow>
        create env ctx body = (Inl e, [Call_get_volume_type t]))
     \<and> (\<not> is_uuid_like env t \<and> get_volume_type_by_name env ctx t = Inl e \<longrightarrow>
        create env ctx body = (Inl e, [Call_get_volume_type_by_name t]))
     \<and> (Call_volume_create k \<in> set (trace (create env ctx body)) \<longrightarrow>
        (\<exists>vt. kw_volume_type k = Some vt
           \<and> (if is_uuid_like env t then get_volume_type env ctx t
               else get_volume_type_by_name env ctx t) = Inr vt))"
proof (intro impI)
  assume a: "request_mapping env body = Inr volume \<and> dict_get volume ''volume_type'' = t \<and> truthy t"
  then have m: "request_mapping env body = Inr volume"
    and t: "truthy (dict_get volume ''volume_type'')" "dict_get volume ''volume_type'' = t"
    by auto
  note rvt = resolve_volume_type_present [OF t(1), of env ctx, unfolded t(2)]
  have by_id: "trace (resolve_volume_type env ctx volume) = [Call_get_volume_type t]
        \<and> outcome (resolve_volume_type env ctx volume)
            = (case get_volume_type env ctx t of Inl e \<Rightarrow> Inl e | Inr vt \<Rightarrow> Inr (Some vt))"
    if "is_uuid_like env t"
    using that by (simp add: rvt)
  have by_name: "trace (resolve_volume_type env ctx volume) = [Call_get_volume_type_by_name t]
        \<and> outcome (resolve_volume_type env ctx volume)
            = (case get_volume_type_by_name env ctx t of
                 Inl e \<Rightarrow> Inl e | Inr vt \<Rightarrow> Inr (Some vt))"
    if "\<not> is_uuid_like env t"
    using that by (simp add: rvt)
  have miss_id: "create env ctx body = (Inl e, [Call_get_volume_type t])"
    if "is_uuid_like env t \<and> get_volume_type env ctx t = Inl e"
  proof -
    from that have "outcome (resolve_volume_type env ctx volume) = Inl e"
      "trace (resolve_volume_type env ctx volume) = [Call_get_volume_type t]"
      by (simp_all add: rvt)
    then have "assemble env ctx body = (Inl e, [Call_get_volume_type t])"
      by (intro res_eqI) (simp_all add: assemble_outcome_steps [OF m] assemble_trace_steps [OF m])
    then show ?thesis
      by (rule create_of_assemble_fails)
  qed
  have miss_name: "create env ctx body = (Inl e, [Call_get_volume_type_by_name t])"
    if "\<not> is_uuid_like env t \<and> get_volume_type_by_name env ctx t = Inl e"
  proof -
    from that have "outcome (resolve_volume_type env ctx volume) = Inl e"
      "trace (resolve_volume_type env ctx volume) = [Call_get_volume_type_by_name t]"
      by (simp_all add: rvt)
    then have "assemble env ctx body = (Inl e, [Call_get_volume_type_by_name t])"
      by (intro res_eqI) (simp_all add: assemble_outcome_steps [OF m] assemble_trace_steps [OF m])
    then show ?thesis
      by (rule create_of_assemble_fails)
  qed
  have placed: "\<exists>vt. kw_volume_type k = Some vt
           \<and> (if is_uuid_like env t then get_volume_type env ctx t
               else get_volume_type_by_name env ctx t) = Inr vt"
    if c: "Call_volume_create k \<in> set (trace (create env ctx body))"
  proof -
    from c have "outcome (assemble env ctx body) = Inr k"
      by (simp add: create_call_iff)
    with m have "outcome (resolve_volume_type env ctx volume) = Inr (kw_volume_type k)"
      unfolding assemble_Inr_iff by auto
    then show ?thesis
      by (auto simp: rvt split: if_splits sum.splits)
  qed
  from by_id by_name miss_id miss_name placed
  show "(is_uuid_like env t \<longrightarrow>
        trace (resolve_volume_type env ctx volume) = [Call_get_volume_type t]
        \<and> outcome (resolve_volume_type env ctx volume)
            = (case get_volume_type env ctx t of Inl e \<Rightarrow> Inl e | Inr vt \<Rightarrow> Inr (Some vt)))
     \<and> (\<not> is_uuid_like env t \<longrightarrow>
        trace (resolve_volume_type env ctx volume) = [Call_get_volume_type_by_name t]
        \<and> outcome (resolve_volume_type env ctx volume)
            = (case get_volume_type_by_name env ctx t of
                 Inl e \<Rightarrow> Inl e | Inr vt \<Rightarrow> Inr (Some vt)))
     \<and> (is_uuid_like env t \<and> get_volume_type env ctx t = Inl e \<longrightarrow>
        create env ctx body = (Inl e, [Call_get_volume_type t]))
     \<and> (\<not> is_uuid_like env t \<and> get_volume_type_by_name env ctx t = Inl e \<longrightarrow>
        create env ctx body = (Inl e, [Call_get_volume_type_by_name t]))
     \<and> (Call_volume_create k \<in> set (trace (create env ctx body)) \<longrightarrow>
        (\<exists>vt. kw_volume_type k = Some vt
           \<and> (if is_uuid_like env t then get_volume_type env ctx t
               else get_volume_type_by_name env ctx t) = Inr vt))"
    by blast
qed

lemma create_type_by_name:
  "trace (create example_env example_ctx body_type_by_name) =
     [Call_get_volume_type_by_name (VStr ''gold''),
      Call_volume_create ((plain_kwargs (VInt 1))\<lparr>kw_volume_type := Some volume_type_gold\<rparr>)]"
  by (simp add: body_type_by_name_def plain_kwargs_def volume_type_gold_def example_defs model_defs)

lemma create_type_by_id:
  "trace (create example_env example_ctx body_type_by_id) =
     [Call_get_volume_type (VStr example_uuid),
      Call_volume_create ((plain_kwargs (VInt 1))\<lparr>kw_volume_type := Some volume_type_gold\<rparr>)]"
  by (simp add: body_type_by_id_def plain_kwargs_def volume_type_gold_def example_defs model_defs)

theorem volume_type_resolution_witness:
  "request_mapping example_env body_type_missing
     = Inr [''volume_type'' \<mapsto> VStr ''silver'', ''size'' \<mapsto> VInt 1]
   \<and> truthy (VStr ''silver'')
   \<and> \<not> is_uuid_like example_env (VStr ''silver'')
   \<and> get_volume_type_by_name example_env example_ctx (VStr ''silver'')
       = Inl (example_not_found (VStr ''silver''))
   \<and> create example_env example_ctx body_type_missing
       = (Inl (example_not_found (VStr ''silver'')),
          [Call_get_volume_type_by_name (VStr ''silver'')])
   \<and> is_uuid_like example_env (VStr example_uuid)
   \<and> Call_volume_create ((plain_kwargs (VInt 1))\<lparr>kw_volume_type := Some volume_type_gold\<rparr>)
       \<in> set (trace (create example_env example_ctx body_type_by_id))
   \<and> get_volume_type example_env example_ctx (VStr example_uuid) = Inr volume_type_gold"
proof -
  have h: "request_mapping example_env body_type_missing
       = Inr [''volume_type'' \<mapsto> VStr ''silver'', ''size'' \<mapsto> VInt 1]
     \<and> dict_get [''volume_type'' \<mapsto> VStr ''silver'', ''size'' \<mapsto> VInt 1] ''volume_type''
         = VStr ''silver''
     \<and> truthy (VStr ''silver'')"
    by (simp add: body_type_missing_def example_defs request_mapping_def normalize_fields_def
          dict_getitem_def dict_get_def)
  have n: "\<not> is_uuid_like example_env (VStr ''silver'')
     \<and> get_volume_type_by_name example_env example_ctx (VStr ''silver'')
         = Inl (example_not_found (VStr ''silver''))"
    by (simp add: example_defs)
  have c: "create example_env example_ctx body_type_missing
       = (Inl (example_not_found (VStr ''silver'')),
          [Call_get_volume_type_by_name (VStr ''silver'')])"
    using volume_type_resolution
            [of example_env body_type_missing
                "[''volume_type'' \<mapsto> VStr ''silver'', ''size'' \<mapsto> VInt 1]"
                "VStr ''silver''" example_ctx "example_not_found (VStr ''silver'')" undefined]
          h n
    by blast
  let ?k = "(plain_kwargs (VInt 1))\<lparr>kw_volume_type := Some volume_type_gold\<rparr>"
  have h2: "request_mapping example_env body_type_by_id
       = Inr [''volume_type'' \<mapsto> VStr example_uuid, ''size'' \<mapsto> VInt 1]
     \<and> dict_get [''volume_type'' \<mapsto> VStr example_uuid, ''size'' \<mapsto> VInt 1] ''volume_type''
         = VStr example_uuid
     \<and> truthy (VStr example_uuid)"
    by (simp add: body_type_by_id_def example_defs request_mapping_def normalize_fields_def
          dict_getitem_def dict_get_def)
  have u: "is_uuid_like example_env (VStr example_uuid)"
    by (simp add: example_defs)
  have r: "Call_volume_create ?k \<in> set (trace (create example_env example_ctx body_type_by_id))"
    by (simp add: create_type_by_id)
  have c2: "get_volume_type example_env example_ctx (VStr example_uuid) = Inr volume_type_gold"
    using volume_type_resolution
            [of example_env body_type_by_id
                "[''volume_type'' \<mapsto> VStr example_uuid, ''size'' \<mapsto> VInt 1]"
                "VStr example_uuid" example_ctx undefined ?k]
          h2 u r
    by (auto simp: plain_kwargs_def)
  from h n c u r c2 show ?thesis
    by simp
qed

section \<open>Which references are looked up\<close>

lemma resolve_snapshot_present:
  "dict_get volume ''snapshot_id'' \<noteq> VNone \<Longrightarrow>
   resolve_snapshot env ctx volume =
     ((case get_snapshot env ctx (dict_get volume ''snapshot_id'') of
         Inl e \<Rightarrow> Inl e | Inr s \<Rightarrow> Inr (Some s)),
      [Call_get_snapshot (dict_get volume ''snapshot_id'')])"
  by (simp add: resolve_snapshot_def Let_def and_then_def call_def ok_def split: sum.splits)

lemma resolve_source_volume_present:
  "dict_get volume ''source_volid'' \<noteq> VNone \<Longrightarrow>
   resolve_source_volume env ctx volume =
     ((case get_volume env ctx (dict_get volume ''source_volid'') of
         Inl e \<Rightarrow> Inl e | Inr s \<Rightarrow> Inr (Some s)),
      [Call_get_volume (dict_get volume ''source_volid'')])"
  by (simp add: resolve_source_volume_def Let_def and_then_def call_def ok_def split: sum.splits)

lemma resolve_source_replica_present:
  "dict_get volume ''source_replica'' \<noteq> VNone \<Longrightarrow>
   trace (resolve_source_replica env ctx volume)
     = [Call_get_volume (dict_get volume ''source_replica'')]
   \<and> (get_volume env ctx (dict_get volume ''source_replica'') = Inl e
        \<longrightarrow> outcome (resolve_source_replica env ctx volume) = Inl e)"
  by (simp add: resolve_source_replica_def Let_def trace_and_then outcome_and_then
        split: sum.splits)

lemma resolve_consistencygroup_present:
  "dict_get volume ''consistencygroup_id'' \<noteq> VNone \<Longrightarrow>
   resolve_consistencygroup env ctx volume =
     ((case consistencygroup_get env ctx (dict_get volume ''consistencygroup_id'') of
         Inl e \<Rightarrow> Inl e | Inr s \<Rightarrow> Inr (Some s)),
      [Call_consistencygroup_get (dict_get volume ''consistencygroup_id'')])"
  by (simp add: resolve_consistencygroup_def Let_def and_then_def call_def ok_def
        split: sum.splits)

lemma image_uuid_from_ref_no_type_lookup:
  "filter is_volume_type_lookup (trace (image_uuid_from_ref env ctx image_ref)) = []"
  by (cases image_ref)
     (simp_all add: image_lookup_by_id_def image_lookup_by_name_def Let_def call_def
        split: sum.splits option.splits prod.splits)

lemma later_steps_no_type_lookup:
  "filter is_volume_type_lookup (trace (resolve_snapshot env ctx volume)) = []"
  "filter is_volume_type_lookup (trace (resolve_source_volume env ctx volume)) = []"
  "filter is_volume_type_lookup (trace (resolve_source_replica env ctx volume)) = []"
  "filter is_volume_type_lookup (trace (resolve_consistencygroup env ctx volume)) = []"
  "filter is_volume_type_lookup (trace (resolve_image env ctx volume)) = []"
  by (simp_all add: resolve_snapshot_def resolve_source_volume_def resolve_source_replica_def
        resolve_consistencygroup_def resolve_image_def Let_def trace_and_then
        image_uuid_from_ref_no_type_lookup split: sum.splits)

lemma create_no_type_lookup:
  assumes m: "request_mapping env body = Inr volume"
    and f: "\<not> truthy (dict_get volume ''volume_type'')"
  shows "filter is_volume_type_lookup (trace (create env ctx body)) = []"
proof -
  have "filter is_volume_type_lookup (trace (assemble env ctx body)) = []"
    by (simp add: assemble_trace_steps [OF m] resolve_volume_type_absent [OF f]
          later_steps_no_type_lookup split: sum.splits)
  then show ?thesis
    by (simp add: create_trace split: sum.splits)
qed

text \<open>
  Claim C9. The presence tests of \<^verbatim>\<open>create\<close> differ. A \<^verbatim>\<open>volume_type\<close> that fails the
  truth test of line 199 (absent, \<^verbatim>\<open>None\<close>, the empty string, 0) is not looked up at all,
  and every call of \<^verbatim>\<open>volume_api.create\<close> goes without the \<^verbatim>\<open>volume_type\<close> keyword. The
  tests for \<^verbatim>\<open>snapshot_id\<close>, \<^verbatim>\<open>source_volid\<close>, \<^verbatim>\<open>source_replica\<close> and
  \<^verbatim>\<open>consistencygroup_id\<close> are \<^verbatim>\<open>is not None\<close>: once the steps before have passed, any
  other value, the empty string included, is handed to the lookup, and an exception of the
  lookup is the exception of \<^verbatim>\<open>create\<close>.
\<close>

theorem reference_presence_asymmetry:
  "request_mapping env body = Inr volume \<longrightarrow>
     (\<not> truthy (dict_get volume ''volume_type'') \<longrightarrow>
        resolve_volume_type env ctx volume = ok None
        \<and> filter is_volume_type_lookup (trace (create env ctx body)) = []
        \<and> (Call_volume_create k \<in> set (trace (create env ctx body)) \<longrightarrow> kw_volume_type k = None))
     \<and> (dict_get volume ''snapshot_id'' \<noteq> VNone
          \<and> outcome (resolve_volume_type env ctx volume) = Inr vt
        \<longrightarrow> Call_get_snapshot (dict_get volume ''snapshot_id'') \<in> set (trace (create env ctx body))
            \<and> (get_snapshot env ctx (dict_get volume ''snapshot_id'') = Inl e
                 \<longrightarrow> outcome (create env ctx body) = Inl e))
     \<and> (dict_get volume ''source_volid'' \<noteq> VNone
          \<and> outcome (resolve_volume_type env ctx volume) = Inr vt
          \<and> outcome (resolve_snapshot env ctx volume) = Inr snap
        \<longrightarrow> Call_get_volume (dict_get volume ''source_volid'') \<in> set (trace (create env ctx body))
            \<and> (get_volume env ctx (dict_get volume ''source_volid'') = Inl e
                 \<longrightarrow> outcome (create env ctx body) = Inl e))
     \<and> (dict_get volume ''source_replica'' \<noteq> VNone
          \<and> outcome (resolve_volume_type env ctx volume) = Inr vt
          \<and> outcome (resolve_snapshot env ctx volume) = Inr snap
          \<and> outcome (resolve_source_volume env ctx volume) = Inr sv
        \<longrightarrow> Call_get_volume (dict_get volume ''source_replica'') \<in> set (trace (create env ctx body))
            \<and> (get_volume env ctx (dict_get volume ''source_replica'') = Inl e
                 \<longrightarrow> outcome (create env ctx body) = Inl e))
     \<and> (dict_get volume ''consistencygroup_id'' \<noteq> VNone
          \<and> outcome (resolve_volume_type env ctx volume) = Inr vt
          \<and> outcome (resolve_snapshot env ctx volume) = Inr snap
          \<and> outcome (resolve_source_volume env ctx volume) = Inr sv
          \<and> outcome (resolve_source_replica env ctx volume) = Inr sr
        \<longrightarrow> Call_consistencygroup_get (dict_get volume ''consistencygroup_id'')
              \<in> set (trace (create env ctx body))
            \<and> (consistencygroup_get env ctx (dict_get volume ''consistencygroup_id'') = Inl e
                 \<longrightarrow> outcome (create env ctx body) = Inl e))"
proof (intro impI)
  assume m: "request_mapping env body = Inr volume"
  note os = assemble_outcome_steps [OF m, of ctx]
  note ts = assemble_trace_steps [OF m, of ctx]
  have in_create: "ev \<in> set (trace (create env ctx body))"
    if "ev \<in> set (trace (assemble env ctx body))" for ev
    using that by (simp add: create_trace)
  have err_create: "outcome (create env ctx body) = Inl e'"
    if "outcome (assemble env ctx body) = Inl e'" for e'
    using that by (simp add: create_outcome)
  have p1: "resolve_volume_type env ctx volume = ok None
        \<and> filter is_volume_type_lookup (trace (create env ctx body)) = []
        \<and> (Call_volume_create k \<in> set (trace (create env ctx body)) \<longrightarrow> kw_volume_type k = None)"
    if f: "\<not> truthy (dict_get volume ''volume_type'')"
  proof -
    have "kw_volume_type k = None" if c: "Call_volume_create k \<in> set (trace (create env ctx body))"
    proof -
      from c have "outcome (assemble env ctx body) = Inr k"
        by (simp add: create_call_iff)
      with m have "outcome (resolve_volume_type env ctx volume) = Inr (kw_volume_type k)"
        unfolding assemble_Inr_iff by auto
      then show ?thesis
        by (simp add: resolve_volume_type_absent [OF f])
    qed
    with resolve_volume_type_absent [OF f] create_no_type_lookup [OF m f] show ?thesis
      by blast
  qed
  have p2: "Call_get_snapshot (dict_get volume ''snapshot_id'') \<in> set (trace (create env ctx body))
            \<and> (get_snapshot env ctx (dict_get volume ''snapshot_id'') = Inl e
                 \<longrightarrow> outcome (create env ctx body) = Inl e)"
    if h: "dict_get volume ''snapshot_id'' \<noteq> VNone
          \<and> outcome (resolve_volume_type env ctx volume) = Inr vt"
  proof -
    from h have n: "dict_get volume ''snapshot_id'' \<noteq> VNone"
      and s: "outcome (resolve_volume_type env ctx volume) = Inr vt"
      by auto
    note p = resolve_snapshot_present [OF n, of env ctx]
    have "Call_get_snapshot (dict_get volume ''snapshot_id'') \<in> set (trace (assemble env ctx body))"
      by (simp add: ts s p)
    moreover have "outcome (assemble env ctx body) = Inl e"
      if "get_snapshot env ctx (dict_get volume ''snapshot_id'') = Inl e"
      using that by (simp add: os s p)
    ultimately show ?thesis
      using in_create err_create by blast
  qed
  have p3: "Call_get_volume (dict_get volume ''source_volid'') \<in> set (trace (create env ctx body))
            \<and> (get_volume env ctx (dict_get volume ''source_volid'') = Inl e
                 \<longrightarrow> outcome (create env ctx body) = Inl e)"
    if h: "dict_get volume ''source_volid'' \<noteq> VNone
          \<and> outcome (resolve_volume_type env ctx volume) = Inr vt
          \<and> outcome (resolve_snapshot env ctx volume) = Inr snap"
  proof -
    from h have n: "dict_get volume ''source_volid'' \<noteq> VNone"
      and s: "outcome (resolve_volume_type env ctx volume) = Inr vt"
        "outcome (resolve_snapshot env ctx volume) = Inr snap"
      by auto
    note p = resolve_source_volume_present [OF n, of env ctx]
    have "Call_get_volume (dict_get volume ''source_volid'') \<in> set (trace (assemble env ctx body))"
      by (simp add: ts s p)
    moreover have "outcome (assemble env ctx body) = Inl e"
      if "get_volume env ctx (dict_get volume ''source_volid'') = Inl e"
      using that by (simp add: os s p)
    ultimately show ?thesis
      using in_create err_create by blast
  qed
  have p4: "Call_get_volume (dict_get volume ''source_replica'') \<in> set (trace (create env ctx body))
            \<and> (get_volume env ctx (dict_get volume ''source_replica'') = Inl e
                 \<longrightarrow> outcome (create env ctx body) = Inl e)"
    if h: "dict_get volume ''source_replica'' \<noteq> VNone
          \<and> outcome (resolve_volume_type env ctx volume) = Inr vt
          \<and> outcome (resolve_snapshot env ctx volume) = Inr snap
          \<and> outcome (resolve_source_volume env ctx volume) = Inr sv"
  proof -
    from h have n: "dict_get volume ''source_replica'' \<noteq> VNone"
      and s: "outcome (resolve_volume_type env ctx volume) = Inr vt"
        "outcome (resolve_snapshot env ctx volume) = Inr snap"
        "outcome (resolve_source_volume env ctx volume) = Inr sv"
      by auto
    note p = resolve_source_replica_present [OF n, of env ctx e]
    have "Call_get_volume (dict_get volume ''source_replica'') \<in> set (trace (assemble env ctx body))"
      by (simp add: ts s p)
    moreover have "outcome (assemble env ctx body) = Inl e"
      if "get_volume env ctx (dict_get volume ''source_replica'') = Inl e"
      using that p by (simp add: os s)
    ultimately show ?thesis
      using in_create err_create by blast
  qed
  have p5: "Call_consistencygroup_get (dict_get volume ''consistencygroup_id'')
              \<in> set (trace (create env ctx body))
            \<and> (consistencygroup_get env ctx (dict_get volume ''consistencygroup_id'') = Inl e
                 \<longrightarrow> outcome (create env ctx body) = Inl e)"
    if h: "dict_get volume ''consistencygroup_id'' \<noteq> VNone
          \<and> outcome (resolve_volume_type env ctx volume) = Inr vt
          \<and> outcome (resolve_snapshot env ctx volume) = Inr snap
          \<and> outcome (resolve_source_volume env ctx volume) = Inr sv
          \<and> outcome (resolve_source_replica env ctx volume) = Inr sr"
  proof -
    from h have n: "dict_get volume ''consistencygroup_id'' \<noteq> VNone"
      and s: "outcome (resolve_volume_type env ctx volume) = Inr vt"
        "outcome (resolve_snapshot env ctx volume) = Inr snap"
        "outcome (resolve_source_volume env ctx volume) = Inr sv"
        "outcome (resolve_source_replica env ctx volume) = Inr sr"
      by auto
    note p = resolve_consistencygroup_present [OF n, of env ctx]
    have "Call_consistencygroup_get (dict_get volume ''consistencygroup_id'')
            \<in> set (trace (assemble env ctx body))"
      by (simp add: ts s p)
    moreover have "outcome (assemble env ctx body) = Inl e"
      if "consistencygroup_get env ctx (dict_get volume ''consistencygroup_id'') = Inl e"
      using that by (simp add: os s p)
    ultimately show ?thesis
      using in_create err_create by blast
  qed
  from p1 p2 p3 p4 p5
  show "(\<not> truthy (dict_get volume ''volume_type'') \<longrightarrow>
        resolve_volume_type env ctx volume = ok None
        \<and> filter is_volume_type_lookup (trace (create env ctx body)) = []
        \<and> (Call_volume_create k \<in> set (trace (create env ctx body)) \<longrightarrow> kw_volume_type k = None))
     \<and> (dict_get volume ''snapshot_id'' \<noteq> VNone
          \<and> outcome (resolve_volume_type env ctx volume) = Inr vt
        \<longrightarrow> Call_get_snapshot (dict_get volume ''snapshot_id'') \<in> set (trace (create env ctx body))
            \<and> (get_snapshot env ctx (dict_get volume ''snapshot_id'') = Inl e
                 \<longrightarrow> outcome (create env ctx body) = Inl e))
     \<and> (dict_get volume ''source_volid'' \<noteq> VNone
          \<and> outcome (resolve_volume_type env ctx volume) = Inr vt
          \<and> outcome (resolve_snapshot env ctx volume) = Inr snap
        \<longrightarrow> Call_get_volume (dict_get volume ''source_volid'') \<in> set (trace (create env ctx body))
            \<and> (get_volume env ctx (dict_get volume ''source_volid'') = Inl e
                 \<longrightarrow> outcome (create env ctx body) = Inl e))
     \<and> (dict_get volume ''source_replica'' \<noteq> VNone
          \<and> outcome (resolve_volume_type env ctx volume) = Inr vt
          \<and> outcome (resolve_snapshot env ctx volume) = Inr snap
          \<and> outcome (resolve_source_volume env ctx volume) = Inr sv
        \<longrightarrow> Call_get_volume (dict_get volume ''source_replica'') \<in> set (trace (create env ctx body))
            \<and> (get_volume env ctx (dict_get volume ''source_replica'') = Inl e
                 \<longrightarrow> outcome (create env ctx body) = Inl e))
     \<and> (dict_get volume ''consistencygroup_id'' \<noteq> VNone
          \<and> outcome (resolve_volume_type env ctx volume) = Inr vt
          \<and> outcome (resolve_snapshot env ctx volume) = Inr snap
          \<and> outcome (resolve_source_volume env ctx volume) = Inr sv
          \<and> outcome (resolve_source_replica env ctx volume) = Inr sr
        \<longrightarrow> Call_consistencygroup_get (dict_get volume ''consistencygroup_id'')
              \<in> set (trace (create env ctx body))
            \<and> (consistencygroup_get env ctx (dict_get volume ''consistencygroup_id'') = Inl e
                 \<longrightarrow> outcome (create env ctx body) = Inl e))"
    by blast
qed

lemma create_empty_type_and_snapshot:
  "create example_env example_ctx body_empty_type_and_snapshot =
     (Inl (example_not_found (VStr [])), [Call_get_snapshot (VStr [])])"
  by (simp add: body_empty_type_and_snapshot_def example_defs model_defs)

theorem reference_presence_asymmetry_witness:
  "request_mapping example_env body_empty_type_and_snapshot
     = Inr [''volume_type'' \<mapsto> VStr [], ''snapshot_id'' \<mapsto> VStr [], ''size'' \<mapsto> VInt 1]
   \<and> \<not> truthy (VStr [])
   \<and> VStr [] \<noteq> VNone
   \<and> filter is_volume_type_lookup
        (trace (create example_env example_ctx body_empty_type_and_snapshot)) = []
   \<and> Call_get_snapshot (VStr [])
        \<in> set (trace (create example_env example_ctx body_empty_type_and_snapshot))
   \<and> outcome (create example_env example_ctx body_empty_type_and_snapshot)
        = Inl (example_not_found (VStr []))
   \<and> Call_get_volume (VStr [])
        \<in> set (trace (create example_env example_ctx body_empty_source_volid))
   \<and> Call_get_volume (VStr [])
        \<in> set (trace (create example_env example_ctx body_empty_source_replica))
   \<and> Call_consistencygroup_get (VStr [])
        \<in> set (trace (create example_env example_ctx body_empty_consistencygroup))"
proof -
  let ?v1 = "[''volume_type'' \<mapsto> VStr [], ''snapshot_id'' \<mapsto> VStr [], ''size'' \<mapsto> VInt 1]"
  have m1: "request_mapping example_env body_empty_type_and_snapshot = Inr ?v1"
    by (simp add: body_empty_type_and_snapshot_def example_defs request_mapping_def
          normalize_fields_def dict_getitem_def)
  have g1: "dict_get ?v1 ''snapshot_id'' = VStr []" "dict_get ?v1 ''volume_type'' = VStr []"
    by (simp_all add: dict_get_def)
  have f1: "\<not> truthy (dict_get ?v1 ''volume_type'')"
    by (simp add: g1)
  have n: "VStr [] \<noteq> VNone"
    by simp
  have h1: "dict_get ?v1 ''snapshot_id'' \<noteq> VNone
      \<and> outcome (resolve_volume_type example_env example_ctx ?v1) = Inr None"
    by (simp add: g1 resolve_volume_type_absent)
  have e1: "get_snapshot example_env example_ctx (dict_get ?v1 ''snapshot_id'')
          = Inl (example_not_found (VStr []))"
    by (simp add: g1 example_env_def)
  have c1: "filter is_volume_type_lookup
        (trace (create example_env example_ctx body_empty_type_and_snapshot)) = []
   \<and> Call_get_snapshot (dict_get ?v1 ''snapshot_id'')
        \<in> set (trace (create example_env example_ctx body_empty_type_and_snapshot))
   \<and> outcome (create example_env example_ctx body_empty_type_and_snapshot)
        = Inl (example_not_found (VStr []))"
    using reference_presence_asymmetry
            [of example_env body_empty_type_and_snapshot ?v1 example_ctx undefined None
                "example_not_found (VStr [])" undefined undefined undefined]
          m1 f1 h1 e1
    by blast
  let ?v2 = "[''source_volid'' \<mapsto> VStr []]"
  have m2: "request_mapping example_env body_empty_source_volid = Inr ?v2"
    by (simp add: body_empty_source_volid_def example_defs request_mapping_def
          normalize_fields_def dict_getitem_def)
  have g2: "dict_get ?v2 ''source_volid'' = VStr []" "dict_get ?v2 ''volume_type'' = VNone"
    "dict_get ?v2 ''snapshot_id'' = VNone"
    by (simp_all add: dict_get_def)
  have h2: "dict_get ?v2 ''source_volid'' \<noteq> VNone
      \<and> outcome (resolve_volume_type example_env example_ctx ?v2) = Inr None
      \<and> outcome (resolve_snapshot example_env example_ctx ?v2) = Inr None"
    by (simp add: g2 resolve_volume_type_absent resolve_snapshot_absent)
  have c2: "Call_get_volume (dict_get ?v2 ''source_volid'')
        \<in> set (trace (create example_env example_ctx body_empty_source_volid))"
    using reference_presence_asymmetry
            [of example_env body_empty_source_volid ?v2 example_ctx undefined None
                undefined None undefined undefined]
          m2 h2
    by blast
  let ?v3 = "[''source_replica'' \<mapsto> VStr []]"
  have m3: "request_mapping example_env body_empty_source_replica = Inr ?v3"
    by (simp add: body_empty_source_replica_def example_defs request_mapping_def
          normalize_fields_def dict_getitem_def)
  have g3: "dict_get ?v3 ''source_replica'' = VStr []" "dict_get ?v3 ''volume_type'' = VNone"
    "dict_get ?v3 ''snapshot_id'' = VNone" "dict_get ?v3 ''source_volid'' = VNone"
    by (simp_all add: dict_get_def)
  have h3: "dict_get ?v3 ''source_replica'' \<noteq> VNone
      \<and> outcome (resolve_volume_type example_env example_ctx ?v3) = Inr None
      \<and> outcome (resolve_snapshot example_env example_ctx ?v3) = Inr None
      \<and> outcome (resolve_source_volume example_env example_ctx ?v3) = Inr None"
    by (simp add: g3 resolve_volume_type_absent resolve_snapshot_absent
          resolve_source_volume_absent)
  have c3: "Call_get_volume (dict_get ?v3 ''source_replica'')
        \<in> set (trace (create example_env example_ctx body_empty_source_replica))"
    using reference_presence_asymmetry
            [of example_env body_empty_source_replica ?v3 example_ctx undefined None
                undefined None None undefined]
          m3 h3
    by blast
  let ?v4 = "[''consistencygroup_id'' \<mapsto> VStr []]"
  have m4: "request_mapping example_env body_empty_consistencygroup = Inr ?v4"
    by (simp add: body_empty_consistencygroup_def example_defs request_mapping_def
          normalize_fields_def dict_getitem_def)
  have g4: "dict_get ?v4 ''consistencygroup_id'' = VStr []" "dict_get ?v4 ''volume_type'' = VNone"
    "dict_get ?v4 ''snapshot_id'' = VNone" "dict_get ?v4 ''source_volid'' = VNone"
    "dict_get ?v4 ''source_replica'' = VNone"
    by (simp_all add: dict_get_def)
  have h4: "dict_get ?v4 ''consistencygroup_id'' \<noteq> VNone
      \<and> outcome (resolve_volume_type example_env example_ctx ?v4) = Inr None
      \<and> outcome (resolve_snapshot example_env example_ctx ?v4) = Inr None
      \<and> outcome (resolve_source_volume example_env example_ctx ?v4) = Inr None
      \<and> outcome (resolve_source_replica example_env example_ctx ?v4) = Inr None"
    by (simp add: g4 resolve_volume_type_absent resolve_snapshot_absent
          resolve_source_volume_absent resolve_source_replica_absent)
  have c4: "Call_consistencygroup_get (dict_get ?v4 ''consistencygroup_id'')
        \<in> set (trace (create example_env example_ctx body_empty_consistencygroup))"
    using reference_presence_asymmetry
            [of example_env body_empty_consistencygroup ?v4 example_ctx undefined None
                undefined None None None]
          m4 h4
    by blast
  from m1 n c1 [unfolded g1] c2 [unfolded g2] c3 [unfolded g3] c4 [unfolded g4] show ?thesis
    by simp
qed

section \<open>Splitting a reference at its slashes\<close>

lemma py_split_not_Nil [simp]: "py_split sep s \<noteq> []"
  by (induction s) (auto split: list.splits)

lemma py_split_no_sep: "sep \<notin> set s \<Longrightarrow> py_split sep s = [s]"
  by (induction s) auto

lemma py_split_sep: "sep \<in> set s \<Longrightarrow> \<exists>p q qs. py_split sep s = p # q # qs"
proof (induction s)
  case Nil
  then show ?case by simp
next
  case (Cons c cs)
  show ?case
  proof (cases "c = sep")
    case True
    then show ?thesis
      by (cases "py_split sep cs") auto
  next
    case False
    with Cons obtain p q qs where "py_split sep cs = p # q # qs"
      by auto
    with False show ?thesis
      by simp
  qed
qed

lemma takeWhile_snoc:
  "takeWhile P (xs @ [x]) =
     (if \<forall>y\<in>set xs. P y then xs @ (if P x then [x] else []) else takeWhile P xs)"
  by (induction xs) auto

lemma last_py_split:
  "last (py_split sep s) = rev (takeWhile (\<lambda>c. c \<noteq> sep) (rev s))"
proof (induction s)
  case Nil
  then show ?case by simp
next
  case (Cons c cs)
  show ?case
  proof (cases "c = sep")
    case True
    with Cons show ?thesis
      by (simp add: takeWhile_snoc)
  next
    case False
    show ?thesis
    proof (cases "sep \<in> set cs")
      case True
      then obtain p q qs where "py_split sep cs = p # q # qs"
        using py_split_sep by blast
      moreover from True
      have "takeWhile (\<lambda>c. c \<noteq> sep) (rev cs @ [c]) = takeWhile (\<lambda>c. c \<noteq> sep) (rev cs)"
        by (auto simp: takeWhile_snoc)
      ultimately show ?thesis
        using Cons False by simp
    next
      case n: False
      with False show ?thesis
        by (simp add: py_split_no_sep takeWhile_snoc)
    qed
  qed
qed

section \<open>Image identity resolution\<close>

lemma image_uuid_from_ref_by_id:
  "is_uuid_like env (VStr (last (py_split CHR ''/'' ref))) \<Longrightarrow>
   image_show env ctx (last (py_split CHR ''/'' ref)) = Inr img \<Longrightarrow>
   img ''id'' = Some i \<Longrightarrow>
   image_uuid_from_ref env ctx (VStr ref) = (Inr i, [Call_image_show (last (py_split CHR ''/'' ref))])"
  by (simp add: image_lookup_by_id_def)

lemma image_uuid_from_ref_falls_through:
  "\<not> is_uuid_like env (VStr (last (py_split CHR ''/'' ref)))
   \<or> (\<exists>e. image_show env ctx (last (py_split CHR ''/'' ref)) = Inl e)
   \<or> (\<exists>img. image_show env ctx (last (py_split CHR ''/'' ref)) = Inr img \<and> img ''id'' = None)
   \<Longrightarrow>
   image_uuid_from_ref env ctx (VStr ref) =
     (outcome (image_lookup_by_name env ctx (VStr ref)),
      (if is_uuid_like env (VStr (last (py_split CHR ''/'' ref)))
       then [Call_image_show (last (py_split CHR ''/'' ref))] else [])
      @ [Call_image_detail [''name'' \<mapsto> VStr ref]])"
  by (auto simp: image_lookup_by_id_def image_lookup_by_name_def Let_def call_def outcome_def
        split: prod.splits)

lemma image_lookup_by_name_outcome:
  "outcome (image_lookup_by_name env ctx r) =
     (case image_detail env ctx [''name'' \<mapsto> r] of
        Inl (HTTPConflict m) \<Rightarrow> Inl (HTTPConflict m)
      | Inl e \<Rightarrow> Inl invalid_image_identifier
      | Inr images \<Rightarrow>
          if length images > 1 then
            Inl (HTTPConflict
              (MsgArg ''Multiple matches found for '%s', use an ID to be more specific.'' r))
          else
            (case images of
               [] \<Rightarrow> Inl invalid_image_identifier
             | img # rest \<Rightarrow>
                 (case img ''id'' of
                    Some i \<Rightarrow> Inr i
                  | None \<Rightarrow> Inl invalid_image_identifier)))"
  by (simp add: image_lookup_by_name_def Let_def)

text \<open>
  Claim C2. Let \<open>u\<close> be the part of the reference that \<^verbatim>\<open>is_uuid_like\<close> is asked about.
  When \<open>u\<close> looks like an identifier and \<^verbatim>\<open>image_service.show\<close> returns an image (with
  its \<^verbatim>\<open>id\<close>), that identifier is the result and the only catalogue call is the
  \<^verbatim>\<open>show\<close>: no search by name. When the \<^verbatim>\<open>show\<close> raises, whatever the exception, the
  code goes on to \<^verbatim>\<open>image_service.detail\<close> with the exact-name filter. In that search,
  reached also when \<open>u\<close> does not look like an identifier, no match gives
  \<^verbatim>\<open>HTTPBadRequest\<close>, an exception other than \<^verbatim>\<open>HTTPConflict\<close> gives
  \<^verbatim>\<open>HTTPBadRequest\<close>, more than one match gives \<^verbatim>\<open>HTTPConflict\<close>, and exactly one match
  (with its \<^verbatim>\<open>id\<close>) gives that image's identifier.
\<close>

theorem image_resolution:
  "u = last (py_split CHR ''/'' ref) \<longrightarrow>
     (is_uuid_like env (VStr u) \<and> image_show env ctx u = Inr img \<and> img ''id'' = Some i
        \<longrightarrow> image_uuid_from_ref env ctx (VStr ref) = (Inr i, [Call_image_show u]))
     \<and> (is_uuid_like env (VStr u) \<and> image_show env ctx u = Inl e
        \<longrightarrow> trace (image_uuid_from_ref env ctx (VStr ref))
              = [Call_image_show u, Call_image_detail [''name'' \<mapsto> VStr ref]])
     \<and> (\<not> is_uuid_like env (VStr u) \<or> image_show env ctx u = Inl e
        \<longrightarrow>
          Call_image_detail [''name'' \<mapsto> VStr ref]
            \<in> set (trace (image_uuid_from_ref env ctx (VStr ref)))
          \<and> (image_detail env ctx [''name'' \<mapsto> VStr ref] = Inr []
              \<longrightarrow> outcome (image_uuid_from_ref env ctx (VStr ref))
                    = Inl (HTTPBadRequest
                        (Msg ''Invalid image identifier or unable to access requested image.'')))
          \<and> (image_detail env ctx [''name'' \<mapsto> VStr ref] = Inl e'
               \<and> (\<forall>m. e' \<noteq> HTTPConflict m)
              \<longrightarrow> outcome (image_uuid_from_ref env ctx (VStr ref))
                    = Inl (HTTPBadRequest
                        (Msg ''Invalid image identifier or unable to access requested image.'')))
          \<and> (image_detail env ctx [''name'' \<mapsto> VStr ref] = Inl (HTTPConflict m')
              \<longrightarrow> outcome (image_uuid_from_ref env ctx (VStr ref)) = Inl (HTTPConflict m'))
          \<and> (image_detail env ctx [''name'' \<mapsto> VStr ref] = Inr images \<and> length images > 1
              \<longrightarrow> outcome (image_uuid_from_ref env ctx (VStr ref))
                    = Inl (HTTPConflict
                        (MsgArg ''Multiple matches found for '%s', use an ID to be more specific.''
                           (VStr ref))))
          \<and> (image_detail env ctx [''name'' \<mapsto> VStr ref] = Inr [img1] \<and> img1 ''id'' = Some i1
              \<longrightarrow> outcome (image_uuid_from_ref env ctx (VStr ref)) = Inr i1))"
proof (intro impI)
  assume u: "u = last (py_split CHR ''/'' ref)"
  have hit: "image_uuid_from_ref env ctx (VStr ref) = (Inr i, [Call_image_show u])"
    if "is_uuid_like env (VStr u) \<and> image_show env ctx u = Inr img \<and> img ''id'' = Some i"
    using that image_uuid_from_ref_by_id [of env ref ctx img i] by (simp add: u)
  have miss: "trace (image_uuid_from_ref env ctx (VStr ref))
              = [Call_image_show u, Call_image_detail [''name'' \<mapsto> VStr ref]]"
    if "is_uuid_like env (VStr u) \<and> image_show env ctx u = Inl e"
    using that image_uuid_from_ref_falls_through [of env ref ctx] by (simp add: u)
  have search: "Call_image_detail [''name'' \<mapsto> VStr ref]
            \<in> set (trace (image_uuid_from_ref env ctx (VStr ref)))
          \<and> (image_detail env ctx [''name'' \<mapsto> VStr ref] = Inr []
              \<longrightarrow> outcome (image_uuid_from_ref env ctx (VStr ref))
                    = Inl (HTTPBadRequest
                        (Msg ''Invalid image identifier or unable to access requested image.'')))
          \<and> (image_detail env ctx [''name'' \<mapsto> VStr ref] = Inl e'
               \<and> (\<forall>m. e' \<noteq> HTTPConflict m)
              \<longrightarrow> outcome (image_uuid_from_ref env ctx (VStr ref))
                    = Inl (HTTPBadRequest
                        (Msg ''Invalid image identifier or unable to access requested image.'')))
          \<and> (image_detail env ctx [''name'' \<mapsto> VStr ref] = Inl (HTTPConflict m')
              \<longrightarrow> outcome (image_uuid_from_ref env ctx (VStr ref)) = Inl (HTTPConflict m'))
          \<and> (image_detail env ctx [''name'' \<mapsto> VStr ref] = Inr images \<and> length images > 1
              \<longrightarrow> outcome (image_uuid_from_ref env ctx (VStr ref))
                    = Inl (HTTPConflict
                        (MsgArg ''Multiple matches found for '%s', use an ID to be more specific.''
                           (VStr ref))))
          \<and> (image_detail env ctx [''name'' \<mapsto> VStr ref] = Inr [img1] \<and> img1 ''id'' = Some i1
              \<longrightarrow> outcome (image_uuid_from_ref env ctx (VStr ref)) = Inr i1)"
    if f: "\<not> is_uuid_like env (VStr u) \<or> image_show env ctx u = Inl e"
  proof -
    from f have "\<not> is_uuid_like env (VStr (last (py_split CHR ''/'' ref)))
       \<or> (\<exists>e. image_show env ctx (last (py_split CHR ''/'' ref)) = Inl e)
       \<or> (\<exists>img. image_show env ctx (last (py_split CHR ''/'' ref)) = Inr img \<and> img ''id'' = None)"
      by (auto simp: u)
    note ft = image_uuid_from_ref_falls_through [OF this]
    have o: "outcome (image_uuid_from_ref env ctx (VStr ref))
         = outcome (image_lookup_by_name env ctx (VStr ref))"
      by (simp only: ft outcome_pair)
    have t: "Call_image_detail [''name'' \<mapsto> VStr ref]
            \<in> set (trace (image_uuid_from_ref env ctx (VStr ref)))"
      by (simp only: ft trace_pair) simp
    show ?thesis
      unfolding o image_lookup_by_name_outcome invalid_image_identifier_def
      using t by (auto split: error.splits)
  qed
  from hit miss search
  show "(is_uuid_like env (VStr u) \<and> image_show env ctx u = Inr img \<and> img ''id'' = Some i
        \<longrightarrow> image_uuid_from_ref env ctx (VStr ref) = (Inr i, [Call_image_show u]))
     \<and> (is_uuid_like env (VStr u) \<and> image_show env ctx u = Inl e
        \<longrightarrow> trace (image_uuid_from_ref env ctx (VStr ref))
              = [Call_image_show u, Call_image_detail [''name'' \<mapsto> VStr ref]])
     \<and> (\<not> is_uuid_like env (VStr u) \<or> image_show env ctx u = Inl e
        \<longrightarrow>
          Call_image_detail [''name'' \<mapsto> VStr ref]
            \<in> set (trace (image_uuid_from_ref env ctx (VStr ref)))
          \<and> (image_detail env ctx [''name'' \<mapsto> VStr ref] = Inr []
              \<longrightarrow> outcome (image_uuid_from_ref env ctx (VStr ref))
                    = Inl (HTTPBadRequest
                        (Msg ''Invalid image identifier or unable to access requested image.'')))
          \<and> (image_detail env ctx [''name'' \<mapsto> VStr ref] = Inl e'
               \<and> (\<forall>m. e' \<noteq> HTTPConflict m)
              \<longrightarrow> outcome (image_uuid_from_ref env ctx (VStr ref))
                    = Inl (HTTPBadRequest
                        (Msg ''Invalid image identifier or unable to access requested image.'')))
          \<and> (image_detail env ctx [''name'' \<mapsto> VStr ref] = Inl (HTTPConflict m')
              \<longrightarrow> outcome (image_uuid_from_ref env ctx (VStr ref)) = Inl (HTTPConflict m'))
          \<and> (image_detail env ctx [''name'' \<mapsto> VStr ref] = Inr images \<and> length images > 1
              \<longrightarrow> outcome (image_uuid_from_ref env ctx (VStr ref))
                    = Inl (HTTPConflict
                        (MsgArg ''Multiple matches found for '%s', use an ID to be more specific.''
                           (VStr ref))))
          \<and> (image_detail env ctx [''name'' \<mapsto> VStr ref] = Inr [img1] \<and> img1 ''id'' = Some i1
              \<longrightarrow> outcome (image_uuid_from_ref env ctx (VStr ref)) = Inr i1))"
    by blast
qed

text \<open>
  The guard of line 146: an image returned without an \<^verbatim>\<open>id\<close> key is passed over too,
  and the search by name decides.
\<close>

lemma image_without_id_falls_through:
  "is_uuid_like env (VStr (last (py_split CHR ''/'' ref))) \<Longrightarrow>
   image_show env ctx (last (py_split CHR ''/'' ref)) = Inr img \<Longrightarrow>
   img ''id'' = None \<Longrightarrow>
   image_uuid_from_ref env ctx (VStr ref) =
     (outcome (image_lookup_by_name env ctx (VStr ref)),
      [Call_image_show (last (py_split CHR ''/'' ref)),
       Call_image_detail [''name'' \<mapsto> VStr ref]])"
  using image_uuid_from_ref_falls_through [of env ref ctx] by simp

lemma example_suffixes:
  "last (py_split CHR ''/'' example_uuid) = example_uuid"
  "last (py_split CHR ''/'' unknown_uuid) = unknown_uuid"
  "last (py_split CHR ''/'' ''cirros'') = ''cirros''"
  "last (py_split CHR ''/'' ''dup'') = ''dup''"
  "last (py_split CHR ''/'' ''nothing'') = ''nothing''"
  "last (py_split CHR ''/'' ''down'') = ''down''"
  by (simp_all add: py_split_no_sep example_uuid_def unknown_uuid_def)

theorem image_resolution_witness:
  "is_uuid_like example_env (VStr example_uuid)
   \<and> image_show example_env example_ctx example_uuid = Inr image_cirros
   \<and> image_uuid_from_ref example_env example_ctx (VStr example_uuid)
       = (Inr (VStr example_uuid), [Call_image_show example_uuid])
   \<and> is_uuid_like example_env (VStr unknown_uuid)
   \<and> image_show example_env example_ctx unknown_uuid = Inl (example_not_found (VStr unknown_uuid))
   \<and> trace (image_uuid_from_ref example_env example_ctx (VStr unknown_uuid))
       = [Call_image_show unknown_uuid, Call_image_detail [''name'' \<mapsto> VStr unknown_uuid]]
   \<and> outcome (image_uuid_from_ref example_env example_ctx (VStr unknown_uuid))
       = Inl (HTTPBadRequest (Msg ''Invalid image identifier or unable to access requested image.''))
   \<and> \<not> is_uuid_like example_env (VStr ''cirros'')
   \<and> outcome (image_uuid_from_ref example_env example_ctx (VStr ''cirros''))
       = Inr (VStr example_uuid)
   \<and> outcome (image_uuid_from_ref example_env example_ctx (VStr ''dup''))
       = Inl (HTTPConflict
           (MsgArg ''Multiple matches found for '%s', use an ID to be more specific.''
              (VStr ''dup'')))
   \<and> outcome (image_uuid_from_ref example_env example_ctx (VStr ''down''))
       = Inl (HTTPBadRequest (Msg ''Invalid image identifier or unable to access requested image.''))"
proof -
  have u1: "is_uuid_like example_env (VStr example_uuid)
     \<and> image_show example_env example_ctx example_uuid = Inr image_cirros
     \<and> image_cirros ''id'' = Some (VStr example_uuid)"
    by (simp add: example_env_def image_cirros_def example_uuid_def)
  have c1: "image_uuid_from_ref example_env example_ctx (VStr example_uuid)
       = (Inr (VStr example_uuid), [Call_image_show example_uuid])"
    using image_resolution
            [of example_uuid example_uuid example_env example_ctx image_cirros
                "VStr example_uuid" undefined undefined undefined undefined undefined undefined]
          u1 example_suffixes(1)
    by simp
  have u2: "is_uuid_like example_env (VStr unknown_uuid)
     \<and> image_show example_env example_ctx unknown_uuid = Inl (example_not_found (VStr unknown_uuid))"
    by (simp add: example_env_def unknown_uuid_def example_uuid_def)
  have d2: "image_detail example_env example_ctx [''name'' \<mapsto> VStr unknown_uuid] = Inr []"
    by (simp add: example_env_def unknown_uuid_def)
  have c2: "trace (image_uuid_from_ref example_env example_ctx (VStr unknown_uuid))
       = [Call_image_show unknown_uuid, Call_image_detail [''name'' \<mapsto> VStr unknown_uuid]]
     \<and> outcome (image_uuid_from_ref example_env example_ctx (VStr unknown_uuid))
       = Inl (HTTPBadRequest (Msg ''Invalid image identifier or unable to access requested image.''))"
    using image_resolution
            [of unknown_uuid unknown_uuid example_env example_ctx undefined undefined
                "example_not_found (VStr unknown_uuid)" undefined undefined undefined undefined
                undefined]
          u2 d2 example_suffixes(2)
    by simp
  have u3: "\<not> is_uuid_like example_env (VStr ''cirros'')"
    "\<not> is_uuid_like example_env (VStr ''dup'')"
    "\<not> is_uuid_like example_env (VStr ''down'')"
    by (simp_all add: example_env_def)
  have d3: "image_detail example_env example_ctx [''name'' \<mapsto> VStr ''cirros''] = Inr [image_cirros]
     \<and> image_cirros ''id'' = Some (VStr example_uuid)"
    by (simp add: example_env_def image_cirros_def)
  have c3: "outcome (image_uuid_from_ref example_env example_ctx (VStr ''cirros''))
       = Inr (VStr example_uuid)"
    using image_resolution
            [of "''cirros''" "''cirros''" example_env example_ctx undefined undefined
                undefined undefined undefined undefined image_cirros "VStr example_uuid"]
          u3(1) d3 example_suffixes(3)
    by simp
  have d4: "image_detail example_env example_ctx [''name'' \<mapsto> VStr ''dup'']
       = Inr [[''id'' \<mapsto> VStr ''I2'', ''name'' \<mapsto> VStr ''dup''],
              [''id'' \<mapsto> VStr ''I3'', ''name'' \<mapsto> VStr ''dup'']]"
    by (simp add: example_env_def)
  have c4: "outcome (image_uuid_from_ref example_env example_ctx (VStr ''dup''))
       = Inl (HTTPConflict
           (MsgArg ''Multiple matches found for '%s', use an ID to be more specific.''
              (VStr ''dup'')))"
    using image_resolution
            [of "''dup''" "''dup''" example_env example_ctx undefined undefined
                undefined undefined undefined
                "[[''id'' \<mapsto> VStr ''I2'', ''name'' \<mapsto> VStr ''dup''],
                  [''id'' \<mapsto> VStr ''I3'', ''name'' \<mapsto> VStr ''dup'']]" undefined undefined]
          u3(2) d4 example_suffixes(4)
    by simp
  have d5: "image_detail example_env example_ctx [''name'' \<mapsto> VStr ''down'']
       = Inl (OtherError ''ServiceUnavailable'')
     \<and> (\<forall>m. OtherError ''ServiceUnavailable'' \<noteq> HTTPConflict m)"
    by (simp add: example_env_def)
  have c5: "outcome (image_uuid_from_ref example_env example_ctx (VStr ''down''))
       = Inl (HTTPBadRequest (Msg ''Invalid image identifier or unable to access requested image.''))"
    using image_resolution
            [of "''down''" "''down''" example_env example_ctx undefined undefined
                undefined "OtherError ''ServiceUnavailable''" undefined undefined undefined
                undefined]
          u3(3) d5 example_suffixes(6)
    by simp
  from u1 c1 u2 c2 u3 c3 c4 c5 show ?thesis
    by simp
qed

section \<open>The image reference of a create request\<close>

lemma image_uuid_from_ref_not_string:
  "\<forall>s. image_ref \<noteq> VStr s \<Longrightarrow>
   image_uuid_from_ref env ctx image_ref = fail (HTTPBadRequest (Msg ''Invalid imageRef provided.''))"
  by (cases image_ref) simp_all

lemma resolve_image_not_string:
  "is_loaded env ''os-image-create'' \<Longrightarrow> dict_get volume ''imageRef'' \<noteq> VNone \<Longrightarrow>
   \<forall>s. dict_get volume ''imageRef'' \<noteq> VStr s \<Longrightarrow>
   resolve_image env ctx volume = (Inl (HTTPBadRequest (Msg ''Invalid imageRef provided.'')), [])"
  by (simp add: resolve_image_def Let_def image_uuid_from_ref_not_string and_then_def fail_def)

lemma resolve_image_string:
  "is_loaded env ''os-image-create'' \<Longrightarrow> dict_get volume ''imageRef'' = VStr ref \<Longrightarrow>
   trace (resolve_image env ctx volume) = trace (image_uuid_from_ref env ctx (VStr ref))
   \<and> outcome (resolve_image env ctx volume)
       = (case outcome (image_uuid_from_ref env ctx (VStr ref)) of
            Inl e \<Rightarrow> Inl e | Inr i \<Rightarrow> Inr (Some i))"
  by (simp add: resolve_image_def Let_def trace_and_then outcome_and_then split: sum.splits)

lemma image_uuid_from_ref_calls:
  "(Call_image_show x \<in> set (trace (image_uuid_from_ref env ctx (VStr ref)))
      \<longleftrightarrow> x = last (py_split CHR ''/'' ref) \<and> is_uuid_like env (VStr x))
   \<and> (Call_image_detail f \<in> set (trace (image_uuid_from_ref env ctx (VStr ref)))
      \<longrightarrow> f = [''name'' \<mapsto> VStr ref])"
  by (auto simp: image_lookup_by_id_def image_lookup_by_name_def Let_def call_def
        split: sum.splits option.splits prod.splits if_splits)

lemma early_steps_no_image_call:
  "filter is_image_call (trace (resolve_volume_type env ctx volume)) = []"
  "filter is_image_call (trace (resolve_snapshot env ctx volume)) = []"
  "filter is_image_call (trace (resolve_source_volume env ctx volume)) = []"
  "filter is_image_call (trace (resolve_source_replica env ctx volume)) = []"
  "filter is_image_call (trace (resolve_consistencygroup env ctx volume)) = []"
  by (simp_all add: resolve_volume_type_def resolve_snapshot_def resolve_source_volume_def
        resolve_source_replica_def resolve_consistencygroup_def Let_def trace_and_then
        split: sum.splits)

text \<open>
  Claim C10. With the extension \<^verbatim>\<open>os-image-create\<close> loaded and an \<^verbatim>\<open>imageRef\<close> that is
  not \<^verbatim>\<open>None\<close>: a value that is no string makes the image resolution fail with
  \<^verbatim>\<open>HTTPBadRequest\<close> (\<^verbatim>\<open>Invalid imageRef provided.\<close>) without any call of the image
  service, in the resolution and in the whole of \<^verbatim>\<open>create\<close>, which then never reaches
  \<^verbatim>\<open>volume_api.create\<close>. For a string, the identifier test and the \<^verbatim>\<open>show\<close> call get
  only the part after the last slash: a reference that ends in an identifier the catalogue
  knows resolves to it with that one \<^verbatim>\<open>show\<close> call. When that part does not look like an
  identifier, or the \<^verbatim>\<open>show\<close> raises, the search by name is made, and it is made with
  the whole reference as its \<^verbatim>\<open>name\<close> filter: the calls of the resolution are the \<^verbatim>\<open>show\<close>
  of the last part, if it looks like an identifier, and then \<^verbatim>\<open>detail\<close> with the filter
  \<^verbatim>\<open>{'name': image_ref}\<close>; what the catalogue answers for that filter decides the result,
  \<^verbatim>\<open>HTTPBadRequest\<close> when it finds nothing and the identifier of the image when it finds
  one.
\<close>

theorem image_ref_shapes:
  "is_loaded env ''os-image-create'' \<and> request_mapping env body = Inr volume \<longrightarrow>
     (dict_get volume ''imageRef'' \<noteq> VNone \<and> (\<forall>s. dict_get volume ''imageRef'' \<noteq> VStr s)
        \<longrightarrow>
          resolve_image env ctx volume
            = (Inl (HTTPBadRequest (Msg ''Invalid imageRef provided.'')), [])
          \<and> filter is_image_call (trace (create env ctx body)) = []
          \<and> (\<forall>k. Call_volume_create k \<notin> set (trace (create env ctx body)))
          \<and> (outcome (resolve_volume_type env ctx volume) = Inr vt
               \<and> outcome (resolve_snapshot env ctx volume) = Inr snap
               \<and> outcome (resolve_source_volume env ctx volume) = Inr sv
               \<and> outcome (resolve_source_replica env ctx volume) = Inr sr
               \<and> outcome (resolve_consistencygroup env ctx volume) = Inr cg
               \<and> derive_size volume snap sv sr = Inr sz
              \<longrightarrow> outcome (create env ctx body)
                    = Inl (HTTPBadRequest (Msg ''Invalid imageRef provided.''))))
     \<and> (dict_get volume ''imageRef'' = VStr ref
        \<longrightarrow>
          last (py_split CHR ''/'' ref) = rev (takeWhile (\<lambda>c. c \<noteq> CHR ''/'') (rev ref))
          \<and> (Call_image_show x \<in> set (trace (resolve_image env ctx volume))
               \<longleftrightarrow> x = last (py_split CHR ''/'' ref) \<and> is_uuid_like env (VStr x))
          \<and> (Call_image_detail f \<in> set (trace (resolve_image env ctx volume))
               \<longrightarrow> f = [''name'' \<mapsto> VStr ref])
          \<and> (is_uuid_like env (VStr (last (py_split CHR ''/'' ref)))
               \<and> image_show env ctx (last (py_split CHR ''/'' ref)) = Inr img
               \<and> img ''id'' = Some i
              \<longrightarrow> resolve_image env ctx volume
                    = (Inr (Some i), [Call_image_show (last (py_split CHR ''/'' ref))]))
          \<and> (\<not> is_uuid_like env (VStr (last (py_split CHR ''/'' ref)))
               \<or> (\<exists>e. image_show env ctx (last (py_split CHR ''/'' ref)) = Inl e)
              \<longrightarrow> trace (resolve_image env ctx volume)
                    = (if is_uuid_like env (VStr (last (py_split CHR ''/'' ref)))
                       then [Call_image_show (last (py_split CHR ''/'' ref))] else [])
                      @ [Call_image_detail [''name'' \<mapsto> VStr ref]]
                  \<and> (image_detail env ctx [''name'' \<mapsto> VStr ref] = Inr []
                       \<longrightarrow> outcome (resolve_image env ctx volume) = Inl invalid_image_identifier)
                  \<and> (image_detail env ctx [''name'' \<mapsto> VStr ref] = Inr [found]
                       \<and> found ''id'' = Some j
                       \<longrightarrow> outcome (resolve_image env ctx volume) = Inr (Some j))))"
proof (intro impI)
  assume a: "is_loaded env ''os-image-create'' \<and> request_mapping env body = Inr volume"
  then have l: "is_loaded env ''os-image-create''" and m: "request_mapping env body = Inr volume"
    by auto
  have bad: "resolve_image env ctx volume
            = (Inl (HTTPBadRequest (Msg ''Invalid imageRef provided.'')), [])
          \<and> filter is_image_call (trace (create env ctx body)) = []
          \<and> (\<forall>k. Call_volume_create k \<notin> set (trace (create env ctx body)))
          \<and> (outcome (resolve_volume_type env ctx volume) = Inr vt
               \<and> outcome (resolve_snapshot env ctx volume) = Inr snap
               \<and> outcome (resolve_source_volume env ctx volume) = Inr sv
               \<and> outcome (resolve_source_replica env ctx volume) = Inr sr
               \<and> outcome (resolve_consistencygroup env ctx volume) = Inr cg
               \<and> derive_size volume snap sv sr = Inr sz
              \<longrightarrow> outcome (create env ctx body)
                    = Inl (HTTPBadRequest (Msg ''Invalid imageRef provided.'')))"
    if n: "dict_get volume ''imageRef'' \<noteq> VNone \<and> (\<forall>s. dict_get volume ''imageRef'' \<noteq> VStr s)"
  proof -
    from n have ri: "resolve_image env ctx volume
            = (Inl (HTTPBadRequest (Msg ''Invalid imageRef provided.'')), [])"
      using resolve_image_not_string [OF l, of volume ctx] by blast
    have no_success: "outcome (assemble env ctx body) \<noteq> Inr k" for k
    proof
      assume "outcome (assemble env ctx body) = Inr k"
      with m obtain img' where "outcome (resolve_image env ctx volume) = Inr img'"
        unfolding assemble_Inr_iff by auto
      with ri show False
        by simp
    qed
    then obtain e where e: "outcome (assemble env ctx body) = Inl e"
      by (cases "outcome (assemble env ctx body)") auto
    have quiet: "filter is_image_call (trace (create env ctx body)) = []"
      by (simp add: create_trace e assemble_trace_steps [OF m] early_steps_no_image_call ri
            split: sum.splits)
    have none: "\<forall>k. Call_volume_create k \<notin> set (trace (create env ctx body))"
      by (simp add: create_call_iff e)
    have out: "outcome (create env ctx body)
                    = Inl (HTTPBadRequest (Msg ''Invalid imageRef provided.''))"
      if "outcome (resolve_volume_type env ctx volume) = Inr vt
               \<and> outcome (resolve_snapshot env ctx volume) = Inr snap
               \<and> outcome (resolve_source_volume env ctx volume) = Inr sv
               \<and> outcome (resolve_source_replica env ctx volume) = Inr sr
               \<and> outcome (resolve_consistencygroup env ctx volume) = Inr cg
               \<and> derive_size volume snap sv sr = Inr sz"
      using that by (simp add: create_outcome assemble_outcome_steps [OF m] ri)
    from ri quiet none out show ?thesis
      by blast
  qed
  have str: "last (py_split CHR ''/'' ref) = rev (takeWhile (\<lambda>c. c \<noteq> CHR ''/'') (rev ref))
          \<and> (Call_image_show x \<in> set (trace (resolve_image env ctx volume))
               \<longleftrightarrow> x = last (py_split CHR ''/'' ref) \<and> is_uuid_like env (VStr x))
          \<and> (Call_image_detail f \<in> set (trace (resolve_image env ctx volume))
               \<longrightarrow> f = [''name'' \<mapsto> VStr ref])
          \<and> (is_uuid_like env (VStr (last (py_split CHR ''/'' ref)))
               \<and> image_show env ctx (last (py_split CHR ''/'' ref)) = Inr img
               \<and> img ''id'' = Some i
              \<longrightarrow> resolve_image env ctx volume
                    = (Inr (Some i), [Call_image_show (last (py_split CHR ''/'' ref))]))
          \<and> (\<not> is_uuid_like env (VStr (last (py_split CHR ''/'' ref)))
               \<or> (\<exists>e. image_show env ctx (last (py_split CHR ''/'' ref)) = Inl e)
              \<longrightarrow> trace (resolve_image env ctx volume)
                    = (if is_uuid_like env (VStr (last (py_split CHR ''/'' ref)))
                       then [Call_image_show (last (py_split CHR ''/'' ref))] else [])
                      @ [Call_image_detail [''name'' \<mapsto> VStr ref]]
                  \<and> (image_detail env ctx [''name'' \<mapsto> VStr ref] = Inr []
                       \<longrightarrow> outcome (resolve_image env ctx volume) = Inl invalid_image_identifier)
                  \<and> (image_detail env ctx [''name'' \<mapsto> VStr ref] = Inr [found]
                       \<and> found ''id'' = Some j
                       \<longrightarrow> outcome (resolve_image env ctx volume) = Inr (Some j)))"
    if r: "dict_get volume ''imageRef'' = VStr ref"
  proof -
    note rs = resolve_image_string [OF l r, of ctx]
    have hit: "resolve_image env ctx volume
                    = (Inr (Some i), [Call_image_show (last (py_split CHR ''/'' ref))])"
      if h: "is_uuid_like env (VStr (last (py_split CHR ''/'' ref)))
               \<and> image_show env ctx (last (py_split CHR ''/'' ref)) = Inr img
               \<and> img ''id'' = Some i"
    proof -
      from h have "image_uuid_from_ref env ctx (VStr ref)
          = (Inr i, [Call_image_show (last (py_split CHR ''/'' ref))])"
        using image_uuid_from_ref_by_id [of env ref ctx img i] by blast
      with rs show ?thesis
        by (intro res_eqI) simp_all
    qed
    have fall: "trace (resolve_image env ctx volume)
                    = (if is_uuid_like env (VStr (last (py_split CHR ''/'' ref)))
                       then [Call_image_show (last (py_split CHR ''/'' ref))] else [])
                      @ [Call_image_detail [''name'' \<mapsto> VStr ref]]
                  \<and> (image_detail env ctx [''name'' \<mapsto> VStr ref] = Inr []
                       \<longrightarrow> outcome (resolve_image env ctx volume) = Inl invalid_image_identifier)
                  \<and> (image_detail env ctx [''name'' \<mapsto> VStr ref] = Inr [found]
                       \<and> found ''id'' = Some j
                       \<longrightarrow> outcome (resolve_image env ctx volume) = Inr (Some j))"
      if h: "\<not> is_uuid_like env (VStr (last (py_split CHR ''/'' ref)))
               \<or> (\<exists>e. image_show env ctx (last (py_split CHR ''/'' ref)) = Inl e)"
    proof -
      from h have "image_uuid_from_ref env ctx (VStr ref) =
          (outcome (image_lookup_by_name env ctx (VStr ref)),
           (if is_uuid_like env (VStr (last (py_split CHR ''/'' ref)))
            then [Call_image_show (last (py_split CHR ''/'' ref))] else [])
           @ [Call_image_detail [''name'' \<mapsto> VStr ref]])"
        by (intro image_uuid_from_ref_falls_through) blast
      with rs show ?thesis
        by (simp add: image_lookup_by_name_outcome)
    qed
    have calls: "last (py_split CHR ''/'' ref) = rev (takeWhile (\<lambda>c. c \<noteq> CHR ''/'') (rev ref))
          \<and> (Call_image_show x \<in> set (trace (resolve_image env ctx volume))
               \<longleftrightarrow> x = last (py_split CHR ''/'' ref) \<and> is_uuid_like env (VStr x))
          \<and> (Call_image_detail f \<in> set (trace (resolve_image env ctx volume))
               \<longrightarrow> f = [''name'' \<mapsto> VStr ref])"
      using rs image_uuid_from_ref_calls [of x env ctx ref f] last_py_split [of "CHR ''/''" ref]
      by simp
    from calls hit fall show ?thesis
      by blast
  qed
  from bad str
  show "(dict_get volume ''imageRef'' \<noteq> VNone \<and> (\<forall>s. dict_get volume ''imageRef'' \<noteq> VStr s)
        \<longrightarrow>
          resolve_image env ctx volume
            = (Inl (HTTPBadRequest (Msg ''Invalid imageRef provided.'')), [])
          \<and> filter is_image_call (trace (create env ctx body)) = []
          \<and> (\<forall>k. Call_volume_create k \<notin> set (trace (create env ctx body)))
          \<and> (outcome (resolve_volume_type env ctx volume) = Inr vt
               \<and> outcome (resolve_snapshot env ctx volume) = Inr snap
               \<and> outcome (resolve_source_volume env ctx volume) = Inr sv
               \<and> outcome (resolve_source_replica env ctx volume) = Inr sr
               \<and> outcome (resolve_consistencygroup env ctx volume) = Inr cg
               \<and> derive_size volume snap sv sr = Inr sz
              \<longrightarrow> outcome (create env ctx body)
                    = Inl (HTTPBadRequest (Msg ''Invalid imageRef provided.''))))
     \<and> (dict_get volume ''imageRef'' = VStr ref
        \<longrightarrow>
          last (py_split CHR ''/'' ref) = rev (takeWhile (\<lambda>c. c \<noteq> CHR ''/'') (rev ref))
          \<and> (Call_image_show x \<in> set (trace (resolve_image env ctx volume))
               \<longleftrightarrow> x = last (py_split CHR ''/'' ref) \<and> is_uuid_like env (VStr x))
          \<and> (Call_image_detail f \<in> set (trace (resolve_image env ctx volume))
               \<longrightarrow> f = [''name'' \<mapsto> VStr ref])
          \<and> (is_uuid_like env (VStr (last (py_split CHR ''/'' ref)))
               \<and> image_show env ctx (last (py_split CHR ''/'' ref)) = Inr img
               \<and> img ''id'' = Some i
              \<longrightarrow> resolve_image env ctx volume
                    = (Inr (Some i), [Call_image_show (last (py_split CHR ''/'' ref))]))
          \<and> (\<not> is_uuid_like env (VStr (last (py_split CHR ''/'' ref)))
               \<or> (\<exists>e. image_show env ctx (last (py_split CHR ''/'' ref)) = Inl e)
              \<longrightarrow> trace (resolve_image env ctx volume)
                    = (if is_uuid_like env (VStr (last (py_split CHR ''/'' ref)))
                       then [Call_image_show (last (py_split CHR ''/'' ref))] else [])
                      @ [Call_image_detail [''name'' \<mapsto> VStr ref]]
                  \<and> (image_detail env ctx [''name'' \<mapsto> VStr ref] = Inr []
                       \<longrightarrow> outcome (resolve_image env ctx volume) = Inl invalid_image_identifier)
                  \<and> (image_detail env ctx [''name'' \<mapsto> VStr ref] = Inr [found]
                       \<and> found ''id'' = Some j
                       \<longrightarrow> outcome (resolve_image env ctx volume) = Inr (Some j))))"
    by blast
qed


lemma image_url_suffix: "last (py_split CHR ''/'' image_url) = example_uuid"
  by (simp add: last_py_split image_url_def example_uuid_def)

lemma image_url_unknown_suffix: "last (py_split CHR ''/'' image_url_unknown) = unknown_uuid"
  by (simp add: last_py_split image_url_unknown_def unknown_uuid_def)

lemma image_path_suffix: "last (py_split CHR ''/'' ''images/cirros'') = ''cirros''"
  by (simp add: last_py_split)

lemma image_name_suffix: "last (py_split CHR ''/'' ''cirros'') = ''cirros''"
  by (simp add: last_py_split)

theorem image_ref_shapes_witness:
  "is_loaded example_env ''os-image-create''
   \<and> request_mapping example_env body_bad_image_ref
       = Inr [''imageRef'' \<mapsto> VInt 5, ''size'' \<mapsto> VInt 1]
   \<and> resolve_image example_env example_ctx [''imageRef'' \<mapsto> VInt 5, ''size'' \<mapsto> VInt 1]
       = (Inl (HTTPBadRequest (Msg ''Invalid imageRef provided.'')), [])
   \<and> outcome (create example_env example_ctx body_bad_image_ref)
       = Inl (HTTPBadRequest (Msg ''Invalid imageRef provided.''))
   \<and> filter is_image_call (trace (create example_env example_ctx body_bad_image_ref)) = []
   \<and> request_mapping example_env body_url_image_ref
       = Inr [''imageRef'' \<mapsto> VStr image_url, ''size'' \<mapsto> VInt 1]
   \<and> last (py_split CHR ''/'' image_url) = example_uuid
   \<and> resolve_image example_env example_ctx [''imageRef'' \<mapsto> VStr image_url, ''size'' \<mapsto> VInt 1]
       = (Inr (Some (VStr example_uuid)), [Call_image_show example_uuid])
   \<and> request_mapping example_env body_url_unknown_image
       = Inr [''imageRef'' \<mapsto> VStr image_url_unknown, ''size'' \<mapsto> VInt 1]
   \<and> trace (resolve_image example_env example_ctx
               [''imageRef'' \<mapsto> VStr image_url_unknown, ''size'' \<mapsto> VInt 1])
       = [Call_image_show unknown_uuid, Call_image_detail [''name'' \<mapsto> VStr image_url_unknown]]
   \<and> outcome (resolve_image example_env example_ctx
                 [''imageRef'' \<mapsto> VStr image_url_unknown, ''size'' \<mapsto> VInt 1])
       = Inl invalid_image_identifier
   \<and> request_mapping example_env body_path_image_ref
       = Inr [''imageRef'' \<mapsto> VStr ''images/cirros'', ''size'' \<mapsto> VInt 1]
   \<and> trace (resolve_image example_env example_ctx
               [''imageRef'' \<mapsto> VStr ''images/cirros'', ''size'' \<mapsto> VInt 1])
       = [Call_image_detail [''name'' \<mapsto> VStr ''images/cirros'']]
   \<and> outcome (resolve_image example_env example_ctx
                 [''imageRef'' \<mapsto> VStr ''images/cirros'', ''size'' \<mapsto> VInt 1])
       = Inl invalid_image_identifier
   \<and> request_mapping example_env body_name_image_ref
       = Inr [''imageRef'' \<mapsto> VStr ''cirros'', ''size'' \<mapsto> VInt 1]
   \<and> trace (resolve_image example_env example_ctx
               [''imageRef'' \<mapsto> VStr ''cirros'', ''size'' \<mapsto> VInt 1])
       = [Call_image_detail [''name'' \<mapsto> VStr ''cirros'']]
   \<and> outcome (resolve_image example_env example_ctx
                 [''imageRef'' \<mapsto> VStr ''cirros'', ''size'' \<mapsto> VInt 1])
       = Inr (Some (VStr example_uuid))"
proof -
  let ?v1 = "[''imageRef'' \<mapsto> VInt 5, ''size'' \<mapsto> VInt 1]"
  have l: "is_loaded example_env ''os-image-create''"
    by (simp add: example_env_def)
  have m1: "request_mapping example_env body_bad_image_ref = Inr ?v1"
    by (simp add: body_bad_image_ref_def example_defs request_mapping_def
          normalize_fields_def dict_getitem_def)
  have g1: "dict_get ?v1 ''imageRef'' \<noteq> VNone \<and> (\<forall>s. dict_get ?v1 ''imageRef'' \<noteq> VStr s)"
    by (simp add: dict_get_def)
  have s1: "outcome (resolve_volume_type example_env example_ctx ?v1) = Inr None
      \<and> outcome (resolve_snapshot example_env example_ctx ?v1) = Inr None
      \<and> outcome (resolve_source_volume example_env example_ctx ?v1) = Inr None
      \<and> outcome (resolve_source_replica example_env example_ctx ?v1) = Inr None
      \<and> outcome (resolve_consistencygroup example_env example_ctx ?v1) = Inr None
      \<and> derive_size ?v1 None None None = Inr (VInt 1)"
    by (simp add: resolve_volume_type_absent resolve_snapshot_absent
          resolve_source_volume_absent resolve_source_replica_absent
          resolve_consistencygroup_absent dict_get_def derive_size_def dict_get_default_def)
  have c1: "resolve_image example_env example_ctx ?v1
         = (Inl (HTTPBadRequest (Msg ''Invalid imageRef provided.'')), [])
     \<and> outcome (create example_env example_ctx body_bad_image_ref)
         = Inl (HTTPBadRequest (Msg ''Invalid imageRef provided.''))
     \<and> filter is_image_call (trace (create example_env example_ctx body_bad_image_ref)) = []"
    using image_ref_shapes
            [where env = example_env and body = body_bad_image_ref and volume = ?v1
               and ctx = example_ctx and vt = None and snap = None and sv = None and sr = None
               and cg = None and sz = "VInt 1"]
          l m1 g1 s1
    by blast
  let ?v2 = "[''imageRef'' \<mapsto> VStr image_url, ''size'' \<mapsto> VInt 1]"
  have m2: "request_mapping example_env body_url_image_ref = Inr ?v2"
    by (simp add: body_url_image_ref_def example_defs request_mapping_def
          normalize_fields_def dict_getitem_def)
  have g2: "dict_get ?v2 ''imageRef'' = VStr image_url"
    by (simp add: dict_get_def)
  have u2: "is_uuid_like example_env (VStr (last (py_split CHR ''/'' image_url)))
      \<and> image_show example_env example_ctx (last (py_split CHR ''/'' image_url)) = Inr image_cirros
      \<and> image_cirros ''id'' = Some (VStr example_uuid)"
    by (simp add: image_url_suffix) (simp add: example_env_def image_cirros_def example_uuid_def)
  have c2: "resolve_image example_env example_ctx ?v2
       = (Inr (Some (VStr example_uuid)), [Call_image_show (last (py_split CHR ''/'' image_url))])"
    using image_ref_shapes
            [where env = example_env and body = body_url_image_ref and volume = ?v2
               and ctx = example_ctx and ref = image_url and img = image_cirros
               and i = "VStr example_uuid"]
          l m2 g2 u2
    by blast
  let ?v3 = "[''imageRef'' \<mapsto> VStr image_url_unknown, ''size'' \<mapsto> VInt 1]"
  have m3: "request_mapping example_env body_url_unknown_image = Inr ?v3"
    by (simp add: body_url_unknown_image_def example_defs request_mapping_def
          normalize_fields_def dict_getitem_def)
  have g3: "dict_get ?v3 ''imageRef'' = VStr image_url_unknown"
    by (simp add: dict_get_def)
  have u3: "is_uuid_like example_env (VStr (last (py_split CHR ''/'' image_url_unknown)))"
    by (simp add: image_url_unknown_suffix) (simp add: example_env_def unknown_uuid_def)
  have f3: "\<not> is_uuid_like example_env (VStr (last (py_split CHR ''/'' image_url_unknown)))
      \<or> (\<exists>e. image_show example_env example_ctx (last (py_split CHR ''/'' image_url_unknown))
               = Inl e)"
    by (simp add: image_url_unknown_suffix)
      (simp add: example_env_def unknown_uuid_def example_uuid_def)
  have d3: "image_detail example_env example_ctx [''name'' \<mapsto> VStr image_url_unknown] = Inr []"
    by (simp add: example_env_def image_url_unknown_def)
  have c3: "trace (resolve_image example_env example_ctx ?v3)
        = (if is_uuid_like example_env (VStr (last (py_split CHR ''/'' image_url_unknown)))
           then [Call_image_show (last (py_split CHR ''/'' image_url_unknown))] else [])
          @ [Call_image_detail [''name'' \<mapsto> VStr image_url_unknown]]
      \<and> outcome (resolve_image example_env example_ctx ?v3) = Inl invalid_image_identifier"
    using image_ref_shapes
            [where env = example_env and body = body_url_unknown_image and volume = ?v3
               and ctx = example_ctx and ref = image_url_unknown]
          l m3 g3 f3 d3
    by blast
  let ?v4 = "[''imageRef'' \<mapsto> VStr ''images/cirros'', ''size'' \<mapsto> VInt 1]"
  have m4: "request_mapping example_env body_path_image_ref = Inr ?v4"
    by (simp add: body_path_image_ref_def example_defs request_mapping_def
          normalize_fields_def dict_getitem_def)
  have g4: "dict_get ?v4 ''imageRef'' = VStr ''images/cirros''"
    by (simp add: dict_get_def)
  have u4: "\<not> is_uuid_like example_env (VStr (last (py_split CHR ''/'' ''images/cirros'')))"
    by (simp add: image_path_suffix) (simp add: example_env_def)
  then have f4: "\<not> is_uuid_like example_env (VStr (last (py_split CHR ''/'' ''images/cirros'')))
      \<or> (\<exists>e. image_show example_env example_ctx (last (py_split CHR ''/'' ''images/cirros''))
               = Inl e)"
    by blast
  have d4: "image_detail example_env example_ctx [''name'' \<mapsto> VStr ''images/cirros''] = Inr []"
    by (simp add: example_env_def)
  have c4: "trace (resolve_image example_env example_ctx ?v4)
        = (if is_uuid_like example_env (VStr (last (py_split CHR ''/'' ''images/cirros'')))
           then [Call_image_show (last (py_split CHR ''/'' ''images/cirros''))] else [])
          @ [Call_image_detail [''name'' \<mapsto> VStr ''images/cirros'']]
      \<and> outcome (resolve_image example_env example_ctx ?v4) = Inl invalid_image_identifier"
    using image_ref_shapes
            [where env = example_env and body = body_path_image_ref and volume = ?v4
               and ctx = example_ctx and ref = "''images/cirros''"]
          l m4 g4 f4 d4
    by blast
  let ?v5 = "[''imageRef'' \<mapsto> VStr ''cirros'', ''size'' \<mapsto> VInt 1]"
  have m5: "request_mapping example_env body_name_image_ref = Inr ?v5"
    by (simp add: body_name_image_ref_def example_defs request_mapping_def
          normalize_fields_def dict_getitem_def)
  have g5: "dict_get ?v5 ''imageRef'' = VStr ''cirros''"
    by (simp add: dict_get_def)
  have u5: "\<not> is_uuid_like example_env (VStr (last (py_split CHR ''/'' ''cirros'')))"
    by (simp add: image_name_suffix) (simp add: example_env_def)
  then have f5: "\<not> is_uuid_like example_env (VStr (last (py_split CHR ''/'' ''cirros'')))
      \<or> (\<exists>e. image_show example_env example_ctx (last (py_split CHR ''/'' ''cirros'')) = Inl e)"
    by blast
  have d5: "image_detail example_env example_ctx [''name'' \<mapsto> VStr ''cirros''] = Inr [image_cirros]
      \<and> image_cirros ''id'' = Some (VStr example_uuid)"
    by (simp add: example_env_def image_cirros_def)
  have c5: "trace (resolve_image example_env example_ctx ?v5)
        = (if is_uuid_like example_env (VStr (last (py_split CHR ''/'' ''cirros'')))
           then [Call_image_show (last (py_split CHR ''/'' ''cirros''))] else [])
          @ [Call_image_detail [''name'' \<mapsto> VStr ''cirros'']]
      \<and> outcome (resolve_image example_env example_ctx ?v5) = Inr (Some (VStr example_uuid))"
    using image_ref_shapes
            [where env = example_env and body = body_name_image_ref and volume = ?v5
               and ctx = example_ctx and ref = "''cirros''" and found = image_cirros
               and j = "VStr example_uuid"]
          l m5 g5 f5 d5
    by blast
  from c3 u3 have c3': "trace (resolve_image example_env example_ctx ?v3)
       = [Call_image_show unknown_uuid, Call_image_detail [''name'' \<mapsto> VStr image_url_unknown]]
      \<and> outcome (resolve_image example_env example_ctx ?v3) = Inl invalid_image_identifier"
    by (simp add: image_url_unknown_suffix)
  from c4 u4 have c4': "trace (resolve_image example_env example_ctx ?v4)
       = [Call_image_detail [''name'' \<mapsto> VStr ''images/cirros'']]
      \<and> outcome (resolve_image example_env example_ctx ?v4) = Inl invalid_image_identifier"
    by simp
  from c5 u5 have c5': "trace (resolve_image example_env example_ctx ?v5)
       = [Call_image_detail [''name'' \<mapsto> VStr ''cirros'']]
      \<and> outcome (resolve_image example_env example_ctx ?v5) = Inr (Some (VStr example_uuid))"
    by simp
  from c2 have c2': "resolve_image example_env example_ctx ?v2
       = (Inr (Some (VStr example_uuid)), [Call_image_show example_uuid])"
    by (simp add: image_url_suffix)
  from l m1 c1 m2 c2' m3 c3' m4 c4' m5 c5' image_url_suffix show ?thesis
    by blast
qed

section \<open>The listing query\<close>

lemma py_index_first:
  "x \<in> set xs \<Longrightarrow>
   py_index xs x < length xs \<and> xs ! py_index xs x = x \<and> x \<notin> set (take (py_index xs x) xs)"
  by (induction xs) auto

lemma update_first_is_map:
  "count_list xs x \<le> 1 \<Longrightarrow> xs[py_index xs x := y] = map (\<lambda>k. if k = x then y else k) xs"
proof (induction xs)
  case Nil
  then show ?case by simp
next
  case (Cons k ks)
  show ?case
  proof (cases "k = x")
    case True
    with Cons.prems have "count_list ks x = 0"
      by simp
    then have "x \<notin> set ks"
      by (simp add: count_list_0_iff)
    then have "map (\<lambda>k. if k = x then y else k) ks = ks"
      by (induction ks) auto
    with True show ?thesis
      by simp
  next
    case False
    with Cons show ?thesis
      by simp
  qed
qed

text \<open>
  Lines 104 and 105 replace the first \<^verbatim>\<open>name\<close> of the sort keys. Where \<^verbatim>\<open>name\<close> occurs at
  most once, no \<^verbatim>\<open>name\<close> is left.
\<close>

lemma alias_sort_keys_single:
  "count_list sort_keys ''name'' \<le> 1 \<Longrightarrow>
   alias_sort_keys sort_keys = map (\<lambda>k. if k = ''name'' then ''display_name'' else k) sort_keys"
  by (auto simp: alias_sort_keys_def update_first_is_map intro: map_idI [symmetric])

text \<open>A sort-key sequence that repeats \<^verbatim>\<open>name\<close> keeps the later ones.\<close>

lemma alias_sort_keys_keeps_later:
  "2 \<le> count_list sort_keys ''name'' \<Longrightarrow> ''name'' \<in> set (alias_sort_keys sort_keys)"
proof (induction sort_keys)
  case Nil
  then show ?case by simp
next
  case (Cons k ks)
  show ?case
  proof (cases "k = ''name''")
    case True
    with Cons.prems have "1 \<le> count_list ks ''name''"
      by simp
    then have "''name'' \<in> set ks"
      using count_list_0_iff [of ks "''name''"] by auto
    with True show ?thesis
      by (simp add: alias_sort_keys_def)
  next
    case False
    with Cons.prems have "2 \<le> count_list ks ''name''"
      by simp
    then have "''name'' \<in> set (alias_sort_keys ks)"
      by (rule Cons.IH)
    moreover from \<open>2 \<le> count_list ks ''name''\<close> have "''name'' \<in> set ks"
      using count_list_0_iff [of ks "''name''"] by auto
    ultimately show ?thesis
      using False by (simp add: alias_sort_keys_def)
  qed
qed

text \<open>
  Line 98: \<^verbatim>\<open>pop\<close> takes one pair under the key away, the first, and leaves the pairs under
  other keys alone. The key is gone exactly when it occurred at most once.
\<close>

lemma multidict_pop_count:
  "length (filter (\<lambda>item. fst item = key) (multidict_pop key d)) =
   length (filter (\<lambda>item. fst item = key) d) - 1"
  by (induction d) auto

lemma multidict_pop_others:
  "filter (\<lambda>item. fst item \<noteq> key) (multidict_pop key d) = filter (\<lambda>item. fst item \<noteq> key) d"
  by (induction d) auto

lemma multidict_contains_count:
  "multidict_contains key d \<longleftrightarrow> 1 \<le> length (filter (\<lambda>item. fst item = key) d)"
  by (induction d) (auto simp: multidict_contains_def)

lemma multidict_pop_contains:
  "multidict_contains key (multidict_pop key d) \<longleftrightarrow>
   2 \<le> length (filter (\<lambda>item. fst item = key) d)"
  unfolding multidict_contains_count multidict_pop_count by arith

text \<open>
  Lines 107 to 109 never raise: every \<^verbatim>\<open>name\<close> pair and every earlier \<^verbatim>\<open>display_name\<close> pair
  is deleted, and one \<^verbatim>\<open>display_name\<close> pair with the value of the last \<^verbatim>\<open>name\<close> pair is
  appended.
\<close>

lemma map_of_rev_contains:
  "multidict_contains key d \<Longrightarrow> \<exists>v. map_of (rev d) key = Some v"
  by (metis multidict_contains_def map_of_eq_None_iff not_Some_eq set_map set_rev)

lemma alias_name_filter_result:
  "alias_name_filter filters =
     Inr (if multidict_contains ''name'' filters
          then filter (\<lambda>item. fst item \<noteq> ''name'' \<and> fst item \<noteq> ''display_name'') filters
               @ [(''display_name'', the (map_of (rev filters) ''name''))]
          else filters)"
proof (cases "multidict_contains ''name'' filters")
  case True
  then obtain v where v: "map_of (rev filters) ''name'' = Some v"
    using map_of_rev_contains by blast
  from True have "multidict_contains ''name'' (multidict_setitem filters ''display_name'' v)"
    by (auto simp: multidict_contains_def multidict_setitem_def)
  with True v show ?thesis
    by (simp add: alias_name_filter_def multidict_getitem_def multidict_delitem_def
        multidict_setitem_def conj_commute)
next
  case False
  then show ?thesis
    by (simp add: alias_name_filter_def)
qed

lemma alias_name_filter_no_name:
  "alias_name_filter filters = Inr filters' \<Longrightarrow> \<not> multidict_contains ''name'' filters'"
  by (auto simp: alias_name_filter_result multidict_contains_def split: if_splits)

lemma get_volumes_trace:
  "get_pagination_params env req_params = Inr ((marker, limit, offset), params1) \<Longrightarrow>
   get_sort_params env params1 = Inr ((sort_keys, sort_dirs), params2) \<Longrightarrow>
   trace (get_volumes env ctx req_params is_detail) =
     Call_remove_invalid_filter_options (multidict_pop ''glance_metadata'' params2)
       (query_volume_filters env)
     # (case remove_invalid_filter_options env ctx (multidict_pop ''glance_metadata'' params2)
               (query_volume_filters env) of
          Inl e \<Rightarrow> []
        | Inr filters1 \<Rightarrow>
            (case alias_name_filter filters1 of
               Inl e \<Rightarrow> []
             | Inr filters2 \<Rightarrow>
                 Call_check_volume_filters filters2
                 # (case check_volume_filters env filters2 of
                      Inl e \<Rightarrow> []
                    | Inr filters3 \<Rightarrow>
                        [Call_get_all
                           \<lparr> ga_marker = marker, ga_limit = limit,
                             ga_sort_keys = alias_sort_keys sort_keys, ga_sort_dirs = sort_dirs,
                             ga_filters = filters3, ga_viewable_admin_meta = True,
                             ga_offset = offset \<rparr>])))"
  by (simp add: get_volumes_def Let_def trace_and_then split: sum.splits)

lemma example_listing_parsers:
  "get_pagination_params example_env listing_params_repeated =
     Inr ((VNone, VNone, VInt 0), listing_params_repeated)"
  "get_sort_params example_env listing_params_repeated =
     Inr (([''name'', ''name''], [''desc'', ''desc'']),
          [(''glance_metadata'', VStr ''a''), (''glance_metadata'', VStr ''b'')])"
  by (simp_all add: example_env_def listing_params_repeated_def)

lemma example_listing_helpers:
  "remove_invalid_filter_options example_env admin_ctx filters allowed = Inr filters"
  "check_volume_filters example_env filters = Inr filters"
  "query_volume_filters example_env = [''name'', ''status'', ''metadata'']"
  "get_all example_env ctx query = Inr []"
  by (simp_all add: example_env_def admin_ctx_def)

text \<open>
  The request \<^verbatim>\<open>GET /volumes?name=vol1&glance_metadata=x&sort_key=name&limit=10\<close>, where
  each key occurs once: no \<^verbatim>\<open>glance_metadata\<close> filter is handed on, in an admin context or
  not, and the \<^verbatim>\<open>name\<close> filter and sort key reach \<^verbatim>\<open>get_all\<close> as \<^verbatim>\<open>display_name\<close>.
\<close>

lemma listing_single_keys:
  "trace (index example_env ctx listing_params) =
     [Call_remove_invalid_filter_options [(''name'', VStr ''vol1'')]
        [''name'', ''status'', ''metadata''],
      Call_check_volume_filters [(''display_name'', VStr ''vol1'')],
      Call_get_all
        \<lparr> ga_marker = VNone, ga_limit = VStr ''10'',
          ga_sort_keys = [''display_name''], ga_sort_dirs = [''desc''],
          ga_filters = [(''display_name'', VStr ''vol1'')], ga_viewable_admin_meta = True,
          ga_offset = VInt 0 \<rparr>]"
proof -
  have p: "get_pagination_params example_env listing_params =
      Inr ((VNone, VStr ''10'', VInt 0),
           [(''name'', VStr ''vol1''), (''glance_metadata'', VStr ''x''),
            (''sort_key'', VStr ''name'')])"
    by (simp add: example_env_def listing_params_def)
  have s: "get_sort_params example_env
      [(''name'', VStr ''vol1''), (''glance_metadata'', VStr ''x''), (''sort_key'', VStr ''name'')]
      = Inr (([''name''], [''desc'']),
             [(''name'', VStr ''vol1''), (''glance_metadata'', VStr ''x'')])"
    by (simp add: example_env_def)
  have r: "remove_invalid_filter_options example_env ctx [(''name'', VStr ''vol1'')]
             [''name'', ''status'', ''metadata''] = Inr [(''name'', VStr ''vol1'')]"
    by (simp add: example_env_def)
  show ?thesis
    unfolding index_def
    by (simp add: get_volumes_trace [OF p s] example_listing_helpers(2,3) r
        alias_name_filter_result alias_sort_keys_def multidict_contains_def)
qed

text \<open>
  Claim C5, at the admin request
  \<^verbatim>\<open>GET /volumes/detail?glance_metadata=a&glance_metadata=b&sort=name,name\<close>. Line 98 pops
  the first \<^verbatim>\<open>glance_metadata\<close> pair and leaves the second, and line 105 replaces the first
  \<^verbatim>\<open>name\<close> of the sort keys and leaves the second: the invalid-filter stripping,
  \<^verbatim>\<open>check_volume_filters\<close> and \<^verbatim>\<open>get_all\<close> are all called with \<^verbatim>\<open>glance_metadata=b\<close> among the
  filters, and \<^verbatim>\<open>get_all\<close> with the sort keys \<^verbatim>\<open>display_name\<close>, \<^verbatim>\<open>name\<close>; the request is
  answered, not refused.
\<close>

theorem listing_repeated_keys:
  "trace (detail example_env admin_ctx listing_params_repeated) =
     [Call_remove_invalid_filter_options [(''glance_metadata'', VStr ''b'')]
        [''name'', ''status'', ''metadata''],
      Call_check_volume_filters [(''glance_metadata'', VStr ''b'')],
      Call_get_all
        \<lparr> ga_marker = VNone, ga_limit = VNone,
          ga_sort_keys = [''display_name'', ''name''], ga_sort_dirs = [''desc'', ''desc''],
          ga_filters = [(''glance_metadata'', VStr ''b'')], ga_viewable_admin_meta = True,
          ga_offset = VInt 0 \<rparr>]
   \<and> outcome (detail example_env admin_ctx listing_params_repeated) = Inr (Detail_list [])
   \<and> multidict_contains ''glance_metadata''
        (multidict_pop ''glance_metadata''
           [(''glance_metadata'', VStr ''a''), (''glance_metadata'', VStr ''b'')])
   \<and> alias_sort_keys [''name'', ''name''] = [''display_name'', ''name'']"
proof -
  have t: "trace (detail example_env admin_ctx listing_params_repeated) =
     [Call_remove_invalid_filter_options [(''glance_metadata'', VStr ''b'')]
        [''name'', ''status'', ''metadata''],
      Call_check_volume_filters [(''glance_metadata'', VStr ''b'')],
      Call_get_all
        \<lparr> ga_marker = VNone, ga_limit = VNone,
          ga_sort_keys = [''display_name'', ''name''], ga_sort_dirs = [''desc'', ''desc''],
          ga_filters = [(''glance_metadata'', VStr ''b'')], ga_viewable_admin_meta = True,
          ga_offset = VInt 0 \<rparr>]"
    unfolding detail_def
    by (simp add: get_volumes_trace [OF example_listing_parsers] example_listing_helpers
        alias_name_filter_result alias_sort_keys_def multidict_contains_def)
  have o: "outcome (detail example_env admin_ctx listing_params_repeated) = Inr (Detail_list [])"
    by (simp add: detail_def get_volumes_def example_listing_parsers Let_def
        alias_name_filter_result multidict_contains_def and_then_def lift_def call_def ok_def
        outcome_def example_listing_helpers)
  have p: "multidict_contains ''glance_metadata''
        (multidict_pop ''glance_metadata''
           [(''glance_metadata'', VStr ''a''), (''glance_metadata'', VStr ''b'')])"
    by (simp add: multidict_contains_def)
  have s: "alias_sort_keys [''name'', ''name''] = [''display_name'', ''name'']"
    by (simp add: alias_sort_keys_def)
  from t o p s show ?thesis
    by blast
qed

text \<open>
  What does hold of every listing request: with one \<^verbatim>\<open>glance_metadata\<close> pair at most, no
  such pair is handed to the invalid-filter stripping, in an admin context or not; and the
  filters checked have no \<^verbatim>\<open>name\<close> pair.
\<close>

lemma get_volumes_single_glance_metadata:
  assumes "get_pagination_params env req_params = Inr ((marker, limit, offset), params1)"
    and "get_sort_params env params1 = Inr ((sort_keys, sort_dirs), params2)"
    and "length (filter (\<lambda>item. fst item = ''glance_metadata'') params2) \<le> 1"
  shows "\<exists>filters0. hd (trace (get_volumes env ctx req_params is_detail)) =
            Call_remove_invalid_filter_options filters0 (query_volume_filters env)
          \<and> \<not> multidict_contains ''glance_metadata'' filters0"
proof -
  from assms(3) have "\<not> multidict_contains ''glance_metadata'' (multidict_pop ''glance_metadata'' params2)"
    unfolding multidict_pop_contains by arith
  then show ?thesis
    by (simp add: get_volumes_trace [OF assms(1,2)])
qed

lemma get_volumes_no_name_filter:
  assumes "get_pagination_params env req_params = Inr ((marker, limit, offset), params1)"
    and "get_sort_params env params1 = Inr ((sort_keys, sort_dirs), params2)"
    and "Call_check_volume_filters filters \<in> set (trace (get_volumes env ctx req_params is_detail))"
  shows "\<not> multidict_contains ''name'' filters"
proof -
  from assms(3) obtain filters1 where "alias_name_filter filters1 = Inr filters"
    by (auto simp: get_volumes_trace [OF assms(1,2)] split: sum.splits)
  then show ?thesis
    by (rule alias_name_filter_no_name)
qed

section \<open>The update operation\<close>

lemma extract_update_keys_dict:
  "extract_update_keys (VDict volume) keys acc =
     Inr (\<lambda>k. if k \<in> set keys \<and> volume k \<noteq> None then volume k else acc k)"
proof (induction keys arbitrary: acc)
  case Nil
  then show ?case by simp
next
  case (Cons key keys)
  show ?case
  proof (cases "volume key")
    case None
    then show ?thesis
      by (auto simp: Cons.IH fun_eq_iff)
  next
    case (Some v)
    then show ?thesis
      by (auto simp: Cons.IH fun_eq_iff dict_getitem_def)
  qed
qed

lemma extract_update_keys_restrict:
  "extract_update_keys (VDict volume) keys Map.empty = Inr (restrict_map volume (set keys))"
  by (auto simp: extract_update_keys_dict restrict_map_def fun_eq_iff)

lemma alias_update_fields_props:
  "alias_update_fields d ''name'' = None
   \<and> alias_update_fields d ''description'' = None
   \<and> (d ''name'' \<noteq> None \<longrightarrow> alias_update_fields d ''display_name'' = d ''name'')
   \<and> (d ''description'' \<noteq> None
        \<longrightarrow> alias_update_fields d ''display_description'' = d ''description'')
   \<and> (d ''image_id'' = None \<longrightarrow> alias_update_fields d = normalize_fields d)"
  by (auto simp: alias_update_fields_def normalize_fields_def Let_def split: option.splits)

lemma alias_update_fields_apply:
  "alias_update_fields d k =
     (if k = ''name'' \<or> k = ''description'' then None
      else if k = ''display_name'' then (case d ''name'' of Some v \<Rightarrow> Some v | None \<Rightarrow> d k)
      else if k = ''display_description''
        then (case d ''description'' of Some v \<Rightarrow> Some v | None \<Rightarrow> d k)
      else d k)"
  by (simp add: alias_update_fields_def Let_def split: option.splits)

lemma alias_update_fields_dom:
  assumes "dom d \<subseteq> set valid_update_keys"
  shows "dom (alias_update_fields d) \<subseteq> {''display_name'', ''display_description'', ''metadata''}"
proof
  fix k
  assume "k \<in> dom (alias_update_fields d)"
  then have k: "alias_update_fields d k \<noteq> None"
    by (simp add: dom_def)
  show "k \<in> {''display_name'', ''display_description'', ''metadata''}"
  proof (rule ccontr)
    assume n: "k \<notin> {''display_name'', ''display_description'', ''metadata''}"
    with k have "d k \<noteq> None" "k \<noteq> ''name''" "k \<noteq> ''description''"
      by (simp_all add: alias_update_fields_apply split: if_splits)
    moreover from this(1) assms have "k \<in> set valid_update_keys"
      by (auto simp: dom_def)
    ultimately show False
      using n by (simp add: valid_update_keys_def)
  qed
qed

lemma trace_translate_metadata_size [simp]:
  "trace (translate_metadata_size m) = trace m"
  by (cases m) (auto simp: translate_metadata_size_def trace_def split: sum.splits error.splits)

lemma outcome_translate_metadata_size:
  "outcome (translate_metadata_size m) =
     (case outcome m of
        Inl (InvalidVolumeMetadataSize msg) \<Rightarrow> Inl (HTTPRequestEntityTooLarge msg)
      | Inl e \<Rightarrow> Inl e
      | Inr x \<Rightarrow> Inr x)"
  by (cases m) (simp add: translate_metadata_size_def outcome_def split: sum.splits error.splits)

lemma update_volume_record_trace:
  "trace (update_volume_record env ctx vol_id update_dict) =
     Call_volume_get vol_id
     # (case volume_get env ctx vol_id of
          Inl e \<Rightarrow> []
        | Inr vol \<Rightarrow>
            Call_notify_about_volume_usage vol ''update.start''
            # (case notify_about_volume_usage env ctx vol ''update.start'' of
                 Some e \<Rightarrow> []
               | None \<Rightarrow> [Call_volume_update vol update_dict]))"
  by (simp add: update_volume_record_def trace_and_then split: sum.splits option.splits)

lemma update_volume_record_outcome:
  "outcome (update_volume_record env ctx vol_id update_dict) =
     (case volume_get env ctx vol_id of
        Inl e \<Rightarrow> Inl e
      | Inr vol \<Rightarrow>
          (case notify_about_volume_usage env ctx vol ''update.start'' of
             Some e \<Rightarrow> Inl e
           | None \<Rightarrow>
               (case volume_update env ctx vol update_dict of
                  Some e \<Rightarrow> Inl e
                | None \<Rightarrow> Inr vol)))"
  by (simp add: update_volume_record_def outcome_and_then split: sum.splits option.splits)

lemma update_trace:
  "truthy body \<Longrightarrow> py_contains ''volume'' body = Inr True \<Longrightarrow>
   py_getitem body ''volume'' = Inr volume \<Longrightarrow>
   extract_update_keys volume valid_update_keys Map.empty = Inr extracted \<Longrightarrow>
   validate_name_and_description env (VDict extracted) = Inr validated \<Longrightarrow>
   trace (update env ctx vol_id body) =
     trace (update_volume_record env ctx vol_id (alias_update_fields validated))
     @ (case outcome (translate_metadata_size
                (update_volume_record env ctx vol_id (alias_update_fields validated))) of
          Inl e \<Rightarrow> []
        | Inr vol \<Rightarrow>
            (case add_visible_admin_metadata env (vol ++ alias_update_fields validated) of
               Inl e \<Rightarrow> []
             | Inr vol' \<Rightarrow> [Call_notify_about_volume_usage vol' ''update.end'']))"
  by (simp add: update_def Let_def trace_and_then outcome_and_then split: sum.splits)

lemma update_rejects:
  "\<not> truthy body \<Longrightarrow> update env ctx vol_id body = (Inl missing_request_body, [])"
  "truthy body \<Longrightarrow> py_contains ''volume'' body = Inr False \<Longrightarrow>
   update env ctx vol_id body = (Inl missing_volume_element, [])"
  by (simp_all add: update_def fail_def lift_def and_then_def)

lemma update_validation_fails:
  "truthy body \<Longrightarrow> py_contains ''volume'' body = Inr True \<Longrightarrow>
   py_getitem body ''volume'' = Inr volume \<Longrightarrow>
   extract_update_keys volume valid_update_keys Map.empty = Inr extracted \<Longrightarrow>
   validate_name_and_description env (VDict extracted) = Inl e \<Longrightarrow>
   update env ctx vol_id body = (Inl e, [])"
  by (simp add: update_def fail_def lift_def and_then_def)

lemma truthy_dict: "b k = Some v \<Longrightarrow> truthy (VDict b)"
  by (auto simp: fun_eq_iff)

lemma rename_only:
  "alias_update_fields [''name'' \<mapsto> VStr x] = [''display_name'' \<mapsto> VStr x]"
  by (auto simp: fun_eq_iff alias_update_fields_apply)

text \<open>The keys of lines 300 to 306, and what the loop of lines 308 to 310 extracts.\<close>

lemma valid_update_keys_set:
  "set valid_update_keys =
     {''name'', ''description'', ''display_name'', ''display_description'', ''metadata''}"
  by (auto simp: valid_update_keys_def)

lemma extract_update_keys_allowed:
  "extract_update_keys (VDict volume) valid_update_keys Map.empty
     = Inr (restrict_map volume
              {''name'', ''description'', ''display_name'', ''display_description'',
               ''metadata''})"
  using extract_update_keys_restrict [of volume valid_update_keys]
  by (simp only: valid_update_keys_set)

lemma extract_update_keys_pointwise:
  "extract_update_keys (VDict volume) valid_update_keys Map.empty = Inr extracted \<Longrightarrow>
   extracted ''name'' = volume ''name''
   \<and> extracted ''description'' = volume ''description''
   \<and> extracted ''display_name'' = volume ''display_name''
   \<and> extracted ''display_description'' = volume ''display_description''
   \<and> extracted ''metadata'' = volume ''metadata''
   \<and> (\<forall>k. k \<notin> {''name'', ''description'', ''display_name'', ''display_description'',
                  ''metadata''} \<longrightarrow> extracted k = None)"
  unfolding extract_update_keys_allowed by (auto simp: restrict_map_def)

text \<open>
  Claim C6. \<^verbatim>\<open>update\<close> answers a body that fails the truth test (no body, \<^verbatim>\<open>{}\<close>) with
  \<^verbatim>\<open>HTTPBadRequest\<close>, and a body that passes it but has no \<^verbatim>\<open>volume\<close> key with
  \<^verbatim>\<open>HTTPBadRequest\<close> too, both before any collaborator is called. From a \<^verbatim>\<open>volume\<close>
  mapping the keys \<^verbatim>\<open>name\<close>, \<^verbatim>\<open>description\<close>, \<^verbatim>\<open>display_name\<close>, \<^verbatim>\<open>display_description\<close> and
  \<^verbatim>\<open>metadata\<close> are extracted, each with its value, and no other key. After validation,
  \<^verbatim>\<open>name\<close> and \<^verbatim>\<open>description\<close> are renamed to \<^verbatim>\<open>display_name\<close> and
  \<^verbatim>\<open>display_description\<close>, as the normalizer of \<^verbatim>\<open>create\<close> does, and the result is the
  field set every call of \<^verbatim>\<open>volume_api.update\<close> gets, and the call is made once the volume
  is found. Where validation returns the extracted fields as they are, that field set has
  \<^verbatim>\<open>display_name\<close> from \<^verbatim>\<open>name\<close>, or from \<^verbatim>\<open>display_name\<close> when there is no \<^verbatim>\<open>name\<close>,
  \<^verbatim>\<open>display_description\<close> likewise, \<^verbatim>\<open>metadata\<close> as given, and nothing else. For the payload
  \<^verbatim>\<open>{"volume": {"name": "x"}}\<close> it is \<^verbatim>\<open>{"display_name": "x"}\<close>.
\<close>

theorem update_field_set:
  "(\<not> truthy body
      \<longrightarrow> update env ctx vol_id body = (Inl (HTTPBadRequest (Msg ''Missing request body'')), []))
   \<and> (truthy body \<and> py_contains ''volume'' body = Inr False
      \<longrightarrow> update env ctx vol_id body
            = (Inl (HTTPBadRequest
                 (MsgArg ''Missing required element '%s' in request body'' (VStr ''volume''))),
               []))
   \<and> (b \<noteq> Map.empty \<and> b ''volume'' = None
      \<longrightarrow> update env ctx vol_id (VDict b)
            = (Inl (HTTPBadRequest
                 (MsgArg ''Missing required element '%s' in request body'' (VStr ''volume''))),
               []))
   \<and> (b ''volume'' = Some (VDict volume)
      \<longrightarrow>
          extract_update_keys (VDict volume) valid_update_keys Map.empty
            = Inr (restrict_map volume
                     {''name'', ''description'', ''display_name'', ''display_description'',
                      ''metadata''})
          \<and> (validate_name_and_description env
                 (VDict (restrict_map volume
                           {''name'', ''description'', ''display_name'', ''display_description'',
                            ''metadata''})) = Inl e
              \<longrightarrow> update env ctx vol_id (VDict b) = (Inl e, []))
          \<and> (validate_name_and_description env
                 (VDict (restrict_map volume
                           {''name'', ''description'', ''display_name'', ''display_description'',
                            ''metadata''})) = Inr validated
              \<longrightarrow>
                (Call_volume_update vol d \<in> set (trace (update env ctx vol_id (VDict b)))
                   \<longrightarrow> d = alias_update_fields validated)
                \<and> (volume_get env ctx vol_id = Inr vol
                     \<and> notify_about_volume_usage env ctx vol ''update.start'' = None
                    \<longrightarrow> Call_volume_update vol (alias_update_fields validated)
                          \<in> set (trace (update env ctx vol_id (VDict b))))
                \<and> alias_update_fields validated ''name'' = None
                \<and> alias_update_fields validated ''description'' = None
                \<and> (validated ''name'' \<noteq> None
                     \<longrightarrow> alias_update_fields validated ''display_name'' = validated ''name'')
                \<and> (validated ''description'' \<noteq> None
                     \<longrightarrow> alias_update_fields validated ''display_description''
                           = validated ''description'')
                \<and> (validated ''image_id'' = None
                     \<longrightarrow> alias_update_fields validated = normalize_fields validated)
                \<and> (validated = restrict_map volume
                                  {''name'', ''description'', ''display_name'',
                                   ''display_description'', ''metadata''}
                     \<longrightarrow> dom (alias_update_fields validated)
                           \<subseteq> {''display_name'', ''display_description'', ''metadata''}
                         \<and> alias_update_fields validated ''display_name''
                             = (case volume ''name'' of
                                  Some v \<Rightarrow> Some v
                                | None \<Rightarrow> volume ''display_name'')
                         \<and> alias_update_fields validated ''display_description''
                             = (case volume ''description'' of
                                  Some v \<Rightarrow> Some v
                                | None \<Rightarrow> volume ''display_description'')
                         \<and> alias_update_fields validated ''metadata'' = volume ''metadata'')))
   \<and> alias_update_fields [''name'' \<mapsto> VStr x] = [''display_name'' \<mapsto> VStr x]
   \<and> extract_update_keys (VDict [''name'' \<mapsto> VStr x]) valid_update_keys Map.empty
       = Inr [''name'' \<mapsto> VStr x]"
proof -
  have r1: "update env ctx vol_id body = (Inl (HTTPBadRequest (Msg ''Missing request body'')), [])"
    if "\<not> truthy body"
    using that update_rejects(1) [of body env ctx vol_id] by (simp add: missing_request_body_def)
  have r2: "update env ctx vol_id body
            = (Inl (HTTPBadRequest
                 (MsgArg ''Missing required element '%s' in request body'' (VStr ''volume''))),
               [])"
    if "truthy body \<and> py_contains ''volume'' body = Inr False"
    using that update_rejects(2) [of body env ctx vol_id] by (simp add: missing_volume_element_def)
  have r3: "update env ctx vol_id (VDict b)
            = (Inl (HTTPBadRequest
                 (MsgArg ''Missing required element '%s' in request body'' (VStr ''volume''))),
               [])"
    if "b \<noteq> Map.empty \<and> b ''volume'' = None"
    using that update_rejects(2) [of "VDict b" env ctx vol_id]
    by (simp add: missing_volume_element_def)
  have r4: "extract_update_keys (VDict volume) valid_update_keys Map.empty
            = Inr (restrict_map volume
                     {''name'', ''description'', ''display_name'', ''display_description'',
                      ''metadata''})
          \<and> (validate_name_and_description env
                 (VDict (restrict_map volume
                           {''name'', ''description'', ''display_name'', ''display_description'',
                            ''metadata''})) = Inl e
              \<longrightarrow> update env ctx vol_id (VDict b) = (Inl e, []))
          \<and> (validate_name_and_description env
                 (VDict (restrict_map volume
                           {''name'', ''description'', ''display_name'', ''display_description'',
                            ''metadata''})) = Inr validated
              \<longrightarrow>
                (Call_volume_update vol d \<in> set (trace (update env ctx vol_id (VDict b)))
                   \<longrightarrow> d = alias_update_fields validated)
                \<and> (volume_get env ctx vol_id = Inr vol
                     \<and> notify_about_volume_usage env ctx vol ''update.start'' = None
                    \<longrightarrow> Call_volume_update vol (alias_update_fields validated)
                          \<in> set (trace (update env ctx vol_id (VDict b))))
                \<and> alias_update_fields validated ''name'' = None
                \<and> alias_update_fields validated ''description'' = None
                \<and> (validated ''name'' \<noteq> None
                     \<longrightarrow> alias_update_fields validated ''display_name'' = validated ''name'')
                \<and> (validated ''description'' \<noteq> None
                     \<longrightarrow> alias_update_fields validated ''display_description''
                           = validated ''description'')
                \<and> (validated ''image_id'' = None
                     \<longrightarrow> alias_update_fields validated = normalize_fields validated)
                \<and> (validated = restrict_map volume
                                  {''name'', ''description'', ''display_name'',
                                   ''display_description'', ''metadata''}
                     \<longrightarrow> dom (alias_update_fields validated)
                           \<subseteq> {''display_name'', ''display_description'', ''metadata''}
                         \<and> alias_update_fields validated ''display_name''
                             = (case volume ''name'' of
                                  Some v \<Rightarrow> Some v
                                | None \<Rightarrow> volume ''display_name'')
                         \<and> alias_update_fields validated ''display_description''
                             = (case volume ''description'' of
                                  Some v \<Rightarrow> Some v
                                | None \<Rightarrow> volume ''display_description'')
                         \<and> alias_update_fields validated ''metadata'' = volume ''metadata''))"
    if v: "b ''volume'' = Some (VDict volume)"
  proof -
    let ?extracted = "restrict_map volume
        {''name'', ''description'', ''display_name'', ''display_description'', ''metadata''}"
    have t: "truthy (VDict b)"
      using v by (rule truthy_dict)
    have c: "py_contains ''volume'' (VDict b) = Inr True"
      using v by simp
    have g: "py_getitem (VDict b) ''volume'' = Inr (VDict volume)"
      using v by (simp add: dict_getitem_def)
    note x = extract_update_keys_allowed [of volume]
    have bad: "update env ctx vol_id (VDict b) = (Inl e, [])"
      if "validate_name_and_description env (VDict ?extracted) = Inl e"
      using update_validation_fails [OF t c g x that] .
    have good: "(Call_volume_update vol d \<in> set (trace (update env ctx vol_id (VDict b)))
                   \<longrightarrow> d = alias_update_fields validated)
                \<and> (volume_get env ctx vol_id = Inr vol
                     \<and> notify_about_volume_usage env ctx vol ''update.start'' = None
                    \<longrightarrow> Call_volume_update vol (alias_update_fields validated)
                          \<in> set (trace (update env ctx vol_id (VDict b))))"
      if w: "validate_name_and_description env (VDict ?extracted) = Inr validated"
    proof -
      note tr = update_trace [OF t c g x w, of ctx vol_id]
      have "d = alias_update_fields validated"
        if "Call_volume_update vol d \<in> set (trace (update env ctx vol_id (VDict b)))"
        using that unfolding tr update_volume_record_trace
        by (auto split: sum.splits option.splits)
      moreover have "Call_volume_update vol (alias_update_fields validated)
                          \<in> set (trace (update env ctx vol_id (VDict b)))"
        if "volume_get env ctx vol_id = Inr vol
                     \<and> notify_about_volume_usage env ctx vol ''update.start'' = None"
        using that unfolding tr update_volume_record_trace by simp
      ultimately show ?thesis
        by blast
    qed
    have dom: "dom (alias_update_fields validated)
                 \<subseteq> {''display_name'', ''display_description'', ''metadata''}"
      if "validated = ?extracted"
      using that
      by (intro alias_update_fields_dom)
        (auto simp: valid_update_keys_set restrict_map_def dom_def split: if_splits)
    have fields: "alias_update_fields validated ''display_name''
                             = (case volume ''name'' of
                                  Some v \<Rightarrow> Some v
                                | None \<Rightarrow> volume ''display_name'')
                         \<and> alias_update_fields validated ''display_description''
                             = (case volume ''description'' of
                                  Some v \<Rightarrow> Some v
                                | None \<Rightarrow> volume ''display_description'')
                         \<and> alias_update_fields validated ''metadata'' = volume ''metadata''"
      if "validated = ?extracted"
      using that by (simp add: alias_update_fields_apply restrict_map_def)
    from x bad good dom fields alias_update_fields_props [of validated] show ?thesis
      by blast
  qed
  have r5: "extract_update_keys (VDict [''name'' \<mapsto> VStr x]) valid_update_keys Map.empty
       = Inr [''name'' \<mapsto> VStr x]"
    unfolding extract_update_keys_allowed by (auto simp: restrict_map_def fun_eq_iff)
  from r1 r2 r3 r4 rename_only [of x] r5 show ?thesis
    by blast
qed

text \<open>The two example payloads: what is extracted from them and what it is renamed to.\<close>

lemma update_payload_full_fields:
  "restrict_map update_payload_full
     {''name'', ''description'', ''display_name'', ''display_description'', ''metadata''}
   = [''name'' \<mapsto> VStr ''n'', ''description'' \<mapsto> VStr ''d'',
      ''display_name'' \<mapsto> VStr ''old n'', ''display_description'' \<mapsto> VStr ''old d'',
      ''metadata'' \<mapsto> VDict [''k'' \<mapsto> VStr ''v'']]"
  "alias_update_fields
     [''name'' \<mapsto> VStr ''n'', ''description'' \<mapsto> VStr ''d'',
      ''display_name'' \<mapsto> VStr ''old n'', ''display_description'' \<mapsto> VStr ''old d'',
      ''metadata'' \<mapsto> VDict [''k'' \<mapsto> VStr ''v'']]
   = [''display_name'' \<mapsto> VStr ''n'', ''display_description'' \<mapsto> VStr ''d'',
      ''metadata'' \<mapsto> VDict [''k'' \<mapsto> VStr ''v'']]"
  by (auto simp: fun_eq_iff alias_update_fields_apply restrict_map_def update_payload_full_def)

lemma update_payload_display_fields:
  "restrict_map update_payload_display
     {''name'', ''description'', ''display_name'', ''display_description'', ''metadata''}
   = [''display_name'' \<mapsto> VStr ''n2'', ''display_description'' \<mapsto> VStr ''d2'']"
  "alias_update_fields [''display_name'' \<mapsto> VStr ''n2'', ''display_description'' \<mapsto> VStr ''d2'']
   = [''display_name'' \<mapsto> VStr ''n2'', ''display_description'' \<mapsto> VStr ''d2'']"
  by (auto simp: fun_eq_iff alias_update_fields_apply restrict_map_def update_payload_display_def)

theorem update_field_set_witness:
  "\<not> truthy (VDict Map.empty)
   \<and> update example_env example_ctx (VStr ''V1'') (VDict Map.empty)
       = (Inl (HTTPBadRequest (Msg ''Missing request body'')), [])
   \<and> truthy body_other_key
   \<and> py_contains ''volume'' body_other_key = Inr False
   \<and> update example_env example_ctx (VStr ''V1'') body_other_key
       = (Inl (HTTPBadRequest
            (MsgArg ''Missing required element '%s' in request body'' (VStr ''volume''))), [])
   \<and> validate_name_and_description example_env (VDict [''name'' \<mapsto> VStr ''x''])
       = Inr [''name'' \<mapsto> VStr ''x'']
   \<and> volume_get example_env example_ctx (VStr ''V1'') = Inr volume_V1
   \<and> notify_about_volume_usage example_env example_ctx volume_V1 ''update.start'' = None
   \<and> Call_volume_update volume_V1 [''display_name'' \<mapsto> VStr ''x'']
       \<in> set (trace (update example_env example_ctx (VStr ''V1'') (body_rename ''x'')))
   \<and> extract_update_keys (VDict update_payload_full) valid_update_keys Map.empty
       = Inr [''name'' \<mapsto> VStr ''n'', ''description'' \<mapsto> VStr ''d'',
              ''display_name'' \<mapsto> VStr ''old n'', ''display_description'' \<mapsto> VStr ''old d'',
              ''metadata'' \<mapsto> VDict [''k'' \<mapsto> VStr ''v'']]
   \<and> Call_volume_update volume_V1
         [''display_name'' \<mapsto> VStr ''n'', ''display_description'' \<mapsto> VStr ''d'',
          ''metadata'' \<mapsto> VDict [''k'' \<mapsto> VStr ''v'']]
       \<in> set (trace (update example_env example_ctx (VStr ''V1'') body_update_full))
   \<and> extract_update_keys (VDict update_payload_display) valid_update_keys Map.empty
       = Inr [''display_name'' \<mapsto> VStr ''n2'', ''display_description'' \<mapsto> VStr ''d2'']
   \<and> Call_volume_update volume_V1
         [''display_name'' \<mapsto> VStr ''n2'', ''display_description'' \<mapsto> VStr ''d2'']
       \<in> set (trace (update example_env example_ctx (VStr ''V1'') body_update_display))"
proof -
  have f: "\<not> truthy (VDict Map.empty)"
    by simp
  have c1: "update example_env example_ctx (VStr ''V1'') (VDict Map.empty)
       = (Inl (HTTPBadRequest (Msg ''Missing request body'')), [])"
    using update_field_set
            [where body = "VDict Map.empty" and env = example_env and ctx = example_ctx
               and vol_id = "VStr ''V1''"]
          f
    by blast
  have o: "truthy body_other_key \<and> py_contains ''volume'' body_other_key = Inr False"
    by (simp add: body_other_key_def fun_eq_iff)
  have c2: "update example_env example_ctx (VStr ''V1'') body_other_key
       = (Inl (HTTPBadRequest
            (MsgArg ''Missing required element '%s' in request body'' (VStr ''volume''))), [])"
    using update_field_set
            [where body = body_other_key and env = example_env and ctx = example_ctx
               and vol_id = "VStr ''V1''"]
          o
    by blast
  have g: "volume_get example_env example_ctx (VStr ''V1'') = Inr volume_V1
     \<and> notify_about_volume_usage example_env example_ctx volume_V1 ''update.start'' = None"
    by (simp add: example_env_def volume_V1_def)
  have validate: "validate_name_and_description example_env (VDict fields) = Inr fields"
    for fields
    by (simp add: example_env_def)
  let ?K = "{''name'', ''description'', ''display_name'', ''display_description'', ''metadata''}"

  let ?b = "[''volume'' \<mapsto> VDict [''name'' \<mapsto> VStr ''x'']]"
  have b: "?b ''volume'' = Some (VDict [''name'' \<mapsto> VStr ''x''])"
    by simp
  note th = update_field_set
              [where env = example_env and ctx = example_ctx and vol_id = "VStr ''V1''"
                 and b = ?b and volume = "[''name'' \<mapsto> VStr ''x'']"
                 and validated = "[''name'' \<mapsto> VStr ''x'']" and vol = volume_V1
                 and x = "''x''"]
  have e: "alias_update_fields [''name'' \<mapsto> VStr ''x''] = [''display_name'' \<mapsto> VStr ''x'']"
    using th by blast
  have e': "restrict_map [''name'' \<mapsto> VStr ''x''] ?K = [''name'' \<mapsto> VStr ''x'']"
    by (auto simp: fun_eq_iff restrict_map_def)
  have w': "validate_name_and_description example_env
         (VDict (restrict_map [''name'' \<mapsto> VStr ''x''] ?K))
       = Inr [''name'' \<mapsto> VStr ''x'']"
    by (simp only: e' validate)
  have c3: "Call_volume_update volume_V1 (alias_update_fields [''name'' \<mapsto> VStr ''x''])
       \<in> set (trace (update example_env example_ctx (VStr ''V1'') (VDict ?b)))"
    using th b w' g by blast

  let ?full = "[''name'' \<mapsto> VStr ''n'', ''description'' \<mapsto> VStr ''d'',
      ''display_name'' \<mapsto> VStr ''old n'', ''display_description'' \<mapsto> VStr ''old d'',
      ''metadata'' \<mapsto> VDict [''k'' \<mapsto> VStr ''v'']]"
  let ?bf = "[''volume'' \<mapsto> VDict update_payload_full]"
  have bf: "?bf ''volume'' = Some (VDict update_payload_full)"
    by simp
  note thf = update_field_set
              [where env = example_env and ctx = example_ctx and vol_id = "VStr ''V1''"
                 and b = ?bf and volume = update_payload_full
                 and validated = ?full and vol = volume_V1]
  have xf: "extract_update_keys (VDict update_payload_full) valid_update_keys Map.empty
       = Inr (restrict_map update_payload_full ?K)"
    using thf bf by blast
  have wf: "validate_name_and_description example_env
         (VDict (restrict_map update_payload_full ?K)) = Inr ?full"
    by (simp only: update_payload_full_fields(1) validate)
  have cf: "Call_volume_update volume_V1 (alias_update_fields ?full)
       \<in> set (trace (update example_env example_ctx (VStr ''V1'') (VDict ?bf)))"
    using thf bf wf g by blast

  let ?disp = "[''display_name'' \<mapsto> VStr ''n2'', ''display_description'' \<mapsto> VStr ''d2'']"
  let ?bd = "[''volume'' \<mapsto> VDict update_payload_display]"
  have bd: "?bd ''volume'' = Some (VDict update_payload_display)"
    by simp
  note thd = update_field_set
              [where env = example_env and ctx = example_ctx and vol_id = "VStr ''V1''"
                 and b = ?bd and volume = update_payload_display
                 and validated = ?disp and vol = volume_V1]
  have xd: "extract_update_keys (VDict update_payload_display) valid_update_keys Map.empty
       = Inr (restrict_map update_payload_display ?K)"
    using thd bd by blast
  have wd: "validate_name_and_description example_env
         (VDict (restrict_map update_payload_display ?K)) = Inr ?disp"
    by (simp only: update_payload_display_fields(1) validate)
  have cd: "Call_volume_update volume_V1 (alias_update_fields ?disp)
       \<in> set (trace (update example_env example_ctx (VStr ''V1'') (VDict ?bd)))"
    using thd bd wd g by blast

  from f c1 o c2 validate [of "[''name'' \<mapsto> VStr ''x'']"] g c3 [unfolded e]
    xf [unfolded update_payload_full_fields(1)] cf [unfolded update_payload_full_fields(2)]
    xd [unfolded update_payload_display_fields(1)] cd [unfolded update_payload_display_fields(2)]
  show ?thesis
    by (simp add: body_rename_def body_update_full_def body_update_display_def)
qed

section \<open>End to end\<close>

text \<open>
  The request \<^verbatim>\<open>{"volume": {"size": 5}}\<close> reaches \<^verbatim>\<open>volume_api.create\<close> with size 5 and
  no reference, without any lookup; the request \<^verbatim>\<open>{"volume": {"snapshot_id": "S1"}}\<close>
  reaches it with the size 10 of the snapshot.
\<close>

lemma create_size_only:
  "create example_env example_ctx body_size_only =
     (Inr [''status'' \<mapsto> VStr ''creating'', ''size'' \<mapsto> VInt 5],
      [Call_volume_create (plain_kwargs (VInt 5))])"
  by (simp add: body_size_only_def plain_kwargs_def example_defs model_defs)

lemma create_from_snapshot_size:
  "map (\<lambda>ev. case ev of Call_volume_create k \<Rightarrow> Some (arg_size k) | _ \<Rightarrow> None)
     (trace (create example_env example_ctx body_from_snapshot))
   = [None, Some (VInt 10)]"
  by (simp add: create_from_snapshot plain_kwargs_def)

end
